theory Spec2Isabelle
  imports Complex_Main "HOL-Library.AList" "HOL-Library.Multiset"
begin

section \<open>Brewery planner: calculation and scenario-data engine\<close>

text \<open>
  Shallow embedding of the calculation and store functions of
  \<^verbatim>\<open>breweryplanner.py\<close>. Conventions of the model:
  \<^item> a Python float is an exact real number (rounding, infinities and the sign of zero are
    not modelled; a NaN is modelled only where the source reads raw cell values);
  \<^item> a pandas table is the list of its rows, each row a record of its columns;
  \<^item> a Python dict is an association list in insertion order (\<open>AList.update\<close> is
    assignment to a key), or a map where only lookups occur;
  \<^item> an exception is a value of \<open>py_error\<close>, returned as \<open>Inl\<close>;
  \<^item> identifiers and string constants keep the source's spelling, with the accented
    letters of the Portuguese names written as their base letters.
\<close>

datatype py_error = TypeError | AttributeError | ValueError | IndexError | ZeroDivisionError

subsection \<open>Payback series\<close>

text \<open>
  \<^verbatim>\<open>build_payback_series(invest, monthly_cash, months=84)\<close>: the loop over
  \<^verbatim>\<open>range(1, months + 1)\<close> carries the accumulator \<open>acc\<close>, the list \<open>saldo\<close> and
  the payback month \<open>pay_m\<close>.
\<close>

fun payback_loop :: "real \<Rightarrow> int list \<Rightarrow> real \<Rightarrow> real list \<Rightarrow> int option \<Rightarrow> real list \<times> int option" where
  "payback_loop monthly_cash [] acc saldo pay_m = (saldo, pay_m)"
| "payback_loop monthly_cash (m # ms) acc saldo pay_m =
     (let acc' = acc + monthly_cash;
          saldo' = saldo @ [acc'];
          pay_m' = (if acc' \<ge> 0 \<and> pay_m = None then Some m else pay_m)
      in payback_loop monthly_cash ms acc' saldo' pay_m')"

text \<open>
  The table is built from the two columns \<^verbatim>\<open>list(range(0, months + 1))\<close> and
  \<^verbatim>\<open>saldo\<close>; pandas raises \<^verbatim>\<open>ValueError\<close> when their lengths differ, which
  happens exactly for a negative \<^verbatim>\<open>months\<close>. The table is the list of its
  (month, balance) rows.
\<close>

definition build_payback_series :: "real \<Rightarrow> real \<Rightarrow> int \<Rightarrow> py_error + ((int \<times> real) list \<times> int option)" where
  "build_payback_series invest monthly_cash months =
     (case payback_loop monthly_cash [1..months] (- invest) [- invest] None of
        (saldo, pay_m) \<Rightarrow>
          (let meses = [0..months]
           in if length meses = length saldo then Inr (zip meses saldo, pay_m)
              else Inl ValueError))"

text \<open>
  The payback month in the spec's words: the first month index of the series at which
  the cumulative balance is not negative.
\<close>

definition spec_payback_month :: "(int \<times> real) list \<Rightarrow> int option" where
  "spec_payback_month series = map_option fst (find (\<lambda>(m, b). 0 \<le> b) series)"

subsection \<open>Price installment and the financed payback loop\<close>

definition pmt_price :: "real \<Rightarrow> real \<Rightarrow> int \<Rightarrow> real" where
  "pmt_price pv rate_month nper =
     (if nper \<le> 0 then 0
      else if rate_month \<le> 0 then pv / of_int nper
      else (pv * rate_month) / (1 - (1 + rate_month) powi (- nper)))"

text \<open>
  The financing branch of the payback page computes, from the financed amount
  \<open>valor_fin\<close>, the monthly rate \<open>i_m\<close> and the sliders \<open>prazo\<close> and \<open>carencia\<close>:
  \<^verbatim>\<open>parcela = pmt_price(valor_fin, i_m, max(1, prazo - carencia))\<close> and
  \<^verbatim>\<open>juros_only = valor_fin * i_m\<close>.
\<close>

definition parcela :: "real \<Rightarrow> real \<Rightarrow> int \<Rightarrow> int \<Rightarrow> real" where
  "parcela valor_fin i_m prazo carencia = pmt_price valor_fin i_m (max 1 (prazo - carencia))"

definition juros_only :: "real \<Rightarrow> real \<Rightarrow> real" where
  "juros_only valor_fin i_m = valor_fin * i_m"

text \<open>
  The loop \<^verbatim>\<open>for m in range(1, 85)\<close> of the branch "Payback com divida":
  \<^verbatim>\<open>pay = juros_only if m <= carencia else parcela\<close>,
  \<^verbatim>\<open>acc += (lucro_operacional - pay)\<close>.
\<close>

fun divida_loop :: "real \<Rightarrow> real \<Rightarrow> real \<Rightarrow> int \<Rightarrow> int list \<Rightarrow> real \<Rightarrow> real list \<Rightarrow> int option
    \<Rightarrow> real list \<times> int option" where
  "divida_loop lucro_operacional juros parc carencia [] acc saldo m_pay = (saldo, m_pay)"
| "divida_loop lucro_operacional juros parc carencia (m # ms) acc saldo m_pay =
     (let pay = (if m \<le> carencia then juros else parc);
          acc' = acc + (lucro_operacional - pay);
          saldo' = saldo @ [acc'];
          m_pay' = (if acc' \<ge> 0 \<and> m_pay = None then Some m else m_pay)
      in divida_loop lucro_operacional juros parc carencia ms acc' saldo' m_pay')"

definition payback_com_divida :: "real \<Rightarrow> real \<Rightarrow> real \<Rightarrow> real \<Rightarrow> int \<Rightarrow> int \<Rightarrow> real list \<times> int option" where
  "payback_com_divida invest_inicial lucro_operacional valor_fin i_m prazo carencia =
     divida_loop lucro_operacional (juros_only valor_fin i_m) (parcela valor_fin i_m prazo carencia)
       carencia [1..84] (- invest_inicial) [- invest_inicial] None"

text \<open>
  The amount taken from the operating cash in month \<open>m\<close>, read off a balance list:
  the operating cash less the change of the balance from month \<open>m - 1\<close> to month \<open>m\<close>.
\<close>

definition deducted :: "real \<Rightarrow> real list \<Rightarrow> nat \<Rightarrow> real" where
  "deducted lucro_operacional saldo m = lucro_operacional - (saldo ! m - saldo ! (m - 1))"

subsection \<open>Recipe cost per liter\<close>

text \<open>
  \<open>prem\<close> is the dict of premises; \<^verbatim>\<open>prem.get(k, 0.0)\<close> is \<open>dict_get prem k 0\<close>.
\<close>

definition dict_get :: "('k \<rightharpoonup> 'v) \<Rightarrow> 'k \<Rightarrow> 'v \<Rightarrow> 'v" where
  "dict_get d k dflt = (case d k of None \<Rightarrow> dflt | Some v \<Rightarrow> v)"

definition calc_gip_total :: "(string \<rightharpoonup> real) \<Rightarrow> real" where
  "calc_gip_total prem =
     dict_get prem ''GIP Quimicos (R$/L)'' 0
     + dict_get prem ''GIP Energia (R$/L)'' 0
     + dict_get prem ''GIP Agua (R$/L)'' 0
     + dict_get prem ''GIP CO2 (R$/L)'' 0"

record receita_header =
  rh_ID :: int
  rh_Nome :: string
  rh_Volume_Batelada_L :: real

record receita_detalhe =
  rd_Receita_ID :: int
  rd_Insumo :: string
  rd_Qtd :: real
  rd_Custo_Unit :: real
  rd_Custo_Total :: real

text \<open>
  The table of recipe lines, with the one fact about its columns that the function
  tests: whether the column \<^verbatim>\<open>Custo_Total\<close> is there.
\<close>

record receitas_det =
  has_Custo_Total :: bool
  det_rows :: "receita_detalhe list"

definition line_total :: "receitas_det \<Rightarrow> receita_detalhe \<Rightarrow> real" where
  "line_total df r = (if has_Custo_Total df then rd_Custo_Total r else rd_Qtd r * rd_Custo_Unit r)"

text \<open>
  \<^verbatim>\<open>.iloc[0]\<close> on an empty selection raises \<^verbatim>\<open>IndexError\<close>; the branch is kept.
  \<^verbatim>\<open>not recipe_name\<close> holds for \<^verbatim>\<open>None\<close> and for the empty string.
\<close>

definition recipe_cost_per_liter ::
    "receita_header list \<Rightarrow> receitas_det \<Rightarrow> (string \<rightharpoonup> real) \<Rightarrow> string option \<Rightarrow> py_error + real" where
  "recipe_cost_per_liter receitas_header_df receitas_det_df prem recipe_name =
     (let gip = calc_gip_total prem in
      case receitas_header_df of
        [] \<Rightarrow> Inr gip
      | first_row # _ \<Rightarrow>
          (let names = set (map rh_Nome receitas_header_df);
               recipe_name' =
                 (case recipe_name of
                    None \<Rightarrow> rh_Nome first_row
                  | Some n \<Rightarrow> if n = [] \<or> n \<notin> names then rh_Nome first_row else n)
           in case filter (\<lambda>r. rh_Nome r = recipe_name') receitas_header_df of
                [] \<Rightarrow> Inl IndexError
              | row # _ \<Rightarrow>
                  (let rid = rh_ID row;
                       vol = rh_Volume_Batelada_L row;
                       det = filter (\<lambda>r. rd_Receita_ID r = rid) (det_rows receitas_det_df)
                   in if det = [] \<or> vol \<le> 0 then Inr gip
                      else Inr (sum_list (map (line_total receitas_det_df) det) / vol + gip))))"

text \<open>
  The cost of one recipe in the spec's words: the sum of the recipe's line totals
  divided by the batch volume, plus the indirect cost per liter; just the indirect cost
  if the batch volume is not positive or the recipe has no lines.
\<close>

definition spec_recipe_cost :: "receita_header \<Rightarrow> receitas_det \<Rightarrow> (string \<rightharpoonup> real) \<Rightarrow> real" where
  "spec_recipe_cost row det prem =
     (let ls = filter (\<lambda>r. rd_Receita_ID r = rh_ID row) (det_rows det)
      in if ls = [] \<or> rh_Volume_Batelada_L row \<le> 0 then calc_gip_total prem
         else sum_list (map (line_total det) ls) / rh_Volume_Batelada_L row + calc_gip_total prem)"

text \<open>
  The data of the end-to-end example: two recipes of 500 L, the lines of the second
  one totalling 2000, and the indirect components 0.25, 0.35, 0.15 and 0.15.
\<close>

definition example_ipa :: receita_header where
  "example_ipa = \<lparr>rh_ID = 1, rh_Nome = ''American IPA'', rh_Volume_Batelada_L = 500\<rparr>"

definition example_pilsen :: receita_header where
  "example_pilsen = \<lparr>rh_ID = 3, rh_Nome = ''Pilsen Padrao'', rh_Volume_Batelada_L = 500\<rparr>"

definition example_det :: receitas_det where
  "example_det = \<lparr>has_Custo_Total = True,
     det_rows =
       [\<lparr>rd_Receita_ID = 3, rd_Insumo = ''Malte Pilsen Agraria'', rd_Qtd = 100, rd_Custo_Unit = 6,
          rd_Custo_Total = 600\<rparr>,
        \<lparr>rd_Receita_ID = 1, rd_Insumo = ''Malte Pale Ale'', rd_Qtd = 110, rd_Custo_Unit = 7.5,
          rd_Custo_Total = 825\<rparr>,
        \<lparr>rd_Receita_ID = 3, rd_Insumo = ''W-34/70 (Lager)'', rd_Qtd = 40, rd_Custo_Unit = 35,
          rd_Custo_Total = 1400\<rparr>]\<rparr>"

definition example_prem :: "string \<rightharpoonup> real" where
  "example_prem =
     [''GIP Quimicos (R$/L)'' \<mapsto> 0.25, ''GIP Energia (R$/L)'' \<mapsto> 0.35,
      ''GIP Agua (R$/L)'' \<mapsto> 0.15, ''GIP CO2 (R$/L)'' \<mapsto> 0.15,
      ''Impostos s/ venda (%)'' \<mapsto> 10]"

subsection \<open>Prices, packaging and the normalised distribution\<close>

record preco_row =
  pr_SKU :: string
  pr_Canal :: string
  pr_Preco_Unit :: real

record emb_row =
  emb_Embalagem :: string
  emb_Volume_L :: real
  emb_Custo_Unit :: real

definition get_price :: "preco_row list \<Rightarrow> string \<Rightarrow> string \<Rightarrow> real" where
  "get_price precos_df sku canal =
     (case filter (\<lambda>r. pr_SKU r = sku \<and> pr_Canal r = canal) precos_df of
        [] \<Rightarrow> 0
      | r # _ \<Rightarrow> pr_Preco_Unit r)"

definition get_pack_cost :: "emb_row list \<Rightarrow> string \<Rightarrow> real \<times> real" where
  "get_pack_cost emb_df embalagem =
     (case filter (\<lambda>r. emb_Embalagem r = embalagem) emb_df of
        [] \<Rightarrow> (0, 0)
      | r # _ \<Rightarrow> (emb_Volume_L r, emb_Custo_Unit r))"

text \<open>
  A value of a distribution dict as \<^verbatim>\<open>normalize_dist\<close> reads it: \<^verbatim>\<open>None\<close>
  (a missing value), a NaN (an invalid number) or a number.
  \<^verbatim>\<open>max(0.0, float(v or 0.0))\<close> is \<open>0\<close> for \<^verbatim>\<open>None\<close>; for a NaN it is the first
  argument of \<^verbatim>\<open>max\<close>, since no comparison with a NaN holds.
\<close>

datatype py_num = PNone | PNaN | PFloat real

definition clean_value :: "py_num \<Rightarrow> real" where
  "clean_value v = (case v of PNone \<Rightarrow> 0 | PNaN \<Rightarrow> 0 | PFloat x \<Rightarrow> max 0 x)"

definition normalize_dist :: "(string \<times> py_num) list \<Rightarrow> (string \<times> real) list" where
  "normalize_dist dist_in =
     (let clean = map (\<lambda>(k, v). (k, clean_value v)) dist_in;
          s = sum_list (map snd clean)
      in if s \<le> 0 then clean
         else map (\<lambda>(k, v). (k, (v / s) * 100)) clean)"

subsection \<open>Monthly result (DRE)\<close>

record dre =
  Receita_bruta :: real
  Impostos :: real
  CMV_liquido :: real
  Custo_embalagens :: real
  Custo_copos :: real
  CMV_total :: real
  Margem_de_contribuicao :: real
  Taproom_copos_mes :: real
  Varejo_chope_L_mes :: real
  Varejo_embalado_L_mes :: real

text \<open>
  The division of two floats where the divisor is a value of the tables: Python raises
  \<^verbatim>\<open>ZeroDivisionError\<close> for a divisor equal to zero.
\<close>

definition py_div :: "real \<Rightarrow> real \<Rightarrow> py_error + real" where
  "py_div a b = (if b = 0 then Inl ZeroDivisionError else Inr (a / b))"

text \<open>
  The loop over the normalised distribution, with its two accumulators
  \<open>receita_emb\<close> and \<open>custo_embalagem_total\<close>. The body for one entry comes first:
  \<^verbatim>\<open>continue\<close> leaves the accumulators as they are.
\<close>

definition emb_item :: "emb_row list \<Rightarrow> preco_row list \<Rightarrow> real \<Rightarrow> string \<times> real \<Rightarrow> real \<times> real
    \<Rightarrow> py_error + (real \<times> real)" where
  "emb_item emb_df precos_df vol_vemb item acc =
     (case item of
        (emb_name, pct) \<Rightarrow>
          (case acc of
             (receita_emb, custo_embalagem_total) \<Rightarrow>
               (let vol_emb = vol_vemb * (pct / 100)
                in case get_pack_cost emb_df emb_name of
                     (v_l, c_u) \<Rightarrow>
                       if v_l \<le> 0 then Inr (receita_emb, custo_embalagem_total)
                       else
                         (case py_div vol_emb v_l of
                            Inl e \<Rightarrow> Inl e
                          | Inr unidades \<Rightarrow>
                              (let preco_u = get_price precos_df emb_name ''Varejo''
                               in Inr (receita_emb + unidades * preco_u,
                                       custo_embalagem_total + unidades * c_u))))))"

fun emb_loop :: "emb_row list \<Rightarrow> preco_row list \<Rightarrow> real \<Rightarrow> (string \<times> real) list \<Rightarrow> real \<times> real
    \<Rightarrow> py_error + (real \<times> real)" where
  "emb_loop emb_df precos_df vol_vemb [] acc = Inr acc"
| "emb_loop emb_df precos_df vol_vemb (item # rest) acc =
     (case emb_item emb_df precos_df vol_vemb item acc of
        Inl e \<Rightarrow> Inl e
      | Inr acc' \<Rightarrow> emb_loop emb_df precos_df vol_vemb rest acc')"

text \<open>
  The number of cups: \<^verbatim>\<open>copo_vol_l = copo_vol_l or 0.473\<close> replaces a volume equal to
  zero, then \<^verbatim>\<open>cups = vol_tap / copo_vol_l if copo_vol_l > 0 else 0.0\<close>.
\<close>

definition taproom_cups :: "emb_row list \<Rightarrow> real \<Rightarrow> py_error + (real \<times> real)" where
  "taproom_cups emb_df vol_tap =
     (case get_pack_cost emb_df ''Copo Taproom'' of
        (copo_vol_l0, copo_custo) \<Rightarrow>
          (let copo_vol_l = (if copo_vol_l0 = 0 then 0.473 else copo_vol_l0)
           in if copo_vol_l > 0
              then (case py_div vol_tap copo_vol_l of
                      Inl e \<Rightarrow> Inl e
                    | Inr cups \<Rightarrow> Inr (cups, copo_custo))
              else Inr (0, copo_custo)))"

text \<open>
  The packaging page reads the same row for the initial value of its slider
  \<^verbatim>\<open>Volume do copo (ml)\<close>:
  \<^verbatim>\<open>int(copo_vol_l * 1000) if copo_vol_l > 0 else 473\<close>.
\<close>

definition copo_vol_ml_inicial :: "emb_row list \<Rightarrow> int" where
  "copo_vol_ml_inicial emb_df =
     (case get_pack_cost emb_df ''Copo Taproom'' of
        (copo_vol_l, copo_custo_ref) \<Rightarrow>
          if copo_vol_l > 0 then \<lfloor>copo_vol_l * 1000\<rfloor> else 473)"

definition compute_monthly_dre ::
    "real \<Rightarrow> real \<Rightarrow> real \<Rightarrow> real \<Rightarrow> (string \<times> py_num) list \<Rightarrow> string option
     \<Rightarrow> receita_header list \<Rightarrow> receitas_det \<Rightarrow> emb_row list \<Rightarrow> preco_row list
     \<Rightarrow> (string \<rightharpoonup> real) \<Rightarrow> py_error + dre" where
  "compute_monthly_dre volume_mes_l0 mix_taproom mix_varejo_chope mix_varejo_emb dist_emb_percent
       receita_base_nome receitas_header_df receitas_det_df emb_df precos_df prem =
     (let volume_mes_l = max 0 volume_mes_l0;
          impostos_pct = dict_get prem ''Impostos s/ venda (%)'' 0 / 100
      in case recipe_cost_per_liter receitas_header_df receitas_det_df prem receita_base_nome of
           Inl e \<Rightarrow> Inl e
         | Inr custo_liquido_l \<Rightarrow>
             (let vol_tap = volume_mes_l * (mix_taproom / 100);
                  vol_vch = volume_mes_l * (mix_varejo_chope / 100);
                  vol_vemb = volume_mes_l * (mix_varejo_emb / 100);
                  preco_chope_l = get_price precos_df ''Chope (R$/L)'' ''Varejo'';
                  preco_copo = get_price precos_df ''Copo Taproom'' ''Taproom''
              in case taproom_cups emb_df vol_tap of
                   Inl e \<Rightarrow> Inl e
                 | Inr (cups, copo_custo) \<Rightarrow>
                     (let receita_tap = cups * preco_copo;
                          custo_copo_total = cups * copo_custo;
                          receita_vch = vol_vch * preco_chope_l;
                          dist_emb = normalize_dist dist_emb_percent
                      in case emb_loop emb_df precos_df vol_vemb dist_emb (0, 0) of
                           Inl e \<Rightarrow> Inl e
                         | Inr (receita_emb, custo_embalagem_total) \<Rightarrow>
                             (let receita_bruta = receita_tap + receita_vch + receita_emb;
                                  impostos = receita_bruta * impostos_pct;
                                  cmv_liquido = volume_mes_l * custo_liquido_l;
                                  cmv = cmv_liquido + custo_embalagem_total + custo_copo_total;
                                  margem = receita_bruta - impostos - cmv
                              in Inr \<lparr> Receita_bruta = receita_bruta,
                                       Impostos = impostos,
                                       CMV_liquido = cmv_liquido,
                                       Custo_embalagens = custo_embalagem_total,
                                       Custo_copos = custo_copo_total,
                                       CMV_total = cmv,
                                       Margem_de_contribuicao = margem,
                                       Taproom_copos_mes = cups,
                                       Varejo_chope_L_mes = vol_vch,
                                       Varejo_embalado_L_mes = vol_vemb \<rparr>))))"

text \<open>
  The unit count of one entry of the distribution in the spec's words: its allotted
  liters divided by the volume per unit of its packaging, and no count at all for a
  packaging whose volume per unit is not positive.
\<close>

definition spec_unidades :: "emb_row list \<Rightarrow> real \<Rightarrow> string \<times> real \<Rightarrow> real option" where
  "spec_unidades emb_df vol_vemb item =
     (case item of
        (emb_name, pct) \<Rightarrow>
          (let v_l = fst (get_pack_cost emb_df emb_name)
           in if v_l \<le> 0 then None else Some (vol_vemb * (pct / 100) / v_l)))"

text \<open>Packaging, prices and a distribution for the examples (values of the default scenario).\<close>

definition example_emb :: "emb_row list" where
  "example_emb =
     [\<lparr>emb_Embalagem = ''Lata 473ml'', emb_Volume_L = 0.473, emb_Custo_Unit = 1.60\<rparr>,
      \<lparr>emb_Embalagem = ''Garrafa 600ml'', emb_Volume_L = 0.600, emb_Custo_Unit = 1.40\<rparr>,
      \<lparr>emb_Embalagem = ''Copo Taproom'', emb_Volume_L = 0.473, emb_Custo_Unit = 0.25\<rparr>]"

definition example_precos :: "preco_row list" where
  "example_precos =
     [\<lparr>pr_SKU = ''Lata 473ml'', pr_Canal = ''Varejo'', pr_Preco_Unit = 22\<rparr>,
      \<lparr>pr_SKU = ''Garrafa 600ml'', pr_Canal = ''Varejo'', pr_Preco_Unit = 26\<rparr>,
      \<lparr>pr_SKU = ''Chope (R$/L)'', pr_Canal = ''Varejo'', pr_Preco_Unit = 13\<rparr>,
      \<lparr>pr_SKU = ''Copo Taproom'', pr_Canal = ''Taproom'', pr_Preco_Unit = 20\<rparr>]"

definition example_dist :: "(string \<times> py_num) list" where
  "example_dist = [(''Lata 473ml'', PFloat 45), (''Garrafa 600ml'', PFloat 15)]"

text \<open>
  A packaging table without the Taproom cup and with a type of volume zero, and a
  distribution over two of its types.
\<close>

definition example_emb_zero :: "emb_row list" where
  "example_emb_zero =
     [\<lparr>emb_Embalagem = ''Lata 473ml'', emb_Volume_L = 0.473, emb_Custo_Unit = 1.60\<rparr>,
      \<lparr>emb_Embalagem = ''Long Neck'', emb_Volume_L = 0, emb_Custo_Unit = 1.10\<rparr>]"

definition example_dist_zero :: "(string \<times> py_num) list" where
  "example_dist_zero = [(''Lata 473ml'', PFloat 45), (''Long Neck'', PFloat 15)]"

subsection \<open>The persisted store\<close>

text \<open>
  A parsed JSON document. An object is the dict that \<^verbatim>\<open>json.load\<close> builds, in
  insertion order; \<^verbatim>\<open>None\<close> is \<open>JNull\<close>; integers and floats are both \<open>JNum\<close>.
\<close>

datatype json =
  JNull
  | JBool bool
  | JNum real
  | JStr string
  | JArr "json list"
  | JObj "(string \<times> json) list"

text \<open>
  What \<^verbatim>\<open>load_db\<close> finds on disk: no file, a file that \<^verbatim>\<open>json.load\<close> rejects
  (any exception inside the \<^verbatim>\<open>try\<close>), or a parsed document.
\<close>

datatype db_file = Missing | Unreadable | Parsed json

text \<open>Python's truth value of a parsed JSON value.\<close>

definition truthy :: "json \<Rightarrow> bool" where
  "truthy v =
     (case v of
        JNull \<Rightarrow> False
      | JBool b \<Rightarrow> b
      | JNum x \<Rightarrow> x \<noteq> 0
      | JStr s \<Rightarrow> s \<noteq> []
      | JArr xs \<Rightarrow> xs \<noteq> []
      | JObj kv \<Rightarrow> kv \<noteq> [])"

text \<open>\<^verbatim>\<open>p in s\<close> for two strings: \<open>p\<close> occurs in \<open>s\<close> as a contiguous substring.\<close>

fun is_substring :: "string \<Rightarrow> string \<Rightarrow> bool" where
  "is_substring p [] = (p = [])"
| "is_substring p (c # s) = (take (length p) (c # s) = p \<or> is_substring p s)"

text \<open>
  \<^verbatim>\<open>k in raw\<close> for a string \<open>k\<close>: a key test on a dict, a membership test on a list, a
  substring test on a string, and a \<^verbatim>\<open>TypeError\<close> on a number, a boolean or
  \<^verbatim>\<open>None\<close>.
\<close>

definition py_in :: "string \<Rightarrow> json \<Rightarrow> py_error + bool" where
  "py_in k raw =
     (case raw of
        JObj kv \<Rightarrow> Inr (k \<in> set (map fst kv))
      | JArr xs \<Rightarrow> Inr (JStr k \<in> set xs)
      | JStr s \<Rightarrow> Inr (is_substring k s)
      | _ \<Rightarrow> Inl TypeError)"

text \<open>\<^verbatim>\<open>d.get(k)\<close> on a dict.\<close>

definition dget :: "(string \<times> json) list \<Rightarrow> string \<Rightarrow> json" where
  "dget d k = (case map_of d k of None \<Rightarrow> JNull | Some v \<Rightarrow> v)"

text \<open>\<^verbatim>\<open>raw.get(k)\<close>: only a dict has the method.\<close>

definition py_get :: "json \<Rightarrow> string \<Rightarrow> py_error + json" where
  "py_get raw k = (case raw of JObj kv \<Rightarrow> Inr (dget kv k) | _ \<Rightarrow> Inl AttributeError)"

text \<open>\<^verbatim>\<open>base.update(other)\<close>: the items of \<open>other\<close> are assigned in their order.\<close>

definition dict_update :: "('k \<times> 'v) list \<Rightarrow> ('k \<times> 'v) list \<Rightarrow> ('k \<times> 'v) list" where
  "dict_update base other = foldl (\<lambda>b (k, v). AList.update k v b) base other"

text \<open>The default scenario. Its tables and dicts are the literals of \<^verbatim>\<open>default_scenario()\<close>.\<close>

definition default_capex_db :: json where
  "default_capex_db =
     JArr
      [JObj [(''Categoria'', JStr ''Producao Quente''),
        (''Item'', JStr ''Tribloco 500L Industrial''), (''Valor'', JNum 68000),
        (''Status'', JStr ''Orcado'')], JObj [(''Categoria'', JStr ''Producao Quente''),
        (''Item'', JStr ''Moinho de Rolos Alta Capacidade''), (''Valor'', JNum 4500),
        (''Status'', JStr ''Pendente'')], JObj [(''Categoria'', JStr ''Fermentacao''),
        (''Item'', JStr ''Fermentador Conico 500L (Unid 1)''), (''Valor'', JNum 14500),
        (''Status'', JStr ''Orcado'')], JObj [(''Categoria'', JStr ''Fermentacao''),
        (''Item'', JStr ''Fermentador Conico 500L (Unid 2)''), (''Valor'', JNum 14500),
        (''Status'', JStr ''Orcado'')], JObj [(''Categoria'', JStr ''Fermentacao''),
        (''Item'', JStr ''Fermentador Conico 500L (Unid 3)''), (''Valor'', JNum 14500),
        (''Status'', JStr ''Orcado'')], JObj [(''Categoria'', JStr ''Fermentacao''),
        (''Item'', JStr ''Fermentador Conico 500L (Unid 4)''), (''Valor'', JNum 14500),
        (''Status'', JStr ''Orcado'')], JObj [(''Categoria'', JStr ''Frio''),
        (''Item'', JStr ''Chiller 15.000 kcal + Bomba Glicol''), (''Valor'', JNum 18500),
        (''Status'', JStr ''Pendente'')], JObj [(''Categoria'', JStr ''Frio''),
        (''Item'', JStr ''Camara Fria Modular (3x3m)''),
         (''Valor'', JNum 12000),
           (''Status'', JStr ''Pendente'')], JObj [(''Categoria'', JStr ''Envase''),
           (''Item'', JStr ''Envasadora Counter Pressure Semi-auto''), (''Valor'', JNum 3500),
           (''Status'', JStr ''Comprado'')], JObj [(''Categoria'', JStr ''Logistica''),
           (''Item'', JStr ''Parque Barris Inox (Lote A)''), (''Valor'', JNum 16500),
           (''Status'', JStr ''Pendente'')], JObj [(''Categoria'', JStr ''Infraestrutura''),
           (''Item'', JStr ''Adequacao Civil e Piso''), (''Valor'', JNum 35000),
           (''Status'', JStr ''Estimado'')], JObj [(''Categoria'', JStr ''Infraestrutura''),
           (''Item'', JStr ''Licenciamento e Projetos''), (''Valor'', JNum 5000),
           (''Status'', JStr ''Estimado'')]]"

definition default_opex_outros_db :: json where
  "default_opex_outros_db =
     JArr
      [JObj [(''Descricao'', JStr ''Aluguel Galpao''),
        (''Valor'', JNum 5000)], JObj [(''Descricao'', JStr ''Energia (Fixo)''),
        (''Valor'', JNum 1500)], JObj [(''Descricao'', JStr ''Marketing''),
        (''Valor'', JNum 2000)], JObj [(''Descricao'', JStr ''Internet/Telefonia''),
        (''Valor'', JNum 250)], JObj [(''Descricao'', JStr ''Contabilidade''),
        (''Valor'', JNum 300)]]"

definition default_funcionarios_db :: json where
  "default_funcionarios_db =
     JArr
      [JObj [(''Nome'', JStr ''Cervejeiro(a)''), (''Modalidade'', JStr ''CLT''),
         (''Salario Bruto'', JNum 4500), (''Encargos CLT (%)'', JNum 70),
           (''Considerar 13o'', JBool True),
           (''Considerar Ferias'', JBool True)], JObj [(''Nome'', JStr ''Auxiliar Producao''),
           (''Modalidade'', JStr ''CLT''),
         (''Salario Bruto'', JNum 2500), (''Encargos CLT (%)'', JNum 70),
           (''Considerar 13o'', JBool True),
           (''Considerar Ferias'', JBool True)], JObj [(''Nome'', JStr ''Vendas (PJ)''),
           (''Modalidade'', JStr ''PJ''), (''Salario Bruto'', JNum 2200),
           (''Encargos CLT (%)'', JNum 0), (''Considerar 13o'', JBool False),
         (''Considerar Ferias'', JBool False)]]"

definition default_insumos_db :: json where
  "default_insumos_db =
     JArr
      [JObj [(''Tipo'', JStr ''Malte''), (''Nome'', JStr ''Malte Pilsen Agraria''),
        (''Unidade'', JStr ''kg''), (''Custo'', JNum 6.9)], JObj [(''Tipo'', JStr ''Malte''),
        (''Nome'', JStr ''Malte Pale Ale''), (''Unidade'', JStr ''kg''),
        (''Custo'', JNum 7.5)], JObj [(''Tipo'', JStr ''Malte''),
        (''Nome'', JStr ''Malte Caramelo''), (''Unidade'', JStr ''kg''),
        (''Custo'', JNum 11)], JObj [(''Tipo'', JStr ''Malte''),
        (''Nome'', JStr ''Malte Trigo (Weiss)''), (''Unidade'', JStr ''kg''),
        (''Custo'', JNum 8)], JObj [(''Tipo'', JStr ''Malte''),
        (''Nome'', JStr ''Malte Torrado/Chocolate''),
         (''Unidade'', JStr ''kg''), (''Custo'', JNum 14)], JObj [(''Tipo'', JStr ''Lupulo''),
           (''Nome'', JStr ''Lupulo Citra''), (''Unidade'', JStr ''kg''),
           (''Custo'', JNum 320)], JObj [(''Tipo'', JStr ''Lupulo''),
           (''Nome'', JStr ''Lupulo Magnum (Amargor)''),
         (''Unidade'', JStr ''kg''), (''Custo'', JNum 180)], JObj [(''Tipo'', JStr ''Lupulo''),
           (''Nome'', JStr ''Lupulo Cascade''), (''Unidade'', JStr ''kg''),
           (''Custo'', JNum 250)], JObj [(''Tipo'', JStr ''Lupulo''),
           (''Nome'', JStr ''Lupulo Saaz (Lager)''), (''Unidade'', JStr ''kg''),
           (''Custo'', JNum 280)], JObj [(''Tipo'', JStr ''Lupulo''),
           (''Nome'', JStr ''Lupulo Hallertau''), (''Unidade'', JStr ''kg''),
           (''Custo'', JNum 290)], JObj [(''Tipo'', JStr ''Levedura''),
           (''Nome'', JStr ''US-05 (Ale Americana)''),
         (''Unidade'', JStr ''pct''), (''Custo'', JNum 28)], JObj [(''Tipo'', JStr ''Levedura''),
           (''Nome'', JStr ''S-04 (Ale Inglesa/Stout)''),
         (''Unidade'', JStr ''pct''), (''Custo'', JNum 26)], JObj [(''Tipo'', JStr ''Levedura''),
           (''Nome'', JStr ''W-34/70 (Lager)''), (''Unidade'', JStr ''pct''),
           (''Custo'', JNum 35)], JObj [(''Tipo'', JStr ''Levedura''),
           (''Nome'', JStr ''WB-06 (Weiss)''), (''Unidade'', JStr ''pct''), (''Custo'', JNum 30)]]"

definition default_receitas_header :: json where
  "default_receitas_header =
     JArr
      [JObj [(''ID'', JNum 1), (''Nome'', JStr ''American IPA''),
        (''Volume Batelada (L)'', JNum 500)], JObj [(''ID'', JNum 2),
        (''Nome'', JStr ''Classic APA''),
        (''Volume Batelada (L)'', JNum 500)], JObj [(''ID'', JNum 3),
        (''Nome'', JStr ''Pilsen Padrao''),
        (''Volume Batelada (L)'', JNum 500)], JObj [(''ID'', JNum 4),
        (''Nome'', JStr ''Dry Stout''),
        (''Volume Batelada (L)'', JNum 500)], JObj [(''ID'', JNum 5),
        (''Nome'', JStr ''Weissbier''), (''Volume Batelada (L)'', JNum 500)]]"

definition default_receitas_detalhe :: json where
  "default_receitas_detalhe =
     JArr
      [JObj [(''Receita_ID'', JNum 1), (''Insumo'', JStr ''Malte Pale Ale''), (''Qtd'', JNum 110),
         (''Custo_Unit'', JNum 7.5), (''Custo_Total'', JNum 825)], JObj [(''Receita_ID'', JNum 1),
           (''Insumo'', JStr ''Malte Caramelo''), (''Qtd'', JNum 8),
         (''Custo_Unit'', JNum 11), (''Custo_Total'', JNum 88)], JObj [(''Receita_ID'', JNum 1),
           (''Insumo'', JStr ''Lupulo Magnum (Amargor)''), (''Qtd'', JNum 0.5),
           (''Custo_Unit'', JNum 180), (''Custo_Total'', JNum 90)], JObj [(''Receita_ID'', JNum 1),
           (''Insumo'', JStr ''Lupulo Citra''), (''Qtd'', JNum 4),
         (''Custo_Unit'', JNum 320),
           (''Custo_Total'', JNum 1280)], JObj [(''Receita_ID'', JNum 1),
           (''Insumo'', JStr ''US-05 (Ale Americana)''), (''Qtd'', JNum 30),
           (''Custo_Unit'', JNum 28), (''Custo_Total'', JNum 840)], JObj [(''Receita_ID'', JNum 2),
           (''Insumo'', JStr ''Malte Pale Ale''), (''Qtd'', JNum 100),
         (''Custo_Unit'', JNum 7.5), (''Custo_Total'', JNum 750)], JObj [(''Receita_ID'', JNum 2),
           (''Insumo'', JStr ''Malte Caramelo''), (''Qtd'', JNum 5),
         (''Custo_Unit'', JNum 11), (''Custo_Total'', JNum 55)], JObj [(''Receita_ID'', JNum 2),
           (''Insumo'', JStr ''Lupulo Cascade''), (''Qtd'', JNum 2.5),
         (''Custo_Unit'', JNum 250), (''Custo_Total'', JNum 625)], JObj [(''Receita_ID'', JNum 2),
           (''Insumo'', JStr ''US-05 (Ale Americana)''), (''Qtd'', JNum 25),
           (''Custo_Unit'', JNum 28), (''Custo_Total'', JNum 700)], JObj [(''Receita_ID'', JNum 3),
           (''Insumo'', JStr ''Malte Pilsen Agraria''), (''Qtd'', JNum 95),
           (''Custo_Unit'', JNum 6.9),
           (''Custo_Total'', JNum 655.5)], JObj [(''Receita_ID'', JNum 3),
           (''Insumo'', JStr ''Malte Caramelo''), (''Qtd'', JNum 3),
         (''Custo_Unit'', JNum 11), (''Custo_Total'', JNum 33)], JObj [(''Receita_ID'', JNum 3),
           (''Insumo'', JStr ''Lupulo Magnum (Amargor)''), (''Qtd'', JNum 0.3),
           (''Custo_Unit'', JNum 180), (''Custo_Total'', JNum 54)], JObj [(''Receita_ID'', JNum 3),
           (''Insumo'', JStr ''Lupulo Saaz (Lager)''), (''Qtd'', JNum 1),
           (''Custo_Unit'', JNum 280), (''Custo_Total'', JNum 280)], JObj [(''Receita_ID'', JNum 3),
           (''Insumo'', JStr ''W-34/70 (Lager)''), (''Qtd'', JNum 40),
         (''Custo_Unit'', JNum 35), (''Custo_Total'', JNum 1400)], JObj [(''Receita_ID'', JNum 4),
           (''Insumo'', JStr ''Malte Pale Ale''), (''Qtd'', JNum 85),
         (''Custo_Unit'', JNum 7.5),
           (''Custo_Total'', JNum 637.5)], JObj [(''Receita_ID'', JNum 4),
           (''Insumo'', JStr ''Malte Torrado/Chocolate''), (''Qtd'', JNum 10),
           (''Custo_Unit'', JNum 14), (''Custo_Total'', JNum 140)], JObj [(''Receita_ID'', JNum 4),
           (''Insumo'', JStr ''Malte Caramelo''), (''Qtd'', JNum 5),
         (''Custo_Unit'', JNum 11), (''Custo_Total'', JNum 55)], JObj [(''Receita_ID'', JNum 4),
           (''Insumo'', JStr ''Lupulo Magnum (Amargor)''), (''Qtd'', JNum 0.8),
           (''Custo_Unit'', JNum 180), (''Custo_Total'', JNum 144)], JObj [(''Receita_ID'', JNum 4),
           (''Insumo'', JStr ''S-04 (Ale Inglesa/Stout)''), (''Qtd'', JNum 25),
           (''Custo_Unit'', JNum 26), (''Custo_Total'', JNum 650)], JObj [(''Receita_ID'', JNum 5),
           (''Insumo'', JStr ''Malte Trigo (Weiss)''), (''Qtd'', JNum 50), (''Custo_Unit'', JNum 8),
           (''Custo_Total'', JNum 400)], JObj [(''Receita_ID'', JNum 5),
           (''Insumo'', JStr ''Malte Pilsen Agraria''), (''Qtd'', JNum 50),
           (''Custo_Unit'', JNum 6.9), (''Custo_Total'', JNum 345)], JObj [(''Receita_ID'', JNum 5),
           (''Insumo'', JStr ''Lupulo Hallertau''), (''Qtd'', JNum 0.6), (''Custo_Unit'', JNum 290),
           (''Custo_Total'', JNum 174)], JObj [(''Receita_ID'', JNum 5),
           (''Insumo'', JStr ''WB-06 (Weiss)''), (''Qtd'', JNum 25),
         (''Custo_Unit'', JNum 30), (''Custo_Total'', JNum 750)]]"

definition default_embalagens_db :: json where
  "default_embalagens_db =
     JArr
      [JObj [(''Embalagem'', JStr ''Lata 473ml''), (''Volume (L)'', JNum 0.473),
         (''Custo Unit (R$)'', JNum 1.6)], JObj [(''Embalagem'', JStr ''Garrafa 600ml''),
           (''Volume (L)'', JNum 0.6),
         (''Custo Unit (R$)'', JNum 1.4)], JObj [(''Embalagem'', JStr ''Long Neck''),
           (''Volume (L)'', JNum 0.33),
         (''Custo Unit (R$)'', JNum 1.1)], JObj [(''Embalagem'', JStr ''Barril 30L''),
           (''Volume (L)'', JNum 30),
         (''Custo Unit (R$)'', JNum 0)], JObj [(''Embalagem'', JStr ''Barril 50L''),
           (''Volume (L)'', JNum 50),
         (''Custo Unit (R$)'', JNum 0)], JObj [(''Embalagem'', JStr ''PET Growler 1,5L''),
           (''Volume (L)'', JNum 1.5),
         (''Custo Unit (R$)'', JNum 2.2)], JObj [(''Embalagem'', JStr ''Copo Taproom''),
           (''Volume (L)'', JNum 0.473),
         (''Custo Unit (R$)'', JNum 0.25)]]"

definition default_precos_sku :: json where
  "default_precos_sku =
     JArr
      [JObj [(''SKU'', JStr ''Lata 473ml''), (''Canal'', JStr ''Varejo''),
        (''Preco Unit (R$)'', JNum 22)], JObj [(''SKU'', JStr ''Garrafa 600ml''),
        (''Canal'', JStr ''Varejo''),
         (''Preco Unit (R$)'', JNum 26)], JObj [(''SKU'', JStr ''Long Neck''),
           (''Canal'', JStr ''Varejo''),
           (''Preco Unit (R$)'', JNum 14)], JObj [(''SKU'', JStr ''PET Growler 1,5L''),
           (''Canal'', JStr ''Varejo''),
         (''Preco Unit (R$)'', JNum 38)], JObj [(''SKU'', JStr ''Chope (R$/L)''),
           (''Canal'', JStr ''Varejo''),
           (''Preco Unit (R$)'', JNum 13)], JObj [(''SKU'', JStr ''Copo Taproom''),
           (''Canal'', JStr ''Taproom''),
         (''Preco Unit (R$)'', JNum 20)]]"

definition default_mix_dict :: "(string \<times> json) list" where
  "default_mix_dict =
      [(''Volume Vendido (L/mes)'', JNum 2000),
       (''Mix Taproom (%)'', JNum 30),
       (''Mix Varejo Chope (%)'', JNum 25),
       (''Mix Varejo Embalado (%)'', JNum 45),
       (''Distribuicao Embalado (%)'', JObj [(''Lata 473ml'', JNum 45),
         (''Garrafa 600ml'', JNum 15), (''Long Neck'', JNum 25), (''PET Growler 1,5L'', JNum 15)]),
       (''Receita Base (para custo)'', JStr ''Pilsen Padrao'')]"

definition default_mix :: json where
  "default_mix = JObj default_mix_dict"

definition default_premissas_dict :: "(string \<times> json) list" where
  "default_premissas_dict =
      [(''GIP Quimicos (R$/L)'', JNum 0.25),
       (''GIP Energia (R$/L)'', JNum 0.35),
       (''GIP Agua (R$/L)'', JNum 0.15),
       (''GIP CO2 (R$/L)'', JNum 0.15),
       (''Impostos s/ venda (%)'', JNum 10),
       (''Capital de giro (meses)'', JNum 6)]"

definition default_premissas :: json where
  "default_premissas = JObj default_premissas_dict"

definition default_financiamento_dict :: "(string \<times> json) list" where
  "default_financiamento_dict =
      [(''Ativo'', JBool False),
       (''Percentual financiado (%)'', JNum 60),
       (''Taxa juros a.a. (%)'', JNum 18),
       (''Prazo (meses)'', JNum 48),
       (''Carencia (meses)'', JNum 0)]"

definition default_financiamento :: json where
  "default_financiamento = JObj default_financiamento_dict"

definition default_scenario :: "(string \<times> json) list" where
  "default_scenario =
     [(''capex_db'', default_capex_db),
      (''opex_outros_db'', default_opex_outros_db),
      (''funcionarios_db'', default_funcionarios_db),
      (''insumos_db'', default_insumos_db),
      (''receitas_header'', default_receitas_header),
      (''receitas_detalhe'', default_receitas_detalhe),
      (''embalagens_db'', default_embalagens_db),
      (''precos_sku'', default_precos_sku),
      (''mix'', default_mix),
      (''premissas'', default_premissas),
      (''financiamento'', default_financiamento)]"

definition DEFAULT_SCENARIO_NAME :: string where
  "DEFAULT_SCENARIO_NAME = ''Base''"

text \<open>\<^verbatim>\<open>_empty_db()\<close>, as the dict it is.\<close>

definition empty_db :: "(string \<times> json) list" where
  "empty_db =
     [(''scenarios'', JObj [(DEFAULT_SCENARIO_NAME, JObj default_scenario)]),
      (''selected'', JStr DEFAULT_SCENARIO_NAME)]"

text \<open>
  Migration 1, for a document without \<^verbatim>\<open>"scenarios"\<close>. The loop over the thirteen
  recognised keys copies the fields that the document has.
\<close>

definition legacy_keys :: "string list" where
  "legacy_keys =
     [''capex_db'', ''opex_db'', ''insumos_db'', ''receitas_header'', ''receitas_detalhe'',
      ''precos_venda'', ''opex_outros_db'', ''funcionarios_db'', ''embalagens_db'', ''precos_sku'',
      ''mix'', ''premissas'', ''financiamento'']"

fun collect_fields :: "json \<Rightarrow> string list \<Rightarrow> (string \<times> json) list \<Rightarrow> py_error + (string \<times> json) list" where
  "collect_fields raw [] sc = Inr sc"
| "collect_fields raw (k # ks) sc =
     (case py_in k raw of
        Inl e \<Rightarrow> Inl e
      | Inr False \<Rightarrow> collect_fields raw ks sc
      | Inr True \<Rightarrow>
          (case py_get raw k of
             Inl e \<Rightarrow> Inl e
           | Inr v \<Rightarrow> collect_fields raw ks (AList.update k v sc)))"

text \<open>
  \<^verbatim>\<open>if old in sc and new not in sc: sc[new] = sc.pop(old)\<close>.
\<close>

definition rename_field :: "string \<Rightarrow> string \<Rightarrow> (string \<times> json) list \<Rightarrow> (string \<times> json) list" where
  "rename_field old new sc =
     (if old \<in> set (map fst sc) \<and> new \<notin> set (map fst sc)
      then AList.update new (dget sc old) (AList.delete old sc)
      else sc)"

definition migracao_1 :: "json \<Rightarrow> py_error + json" where
  "migracao_1 raw =
     (case collect_fields raw legacy_keys [] of
        Inl e \<Rightarrow> Inl e
      | Inr sc0 \<Rightarrow>
          (let sc1 = rename_field ''opex_db'' ''opex_outros_db'' sc0;
               sc2 = rename_field ''precos_venda'' ''precos_sku'' sc1;
               base = dict_update default_scenario (filter (\<lambda>(k, v). v \<noteq> JNull) sc2)
           in Inr (JObj [(''scenarios'', JObj [(DEFAULT_SCENARIO_NAME, JObj base)]),
                         (''selected'', JStr DEFAULT_SCENARIO_NAME)])))"

text \<open>
  Migration 2, for a list of scenarios. \<^verbatim>\<open>str(name)\<close> is the name itself when it is a
  string; Python's rendering of any other value is the parameter \<open>str_of\<close>. The
  decimal digits of \<^verbatim>\<open>i + 1\<close> in the synthesised name are \<open>show_nat\<close>.
\<close>

fun show_nat :: "nat \<Rightarrow> string" where
  "show_nat n =
     (if n < 10 then [char_of (48 + n)]
      else show_nat (n div 10) @ [char_of (48 + n mod 10)])"

definition py_str :: "(json \<Rightarrow> string) \<Rightarrow> json \<Rightarrow> string" where
  "py_str str_of v = (case v of JStr s \<Rightarrow> s | _ \<Rightarrow> str_of v)"

text \<open>The body of the loop for the item at position \<open>i\<close>.\<close>

definition migracao_2_item :: "(json \<Rightarrow> string) \<Rightarrow> nat \<Rightarrow> json \<Rightarrow> (string \<times> json) list \<Rightarrow> (string \<times> json) list" where
  "migracao_2_item str_of i item sc_dict =
     (case item of
        JObj d \<Rightarrow>
          (let name = (if truthy (dget d ''name'') then dget d ''name''
                       else if truthy (dget d ''Nome'') then dget d ''Nome''
                       else JStr (''Cenario '' @ show_nat (i + 1)));
               data = (if truthy (dget d ''data'') then dget d ''data'' else item)
           in AList.update (py_str str_of name) data sc_dict)
      | _ \<Rightarrow> sc_dict)"

fun migracao_2_loop :: "(json \<Rightarrow> string) \<Rightarrow> nat \<Rightarrow> json list \<Rightarrow> (string \<times> json) list \<Rightarrow> (string \<times> json) list" where
  "migracao_2_loop str_of i [] sc_dict = sc_dict"
| "migracao_2_loop str_of i (item # items) sc_dict =
     migracao_2_loop str_of (i + 1) items (migracao_2_item str_of i item sc_dict)"

text \<open>
  The rest of \<^verbatim>\<open>load_db\<close>, on a dict \<open>raw\<close> that has the key \<^verbatim>\<open>"scenarios"\<close>.
  \<^verbatim>\<open>sel not in raw["scenarios"]\<close> hashes \<open>sel\<close>: a list or a dict raises
  \<^verbatim>\<open>TypeError\<close>; a number, a boolean or \<^verbatim>\<open>None\<close> is no key of a parsed object.
  The statement runs only after the scenarios have been checked to be a non-empty dict,
  so the branch for other scenarios and the \<^verbatim>\<open>IndexError\<close> of
  \<^verbatim>\<open>list(...)[0]\<close> are never reached from \<open>load_db\<close>.
\<close>

definition resolve_selected :: "(string \<times> json) list \<Rightarrow> py_error + json" where
  "resolve_selected raw =
     (case dget raw ''scenarios'' of
        JObj scs \<Rightarrow>
          (case dget raw ''selected'' of
             JArr _ \<Rightarrow> Inl TypeError
           | JObj _ \<Rightarrow> Inl TypeError
           | JStr sel \<Rightarrow>
               if sel \<notin> set (map fst scs)
               then (case scs of
                       [] \<Rightarrow> Inl IndexError
                     | (k, _) # _ \<Rightarrow> Inr (JObj (AList.update ''selected'' (JStr k) raw)))
               else Inr (JObj raw)
           | _ \<Rightarrow>
               (case scs of
                  [] \<Rightarrow> Inl IndexError
                | (k, _) # _ \<Rightarrow> Inr (JObj (AList.update ''selected'' (JStr k) raw))))
      | _ \<Rightarrow> Inl TypeError)"

definition load_scenarios :: "(json \<Rightarrow> string) \<Rightarrow> (string \<times> json) list \<Rightarrow> py_error + json" where
  "load_scenarios str_of raw0 =
     (let raw1 = (case dget raw0 ''scenarios'' of
                    JArr items \<Rightarrow>
                      AList.update ''scenarios'' (JObj (migracao_2_loop str_of 0 items [])) raw0
                  | _ \<Rightarrow> raw0);
          raw2 = (case dget raw1 ''scenarios'' of
                    JObj scs \<Rightarrow> if length scs = 0 then empty_db else raw1
                  | _ \<Rightarrow> empty_db)
      in resolve_selected raw2)"

definition load_db :: "(json \<Rightarrow> string) \<Rightarrow> db_file \<Rightarrow> py_error + json" where
  "load_db str_of file =
     (case file of
        Missing \<Rightarrow> Inr (JObj empty_db)
      | Unreadable \<Rightarrow> Inr (JObj empty_db)
      | Parsed raw \<Rightarrow>
          (case py_in ''scenarios'' raw of
             Inl e \<Rightarrow> Inl e
           | Inr False \<Rightarrow> migracao_1 raw
           | Inr True \<Rightarrow>
               (case raw of
                  JObj kv \<Rightarrow> load_scenarios str_of kv
                | _ \<Rightarrow> Inl AttributeError)))"

text \<open>
  The store invariant in the spec's words: the scenarios are a non-empty mapping and
  the selected name is one of its keys.
\<close>

definition spec_store_ok :: "json \<Rightarrow> bool" where
  "spec_store_ok st =
     (case st of
        JObj kv \<Rightarrow>
          (case map_of kv ''scenarios'' of
             Some (JObj scs) \<Rightarrow>
               scs \<noteq> [] \<and>
               (case map_of kv ''selected'' of
                  Some (JStr sel) \<Rightarrow> sel \<in> set (map fst scs)
                | _ \<Rightarrow> False)
           | _ \<Rightarrow> False)
      | _ \<Rightarrow> False)"

text \<open>
  A document supplies a field when it has the key with a value other than \<^verbatim>\<open>null\<close>.
\<close>

definition has_field :: "(string \<times> json) list \<Rightarrow> string \<Rightarrow> bool" where
  "has_field doc k = (k \<in> set (map fst doc))"

definition field_supplied :: "(string \<times> json) list \<Rightarrow> string \<Rightarrow> bool" where
  "field_supplied doc k = (has_field doc k \<and> dget doc k \<noteq> JNull)"

text \<open>Two legacy documents: one with the legacy expense table only, one with both tables.\<close>

definition example_legacy_doc :: "(string \<times> json) list" where
  "example_legacy_doc =
     [(''capex_db'', JArr []),
      (''opex_db'', JArr [JObj [(''Descricao'', JStr ''Aluguel''), (''Valor'', JNum 1000)]]),
      (''mix'', JNull)]"

definition example_both_doc :: "(string \<times> json) list" where
  "example_both_doc =
     [(''opex_db'', JArr [JObj [(''Descricao'', JStr ''Aluguel''), (''Valor'', JNum 1000)]]),
      (''opex_outros_db'', JArr [JObj [(''Descricao'', JStr ''Energia''), (''Valor'', JNum 1500)]])]"

subsection \<open>Spreadsheet export and import\<close>

text \<open>
  The scenario with its tables typed: every row has every column, with a value of the
  column's type. The dicts \<open>mix\<close>, \<open>premissas\<close> and \<open>financiamento\<close> keep their JSON
  values.
\<close>

record capex_row =
  cx_Categoria :: string
  cx_Item :: string
  cx_Valor :: real
  cx_Status :: string

record opex_row =
  ox_Descricao :: string
  ox_Valor :: real

record func_row =
  fn_Nome :: string
  fn_Modalidade :: string
  fn_Salario_Bruto :: real
  fn_Encargos_CLT :: real
  fn_Considerar_13 :: bool
  fn_Considerar_Ferias :: bool

record insumo_row =
  in_Tipo :: string
  in_Nome :: string
  in_Unidade :: string
  in_Custo :: real

record scenario =
  capex_db :: "capex_row list"
  opex_outros_db :: "opex_row list"
  funcionarios_db :: "func_row list"
  insumos_db :: "insumo_row list"
  receitas_header :: "receita_header list"
  receitas_detalhe :: "receita_detalhe list"
  embalagens_db :: "emb_row list"
  precos_sku :: "preco_row list"
  mix :: "(string \<times> json) list"
  premissas :: "(string \<times> json) list"
  financiamento :: "(string \<times> json) list"

text \<open>
  \<^verbatim>\<open>scenario_dfs\<close>. On typed rows the numeric coercions and the \<^verbatim>\<open>fillna\<close> calls
  change nothing; what remains is the respelling of \<^verbatim>\<open>Modalidade\<close>, the recomputed
  \<^verbatim>\<open>Custo_Total\<close>, and the defaults for an empty \<open>mix\<close>, \<open>premissas\<close> or
  \<open>financiamento\<close> (\<^verbatim>\<open>sc.get("mix") or default_scenario()["mix"]\<close>).
\<close>

definition clean_modalidade :: "string \<Rightarrow> string" where
  "clean_modalidade m =
     (if m = ''Clt'' then ''CLT'' else if m = ''pj'' then ''PJ'' else if m = ''Pj'' then ''PJ'' else m)"

definition recompute_total :: "receita_detalhe \<Rightarrow> receita_detalhe" where
  "recompute_total r = r\<lparr>rd_Custo_Total := rd_Qtd r * rd_Custo_Unit r\<rparr>"

definition dict_or :: "('k \<times> 'v) list \<Rightarrow> ('k \<times> 'v) list \<Rightarrow> ('k \<times> 'v) list" where
  "dict_or a b = (if a \<noteq> [] then a else b)"

definition scenario_dfs :: "scenario \<Rightarrow> scenario" where
  "scenario_dfs sc =
     sc\<lparr> funcionarios_db := map (\<lambda>r. r\<lparr>fn_Modalidade := clean_modalidade (fn_Modalidade r)\<rparr>)
                                (funcionarios_db sc),
         receitas_detalhe := map recompute_total (receitas_detalhe sc),
         mix := dict_or (mix sc) default_mix_dict,
         premissas := dict_or (premissas sc) default_premissas_dict,
         financiamento := dict_or (financiamento sc) default_financiamento_dict \<rparr>"

text \<open>
  The workbook: one sheet per table, and the three key/value sheets as their rows
  (\<^verbatim>\<open>Chave\<close>, \<^verbatim>\<open>Valor\<close>). The spreadsheet encoding itself is outside the
  program; it is taken to give back every sheet as it was written, a cell holding a
  number, a text, a boolean or nothing. The writer rejects a cell that holds a list or
  a dict with \<^verbatim>\<open>ValueError\<close>.
\<close>

record workbook =
  sh_CAPEX :: "capex_row list"
  sh_OPEX_Outros :: "opex_row list"
  sh_Funcionarios :: "func_row list"
  sh_Insumos :: "insumo_row list"
  sh_Receitas_Header :: "receita_header list"
  sh_Receitas_Detalhe :: "receita_detalhe list"
  sh_Embalagens :: "emb_row list"
  sh_Precos_SKU :: "preco_row list"
  sh_Mix_Demanda :: "(string \<times> json) list"
  sh_Premissas :: "(string \<times> json) list"
  sh_Financiamento :: "(string \<times> json) list"

definition is_cell :: "json \<Rightarrow> bool" where
  "is_cell v = (case v of JArr _ \<Rightarrow> False | JObj _ \<Rightarrow> False | _ \<Rightarrow> True)"

text \<open>
  The rows of the sheet \<^verbatim>\<open>Mix_Demanda\<close>: a dict value is flattened into one row per
  inner key under the composite key \<^verbatim>\<open>f"{k}::{kk}"\<close>.
\<close>

fun mix_rows :: "(string \<times> json) list \<Rightarrow> (string \<times> json) list" where
  "mix_rows [] = []"
| "mix_rows ((k, v) # rest) =
     (case v of
        JObj d \<Rightarrow> map (\<lambda>(kk, vv). (k @ ''::'' @ kk, vv)) d
      | _ \<Rightarrow> [(k, v)]) @ mix_rows rest"

definition scenario_to_excel_bytes :: "scenario \<Rightarrow> py_error + workbook" where
  "scenario_to_excel_bytes sc =
     (let dfs = scenario_dfs sc;
          rows_mix = mix_rows (mix dfs);
          prem_rows = premissas dfs;
          fin_rows = financiamento dfs
      in if list_all (\<lambda>(k, v). is_cell v) (rows_mix @ prem_rows @ fin_rows)
         then Inr \<lparr> sh_CAPEX = capex_db dfs,
                    sh_OPEX_Outros = opex_outros_db dfs,
                    sh_Funcionarios = funcionarios_db dfs,
                    sh_Insumos = insumos_db dfs,
                    sh_Receitas_Header = receitas_header dfs,
                    sh_Receitas_Detalhe = receitas_detalhe dfs,
                    sh_Embalagens = embalagens_db dfs,
                    sh_Precos_SKU = precos_sku dfs,
                    sh_Mix_Demanda = rows_mix,
                    sh_Premissas = prem_rows,
                    sh_Financiamento = fin_rows \<rparr>
         else Inl ValueError)"

text \<open>
  \<^verbatim>\<open>k.split("::", 1)\<close> for a key that contains the separator: the text before its
  first occurrence and the text after it.
\<close>

fun split_sep :: "string \<Rightarrow> string \<times> string" where
  "split_sep [] = ([], [])"
| "split_sep (c # s) =
     (if take 2 (c # s) = ''::'' then ([], drop 2 (c # s))
      else (case split_sep s of (b, r) \<Rightarrow> (c # b, r)))"

text \<open>
  \<^verbatim>\<open>kv_sheet_to_dict\<close>, the body of its loop for one row first.
  \<^verbatim>\<open>out.setdefault(base, {})\<close> adds an empty dict under a new key;
  \<^verbatim>\<open>out[base][sub] = v\<close> raises \<^verbatim>\<open>TypeError\<close> when the value under \<open>base\<close> is
  not a dict.
\<close>

definition kv_row :: "string \<times> json \<Rightarrow> (string \<times> json) list \<Rightarrow> py_error + (string \<times> json) list" where
  "kv_row r out =
     (case r of
        (k, v) \<Rightarrow>
          if is_substring ''::'' k
          then (case split_sep k of
                  (base, sub) \<Rightarrow>
                    (let out1 = (if base \<in> set (map fst out) then out
                                 else AList.update base (JObj []) out)
                     in case dget out1 base of
                          JObj d \<Rightarrow> Inr (AList.update base (JObj (AList.update sub v d)) out1)
                        | _ \<Rightarrow> Inl TypeError))
          else Inr (AList.update k v out))"

fun kv_loop :: "(string \<times> json) list \<Rightarrow> (string \<times> json) list \<Rightarrow> py_error + (string \<times> json) list" where
  "kv_loop [] out = Inr out"
| "kv_loop (r # rows) out =
     (case kv_row r out of
        Inl e \<Rightarrow> Inl e
      | Inr out' \<Rightarrow> kv_loop rows out')"

definition kv_sheet_to_dict :: "(string \<times> json) list \<Rightarrow> py_error + (string \<times> json) list" where
  "kv_sheet_to_dict df = (if df = [] then Inr [] else kv_loop df [])"

text \<open>
  \<^verbatim>\<open>float(v)\<close> on a cell value. The number that Python reads from a text is the
  parameter \<open>parse_float\<close> (\<open>None\<close> when \<^verbatim>\<open>float\<close> raises \<^verbatim>\<open>ValueError\<close>).
  \<open>float_values\<close> is the comprehension \<^verbatim>\<open>{k: float(v) for k, v in d.items()}\<close> over
  the items of a dict.
\<close>

definition py_float :: "(string \<Rightarrow> real option) \<Rightarrow> json \<Rightarrow> py_error + json" where
  "py_float parse_float v =
     (case v of
        JNum x \<Rightarrow> Inr (JNum x)
      | JBool b \<Rightarrow> Inr (JNum (if b then 1 else 0))
      | JStr s \<Rightarrow> (case parse_float s of None \<Rightarrow> Inl ValueError | Some x \<Rightarrow> Inr (JNum x))
      | _ \<Rightarrow> Inl TypeError)"

fun float_values :: "(string \<Rightarrow> real option) \<Rightarrow> (string \<times> json) list \<Rightarrow> py_error + (string \<times> json) list" where
  "float_values parse_float [] = Inr []"
| "float_values parse_float ((k, v) # rest) =
     (case py_float parse_float v of
        Inl e \<Rightarrow> Inl e
      | Inr x \<Rightarrow>
          (case float_values parse_float rest of
             Inl e \<Rightarrow> Inl e
           | Inr rest' \<Rightarrow> Inr ((k, x) # rest')))"

text \<open>
  \<^verbatim>\<open>import_excel_apply\<close>, with the selected scenario \<open>sc\<close> and the parsed workbook
  (\<open>None\<close> when \<^verbatim>\<open>pd.ExcelFile\<close> raises: the function returns and the scenario stays
  as it is). An empty sheet falls back to the table of \<open>sc\<close>, an empty key/value
  sheet to the dict of \<open>sc\<close> and then to the default.
\<close>

definition import_excel_apply ::
    "(string \<Rightarrow> real option) \<Rightarrow> scenario \<Rightarrow> workbook option \<Rightarrow> py_error + scenario" where
  "import_excel_apply parse_float sc uploaded =
     (case uploaded of
        None \<Rightarrow> Inr sc
      | Some xls \<Rightarrow>
          (case kv_sheet_to_dict (sh_Mix_Demanda xls) of
             Inl e \<Rightarrow> Inl e
           | Inr mix_kv \<Rightarrow>
          (case kv_sheet_to_dict (sh_Premissas xls) of
             Inl e \<Rightarrow> Inl e
           | Inr prem_kv \<Rightarrow>
          (case kv_sheet_to_dict (sh_Financiamento xls) of
             Inl e \<Rightarrow> Inl e
           | Inr fin_kv \<Rightarrow>
          (let mix0 = dict_or mix_kv (dict_or (mix sc) default_mix_dict);
               prem = dict_or prem_kv (dict_or (premissas sc) default_premissas_dict);
               fin = dict_or fin_kv (dict_or (financiamento sc) default_financiamento_dict)
           in case (case map_of mix0 ''Distribuicao Embalado (%)'' of
                      Some (JObj d) \<Rightarrow>
                        (case float_values parse_float d of
                           Inl e \<Rightarrow> Inl e
                         | Inr d' \<Rightarrow> Inr (AList.update ''Distribuicao Embalado (%)'' (JObj d') mix0))
                    | _ \<Rightarrow> Inr mix0) of
                Inl e \<Rightarrow> Inl e
              | Inr mix1 \<Rightarrow>
                  Inr \<lparr> capex_db = (if sh_CAPEX xls \<noteq> [] then sh_CAPEX xls else capex_db sc),
                        opex_outros_db =
                          (if sh_OPEX_Outros xls \<noteq> [] then sh_OPEX_Outros xls else opex_outros_db sc),
                        funcionarios_db =
                          (if sh_Funcionarios xls \<noteq> [] then sh_Funcionarios xls else funcionarios_db sc),
                        insumos_db = (if sh_Insumos xls \<noteq> [] then sh_Insumos xls else insumos_db sc),
                        receitas_header =
                          (if sh_Receitas_Header xls \<noteq> [] then sh_Receitas_Header xls
                           else receitas_header sc),
                        receitas_detalhe =
                          map recompute_total
                            (if sh_Receitas_Detalhe xls \<noteq> [] then sh_Receitas_Detalhe xls
                             else receitas_detalhe sc),
                        embalagens_db =
                          (if sh_Embalagens xls \<noteq> [] then sh_Embalagens xls else embalagens_db sc),
                        precos_sku =
                          (if sh_Precos_SKU xls \<noteq> [] then sh_Precos_SKU xls else precos_sku sc),
                        mix = mix1,
                        premissas = prem,
                        financiamento = fin \<rparr>)))))"

text \<open>
  The scenarios that the flat key/value sheets can carry. A key of a scalar entry must
  not contain the separator; the key of a nested dict must not contain it even with a
  colon appended (it neither contains \<^verbatim>\<open>::\<close> nor ends in a colon), so that the
  composite key splits where it was joined. A nested dict must have at least one
  entry, and its values must be cells; the values of the packaged distribution must
  be numbers.
\<close>

definition flat_key :: "string \<Rightarrow> bool" where
  "flat_key k = (\<not> is_substring ''::'' k)"

definition outer_key :: "string \<Rightarrow> bool" where
  "outer_key k = (\<not> is_substring ''::'' (k @ '':''))"

definition is_num :: "json \<Rightarrow> bool" where
  "is_num v = (case v of JNum _ \<Rightarrow> True | _ \<Rightarrow> False)"

definition mix_entry_ok :: "string \<times> json \<Rightarrow> bool" where
  "mix_entry_ok e =
     (case e of
        (k, JObj d) \<Rightarrow>
          outer_key k \<and> d \<noteq> [] \<and> distinct (map fst d) \<and> list_all (\<lambda>(kk, vv). is_cell vv) d \<and>
          (k = ''Distribuicao Embalado (%)'' \<longrightarrow> list_all (\<lambda>(kk, vv). is_num vv) d)
      | (k, v) \<Rightarrow> flat_key k \<and> is_cell v)"

definition mix_ok :: "(string \<times> json) list \<Rightarrow> bool" where
  "mix_ok m = (m \<noteq> [] \<and> distinct (map fst m) \<and> list_all mix_entry_ok m)"

definition kv_ok :: "(string \<times> json) list \<Rightarrow> bool" where
  "kv_ok d = (d \<noteq> [] \<and> distinct (map fst d) \<and> list_all (\<lambda>(k, v). flat_key k \<and> is_cell v) d)"

text \<open>
  The target of an import can stand in for an empty sheet only with its own table: the
  round trip of a scenario \<open>s\<close> onto a target \<open>sc\<close> needs every table that is empty in
  \<open>s\<close> to be empty in \<open>sc\<close> as well (as it is when \<open>sc\<close> is \<open>s\<close> itself).
\<close>

definition empty_tables_agree :: "scenario \<Rightarrow> scenario \<Rightarrow> bool" where
  "empty_tables_agree s sc =
     ((capex_db s = [] \<longrightarrow> capex_db sc = []) \<and>
      (opex_outros_db s = [] \<longrightarrow> opex_outros_db sc = []) \<and>
      (funcionarios_db s = [] \<longrightarrow> funcionarios_db sc = []) \<and>
      (insumos_db s = [] \<longrightarrow> insumos_db sc = []) \<and>
      (receitas_header s = [] \<longrightarrow> receitas_header sc = []) \<and>
      (receitas_detalhe s = [] \<longrightarrow> receitas_detalhe sc = []) \<and>
      (embalagens_db s = [] \<longrightarrow> embalagens_db sc = []) \<and>
      (precos_sku s = [] \<longrightarrow> precos_sku sc = []))"

text \<open>
  The round trip in the spec's words: the import, onto the target \<open>sc\<close>, of what the
  export of \<open>s\<close> wrote.
\<close>

definition round_trip :: "(string \<Rightarrow> real option) \<Rightarrow> scenario \<Rightarrow> scenario \<Rightarrow> py_error + scenario" where
  "round_trip parse_float sc s =
     (case scenario_to_excel_bytes s of
        Inl e \<Rightarrow> Inl e
      | Inr xls \<Rightarrow> import_excel_apply parse_float sc (Some xls))"

text \<open>
  Two scenarios for the examples: one with the default dicts, and one whose packaged
  distribution is empty, as it is when no packaging type is eligible for it.
\<close>

definition example_scenario :: scenario where
  "example_scenario =
     \<lparr> capex_db = [\<lparr>cx_Categoria = ''Envase'', cx_Item = ''Envasadora Counter Pressure Semi-auto'',
                     cx_Valor = 3500, cx_Status = ''Comprado''\<rparr>],
       opex_outros_db = [\<lparr>ox_Descricao = ''Marketing'', ox_Valor = 2000\<rparr>],
       funcionarios_db = [\<lparr>fn_Nome = ''Vendas (PJ)'', fn_Modalidade = ''PJ'', fn_Salario_Bruto = 2200,
                            fn_Encargos_CLT = 0, fn_Considerar_13 = False,
                            fn_Considerar_Ferias = False\<rparr>],
       insumos_db = [],
       receitas_header = [example_pilsen],
       receitas_detalhe =
         [\<lparr>rd_Receita_ID = 3, rd_Insumo = ''W-34/70 (Lager)'', rd_Qtd = 40, rd_Custo_Unit = 35,
            rd_Custo_Total = 0\<rparr>],
       embalagens_db = example_emb,
       precos_sku = example_precos,
       mix = default_mix_dict,
       premissas = default_premissas_dict,
       financiamento = default_financiamento_dict \<rparr>"

definition example_no_dist :: scenario where
  "example_no_dist =
     example_scenario
       \<lparr> embalagens_db := [],
         mix := [(''Volume Vendido (L/mes)'', JNum 2000),
                 (''Mix Taproom (%)'', JNum 30),
                 (''Mix Varejo Chope (%)'', JNum 25),
                 (''Mix Varejo Embalado (%)'', JNum 45),
                 (''Distribuicao Embalado (%)'', JObj []),
                 (''Receita Base (para custo)'', JStr ''Pilsen Padrao'')] \<rparr>"

section \<open>Properties\<close>

subsection \<open>Payback series\<close>

text \<open>
  The loop over a range of months, started with the balance that the closed form gives
  for the month before the range, appends the closed-form balances and reports the
  first month of the range with a balance that is not negative.
\<close>

lemma payback_loop_upto:
  "acc = b0 + of_int (lo - 1) * c \<Longrightarrow>
   payback_loop c [lo..hi] acc saldo pay =
     (saldo @ map (\<lambda>m. b0 + of_int m * c) [lo..hi],
      case pay of Some p \<Rightarrow> Some p | None \<Rightarrow> find (\<lambda>m. 0 \<le> b0 + of_int m * c) [lo..hi])"
proof (induction lo hi arbitrary: acc saldo pay rule: upto.induct)
  case (1 i j)
  show ?case
  proof (cases "i \<le> j")
    case False
    then show ?thesis by (simp split: option.split)
  next
    case True
    have acc1: "acc + c = b0 + of_int (i + 1 - 1) * c"
      using "1.prems" by (simp add: algebra_simps)
    have acc2: "acc + c = b0 + of_int i * c"
      using "1.prems" by (simp add: algebra_simps)
    have unf: "[i..j] = i # [i + 1..j]"
      using True by (simp add: upto.simps)
    have step: "payback_loop c [i..j] acc saldo pay =
        payback_loop c [i + 1..j] (acc + c) (saldo @ [acc + c])
          (if 0 \<le> acc + c \<and> pay = None then Some i else pay)"
      unfolding unf by (simp add: Let_def)
    show ?thesis
      unfolding step "1.IH"[OF True acc1]
      unfolding unf acc2 by (simp split: option.split)
  qed
qed

lemma find_upto_Some:
  "find P [lo..hi] = Some p \<longleftrightarrow> lo \<le> p \<and> p \<le> hi \<and> P p \<and> (\<forall>k. lo \<le> k \<and> k < p \<longrightarrow> \<not> P k)"
proof (induction lo hi rule: upto.induct)
  case (1 i j)
  show ?case
  proof (cases "i \<le> j")
    case False
    then show ?thesis by auto
  next
    case True
    have unf: "[i..j] = i # [i + 1..j]"
      using True by (simp add: upto.simps)
    show ?thesis
    proof (cases "P i")
      case True
      then show ?thesis using \<open>i \<le> j\<close> unfolding unf
        by (auto simp del: upto.simps)
    next
      case False
      have "(\<forall>k. i \<le> k \<and> k < p \<longrightarrow> \<not> P k) \<longleftrightarrow> (\<forall>k. i + 1 \<le> k \<and> k < p \<longrightarrow> \<not> P k)"
        using False by (metis add1_zle_eq order_le_less)
      moreover have "P p \<Longrightarrow> i \<le> p \<longleftrightarrow> i + 1 \<le> p"
        using False by (metis add1_zle_eq order_le_less)
      ultimately show ?thesis using False "1.IH"[OF True] unfolding unf
        by auto
    qed
  qed
qed

lemma find_upto_None:
  "find P [lo..hi] = None \<longleftrightarrow> (\<forall>k. lo \<le> k \<and> k \<le> hi \<longrightarrow> \<not> P k)"
  by (auto simp: find_None_iff)

lemma build_payback_series_eq:
  assumes "0 \<le> months"
  shows "build_payback_series invest monthly_cash months =
     Inr (map (\<lambda>m. (m, - invest + of_int m * monthly_cash)) [0..months],
          find (\<lambda>m. 0 \<le> - invest + of_int m * monthly_cash) [1..months])"
proof -
  have loop: "payback_loop monthly_cash [1..months] (- invest) [- invest] None =
      ([- invest] @ map (\<lambda>m. - invest + of_int m * monthly_cash) [1..months],
       find (\<lambda>m. 0 \<le> - invest + of_int m * monthly_cash) [1..months])"
    by (subst payback_loop_upto[where ?b0.0 = "- invest"]) simp_all
  have unf: "[0..months] = 0 # [1..months]"
    using assms by (simp add: upto.simps)
  show ?thesis
    unfolding build_payback_series_def loop
    by (simp add: unf zip_map2 zip_same_conv_map del: upto.simps)
qed

text \<open>
  Claim C4, as amended. For a horizon \<open>months \<ge> 0\<close> the function returns the table of
  the months \<open>0..months\<close>; the balance of month \<open>0\<close> is \<open>- invest\<close> and the balance of
  month \<open>m\<close> is \<open>- invest + m * monthly_cash\<close>. The reported payback month is the first
  month \<open>p\<close> with \<open>1 \<le> p \<le> months\<close> whose balance is not negative (month \<open>0\<close> is never
  reported), and none is reported exactly when every month from \<open>1\<close> to \<open>months\<close> has a
  negative balance. With \<open>monthly_cash = 0\<close> and \<open>invest > 0\<close> every balance is
  \<open>- invest\<close> and no payback is reported; with \<open>invest = 10000\<close> and
  \<open>monthly_cash = 2000\<close> the payback month is \<open>5\<close> (for every horizon of at least 5
  months, so for the default 84).
\<close>

theorem build_payback_series_balances:
  assumes "0 \<le> months"
  shows "\<exists>saldo pay_m.
      build_payback_series invest monthly_cash months = Inr (saldo, pay_m) \<and>
      map fst saldo = [0..months] \<and>
      saldo ! 0 = (0, - invest) \<and>
      (\<forall>m. 1 \<le> m \<and> m \<le> months \<longrightarrow> saldo ! nat m = (m, - invest + of_int m * monthly_cash)) \<and>
      (\<forall>p. pay_m = Some p \<longleftrightarrow>
           1 \<le> p \<and> p \<le> months \<and> 0 \<le> - invest + of_int p * monthly_cash \<and>
           (\<forall>k. 1 \<le> k \<and> k < p \<longrightarrow> - invest + of_int k * monthly_cash < 0)) \<and>
      (pay_m = None \<longleftrightarrow>
           (\<forall>k. 1 \<le> k \<and> k \<le> months \<longrightarrow> - invest + of_int k * monthly_cash < 0)) \<and>
      (monthly_cash = 0 \<and> 0 < invest \<longrightarrow>
           pay_m = None \<and> (\<forall>x \<in> set saldo. snd x = - invest)) \<and>
      (invest = 10000 \<and> monthly_cash = 2000 \<and> 5 \<le> months \<longrightarrow> pay_m = Some 5)"
proof -
  let ?bal = "\<lambda>m. - invest + of_int m * monthly_cash"
  let ?saldo = "map (\<lambda>m. (m, ?bal m)) [0..months]"
  let ?pay = "find (\<lambda>m. 0 \<le> ?bal m) [1..months]"
  have nth: "?saldo ! nat m = (m, ?bal m)" if "0 \<le> m" "m \<le> months" for m
    using that by (simp add: nth_upto)
  have c1: "build_payback_series invest monthly_cash months = Inr (?saldo, ?pay)"
    by (rule build_payback_series_eq[OF assms])
  have c2: "map fst ?saldo = [0..months]"
    by (simp add: comp_def)
  have c3: "?saldo ! 0 = (0, - invest)"
    using nth[of 0] assms by simp
  have c4: "\<forall>m. 1 \<le> m \<and> m \<le> months \<longrightarrow> ?saldo ! nat m = (m, ?bal m)"
    using nth by simp
  have c5: "\<forall>p. ?pay = Some p \<longleftrightarrow>
           1 \<le> p \<and> p \<le> months \<and> 0 \<le> ?bal p \<and> (\<forall>k. 1 \<le> k \<and> k < p \<longrightarrow> ?bal k < 0)"
    by (simp add: find_upto_Some not_le)
  have c6: "?pay = None \<longleftrightarrow> (\<forall>k. 1 \<le> k \<and> k \<le> months \<longrightarrow> ?bal k < 0)"
    by (simp add: find_upto_None not_le)
  have c7: "monthly_cash = 0 \<and> 0 < invest \<longrightarrow> ?pay = None \<and> (\<forall>x \<in> set ?saldo. snd x = - invest)"
    by (auto simp: find_None_iff)
  have c8: "invest = 10000 \<and> monthly_cash = 2000 \<and> 5 \<le> months \<longrightarrow> ?pay = Some 5"
  proof (intro impI, elim conjE)
    assume h: "invest = 10000" "monthly_cash = 2000" "5 \<le> months"
    have "real_of_int k * 2000 < 10000" if "k < 5" for k :: int
    proof -
      from that have "k \<le> 4" by simp
      then have "real_of_int k \<le> 4" by (metis of_int_le_iff of_int_numeral)
      then show ?thesis by simp
    qed
    then show "?pay = Some 5"
      using h by (simp add: find_upto_Some)
  qed
  show ?thesis
    apply (rule exI[of _ ?saldo])
    apply (rule exI[of _ ?pay])
    apply (intro conjI)
           apply (rule c1)
          apply (rule c2)
         apply (rule c3)
        apply (rule c4)
       apply (rule c5)
      apply (rule c6)
     apply (rule c7)
    apply (rule c8)
    done
qed

theorem build_payback_series_balances_witness:
  "(0::int) \<le> 84 \<and>
   (\<exists>saldo. build_payback_series 10000 2000 84 = Inr (saldo, Some 5) \<and>
            saldo ! 0 = (0, - 10000) \<and> saldo ! 5 = (5, 0))"
proof -
  have h: "(0::int) \<le> 84" by simp
  from build_payback_series_balances[OF h, of 10000 2000]
  obtain saldo pay_m where
    r: "build_payback_series 10000 2000 84 = Inr (saldo, pay_m)" and
    z: "saldo ! 0 = (0, - 10000)" and
    n: "\<forall>m. 1 \<le> m \<and> m \<le> 84 \<longrightarrow> saldo ! nat m = (m, - 10000 + of_int m * 2000)" and
    p: "(10000::real) = 10000 \<and> (2000::real) = 2000 \<and> (5::int) \<le> 84 \<longrightarrow> pay_m = Some 5"
    by blast
  from p have "pay_m = Some 5" by simp
  moreover from n have "saldo ! nat 5 = (5, - 10000 + of_int 5 * 2000)"
    by (rule allE[where x = 5]) simp
  then have "saldo ! 5 = (5, 0)" by simp
  ultimately show ?thesis using r z by simp
qed

text \<open>
  The claim as it was written counts month \<open>0\<close> among the month indices. With nothing
  to invest the balance of month \<open>0\<close> is already \<open>0\<close>, so the first month index with a
  balance that is not negative is \<open>0\<close>, while the function reports month \<open>1\<close>.
\<close>

theorem build_payback_series_month0_counterexample:
  "build_payback_series 0 0 1 = Inr ([(0, 0), (1, 0)], Some 1) \<and>
   spec_payback_month [(0, 0), (1, 0)] = Some 0"
  by (simp add: build_payback_series_def spec_payback_month_def upto.simps)

subsection \<open>Normalising a distribution\<close>

lemma clean_value_nonneg: "0 \<le> clean_value v"
  by (simp add: clean_value_def split: py_num.split)

lemma normalize_dist_values:
  "map snd (normalize_dist d) =
     (let clean = map (clean_value \<circ> snd) d; total = sum_list clean
      in if total \<le> 0 then clean else map (\<lambda>v. v / total * 100) clean)"
  by (simp add: normalize_dist_def Let_def comp_def case_prod_unfold)

lemma normalize_dist_keys: "map fst (normalize_dist d) = map fst d"
  by (simp add: normalize_dist_def Let_def comp_def case_prod_unfold)

lemma sum_list_rescale:
  fixes xs :: "real list"
  assumes "sum_list xs \<noteq> 0"
  shows "sum_list (map (\<lambda>v. v / sum_list xs * 100) xs) = 100"
proof -
  define c where "c = 100 / sum_list xs"
  have "(\<lambda>v. v / sum_list xs * 100) = (\<lambda>v. v * c)"
    unfolding c_def by (rule ext) simp
  then have "sum_list (map (\<lambda>v. v / sum_list xs * 100) xs) = sum_list (map (\<lambda>v. v * c) xs)"
    by (rule arg_cong)
  also have "\<dots> = sum_list xs * c"
    using sum_list_mult_const[of "\<lambda>v. v" c xs] by simp
  also have "\<dots> = 100" unfolding c_def using assms by simp
  finally show ?thesis .
qed

lemma sum_list_nonneg_zero:
  fixes xs :: "real list"
  assumes "\<forall>x \<in> set xs. 0 \<le> x" "sum_list xs \<le> 0"
  shows "\<forall>x \<in> set xs. x = 0"
  using assms
proof (induction xs)
  case Nil
  then show ?case by simp
next
  case (Cons a xs)
  have a: "0 \<le> a" and n: "\<forall>x \<in> set xs. 0 \<le> x"
    using Cons.prems(1) by simp_all
  have s: "0 \<le> sum_list xs"
    using n by (simp add: sum_list_nonneg)
  have le: "a + sum_list xs \<le> 0"
    using Cons.prems(2) by simp
  from a s le have "a = 0" and "sum_list xs \<le> 0" by linarith+
  with Cons.IH[OF n] show ?case by simp
qed

text \<open>
  Claim C1. \<open>normalize_dist\<close> keeps the keys and first clamps every value to a
  number that is not negative, a missing value (\<open>PNone\<close>) and an invalid number
  (\<open>PNaN\<close>) counting as \<open>0\<close>. If the clamped total is not positive, the clamped
  values are returned as they are (and they are all zero; an all-zero input comes back
  as all zeros). Otherwise every value is rescaled to \<open>value / total * 100\<close>: the
  results sum to \<open>100\<close> and keep the ratios of the clamped input.
\<close>

theorem normalize_dist_rescales:
  "map fst (normalize_dist d) = map fst d \<and>
   clean_value PNone = 0 \<and> clean_value PNaN = 0 \<and> (\<forall>x. clean_value (PFloat x) = max 0 x) \<and>
   (let clean = map (clean_value \<circ> snd) d; total = sum_list clean; out = map snd (normalize_dist d)
    in (\<forall>x \<in> set clean. 0 \<le> x) \<and>
       (total \<le> 0 \<longrightarrow> out = clean \<and> (\<forall>x \<in> set out. x = 0)) \<and>
       ((\<forall>v \<in> set (map snd d). v = PFloat 0) \<longrightarrow> out = map (\<lambda>_. 0) d) \<and>
       (0 < total \<longrightarrow>
          out = map (\<lambda>v. v / total * 100) clean \<and>
          sum_list out = 100 \<and>
          (\<forall>i < length d. \<forall>j < length d. out ! i * clean ! j = out ! j * clean ! i)))"
proof -
  let ?clean = "map (clean_value \<circ> snd) d"
  let ?total = "sum_list ?clean"
  let ?out = "map snd (normalize_dist d)"
  have nonneg: "\<forall>x \<in> set ?clean. 0 \<le> x"
    by (simp add: clean_value_nonneg)
  have le0: "?total \<le> 0 \<longrightarrow> ?out = ?clean \<and> (\<forall>x \<in> set ?out. x = 0)"
  proof
    assume h: "?total \<le> 0"
    then have "?out = ?clean" by (simp add: normalize_dist_values Let_def)
    moreover have "\<forall>x \<in> set ?clean. x = 0"
      by (rule sum_list_nonneg_zero[OF nonneg h])
    ultimately show "?out = ?clean \<and> (\<forall>x \<in> set ?out. x = 0)" by simp
  qed
  have zeros: "(\<forall>v \<in> set (map snd d). v = PFloat 0) \<longrightarrow> ?out = map (\<lambda>_. 0) d"
  proof
    assume h: "\<forall>v \<in> set (map snd d). v = PFloat 0"
    then have c: "?clean = map (\<lambda>_. 0) d"
      by (simp add: clean_value_def)
    have "sum_list (map (\<lambda>_. 0::real) d) = 0" by (induction d) simp_all
    then have "?total = 0" unfolding c .
    then show "?out = map (\<lambda>_. 0) d"
      using c by (simp add: normalize_dist_values Let_def)
  qed
  have pos: "0 < ?total \<longrightarrow>
          ?out = map (\<lambda>v. v / ?total * 100) ?clean \<and>
          sum_list ?out = 100 \<and>
          (\<forall>i < length d. \<forall>j < length d. ?out ! i * ?clean ! j = ?out ! j * ?clean ! i)"
  proof
    assume h: "0 < ?total"
    then have o: "?out = map (\<lambda>v. v / ?total * 100) ?clean"
      by (simp add: normalize_dist_values Let_def)
    have s: "sum_list ?out = 100"
      unfolding o using h by (intro sum_list_rescale) simp
    have r: "\<forall>i < length d. \<forall>j < length d. ?out ! i * ?clean ! j = ?out ! j * ?clean ! i"
      unfolding o by simp
    from o s r show "?out = map (\<lambda>v. v / ?total * 100) ?clean \<and>
          sum_list ?out = 100 \<and>
          (\<forall>i < length d. \<forall>j < length d. ?out ! i * ?clean ! j = ?out ! j * ?clean ! i)"
      by blast
  qed
  show ?thesis
    unfolding Let_def
    apply (intro conjI)
          apply (rule normalize_dist_keys)
         apply (simp add: clean_value_def)
        apply (simp add: clean_value_def)
       apply (simp add: clean_value_def)
      apply (rule nonneg)
     apply (rule le0)
     apply (rule zeros)
    apply (rule pos)
    done
qed

theorem normalize_dist_rescales_witness:
  "0 < sum_list (map (clean_value \<circ> snd) [(''Lata 473ml'', PFloat 45), (''Long Neck'', PNaN), (''Garrafa 600ml'', PFloat 15)]) \<and>
   normalize_dist [(''Lata 473ml'', PFloat 45), (''Long Neck'', PNaN), (''Garrafa 600ml'', PFloat 15)]
     = [(''Lata 473ml'', 75), (''Long Neck'', 0), (''Garrafa 600ml'', 25)] \<and>
   sum_list (map snd (normalize_dist [(''Lata 473ml'', PFloat 45), (''Long Neck'', PNaN), (''Garrafa 600ml'', PFloat 15)])) = 100"
  using normalize_dist_rescales[of "[(''Lata 473ml'', PFloat 45), (''Long Neck'', PNaN), (''Garrafa 600ml'', PFloat 15)]"]
  by (simp add: Let_def clean_value_def normalize_dist_def)

subsection \<open>Recipe cost per liter\<close>

lemma calc_gip_total_components:
  "calc_gip_total prem =
     dict_get prem ''GIP Quimicos (R$/L)'' 0 + dict_get prem ''GIP Energia (R$/L)'' 0
     + dict_get prem ''GIP Agua (R$/L)'' 0 + dict_get prem ''GIP CO2 (R$/L)'' 0"
  by (simp add: calc_gip_total_def)

lemma rcpl_cons:
  assumes "nm = (case name of None \<Rightarrow> rh_Nome first
              | Some n \<Rightarrow> if n = [] \<or> n \<notin> set (map rh_Nome (first # rest)) then rh_Nome first else n)"
  shows "recipe_cost_per_liter (first # rest) det prem name =
     (case filter (\<lambda>r. rh_Nome r = nm) (first # rest) of
        [] \<Rightarrow> Inl IndexError
      | row # _ \<Rightarrow> Inr (spec_recipe_cost row det prem))"
  unfolding recipe_cost_per_liter_def Let_def list.case assms[symmetric] spec_recipe_cost_def
  by (cases "filter (\<lambda>r. rh_Nome r = nm) (first # rest)"; simp only: list.case if_distrib[of Inr] cong: if_cong)

lemma rcpl_selected:
  assumes "filter (\<lambda>r. rh_Nome r = nm) hdr = row # others"
      and "hdr = first # rest"
      and "(case name of None \<Rightarrow> rh_Nome first
              | Some n \<Rightarrow> if n = [] \<or> n \<notin> set (map rh_Nome hdr) then rh_Nome first else n) = nm"
  shows "recipe_cost_per_liter hdr det prem name = Inr (spec_recipe_cost row det prem)"
  using assms(1) unfolding assms(2) rcpl_cons[OF assms(3)[symmetric, unfolded assms(2)]]
  by (simp only: list.case)

lemma rcpl_empty: "recipe_cost_per_liter [] det prem name = Inr (calc_gip_total prem)"
  by (simp add: recipe_cost_per_liter_def)

lemma rcpl_fallback:
  assumes "name = None \<or> name = Some [] \<or> (\<exists>n. name = Some n \<and> n \<notin> set (map rh_Nome (first # rest)))"
  shows "recipe_cost_per_liter (first # rest) det prem name = Inr (spec_recipe_cost first det prem)"
proof -
  have f: "filter (\<lambda>r. rh_Nome r = rh_Nome first) (first # rest) = first # filter (\<lambda>r. rh_Nome r = rh_Nome first) rest"
    by simp
  have n: "(case name of None \<Rightarrow> rh_Nome first
              | Some n \<Rightarrow> if n = [] \<or> n \<notin> set (map rh_Nome (first # rest)) then rh_Nome first else n) = rh_Nome first"
    using assms by (auto split: option.split)
  show ?thesis by (rule rcpl_selected[OF f refl n])
qed

lemma rcpl_named:
  assumes "n \<noteq> []" "rh_Nome row = n" "n \<notin> set (map rh_Nome pre)"
  shows "recipe_cost_per_liter (pre @ row # post) det prem (Some n) = Inr (spec_recipe_cost row det prem)"
proof -
  have "filter (\<lambda>r. rh_Nome r = n) pre = []"
    using assms(3) by (auto simp: filter_empty_conv)
  then have f: "filter (\<lambda>r. rh_Nome r = n) (pre @ row # post) = row # filter (\<lambda>r. rh_Nome r = n) post"
    using assms(2) by simp
  obtain first rest where h: "pre @ row # post = first # rest"
    by (cases pre) auto
  have "n \<in> set (map rh_Nome (pre @ row # post))"
    using assms(2) by auto
  then have nm: "(case Some n of None \<Rightarrow> rh_Nome first
              | Some n \<Rightarrow> if n = [] \<or> n \<notin> set (map rh_Nome (pre @ row # post)) then rh_Nome first else n) = n"
    using assms(1) by simp
  show ?thesis by (rule rcpl_selected[OF f h nm])
qed

lemma spec_recipe_cost_perm:
  assumes "mset (det_rows det') = mset (det_rows det)" "has_Custo_Total det' = has_Custo_Total det"
  shows "spec_recipe_cost row det' prem = spec_recipe_cost row det prem"
proof -
  let ?P = "\<lambda>r. rd_Receita_ID r = rh_ID row"
  have lt: "line_total det' = line_total det"
    using assms(2) by (auto simp: line_total_def fun_eq_iff)
  have m: "mset (filter ?P (det_rows det')) = mset (filter ?P (det_rows det))"
    using assms(1) by (simp add: mset_filter)
  then have e: "filter ?P (det_rows det') = [] \<longleftrightarrow> filter ?P (det_rows det) = []"
    by (metis mset_zero_iff)
  have "sum_list (map (line_total det) (filter ?P (det_rows det')))
        = sum_mset (image_mset (line_total det) (mset (filter ?P (det_rows det'))))"
    by (metis mset_map sum_mset_sum_list)
  also have "\<dots> = sum_list (map (line_total det) (filter ?P (det_rows det)))"
    unfolding m by (metis mset_map sum_mset_sum_list)
  finally show ?thesis
    using e lt by (simp add: spec_recipe_cost_def Let_def)
qed

lemma rcpl_perm:
  assumes "mset (det_rows det') = mset (det_rows det)" "has_Custo_Total det' = has_Custo_Total det"
  shows "recipe_cost_per_liter hdr det' prem name = recipe_cost_per_liter hdr det prem name"
proof (cases hdr)
  case Nil
  then show ?thesis by (simp add: rcpl_empty)
next
  case (Cons first rest)
  define nm where "nm = (case name of None \<Rightarrow> rh_Nome first
              | Some n \<Rightarrow> if n = [] \<or> n \<notin> set (map rh_Nome hdr) then rh_Nome first else n)"
  show ?thesis
  proof (cases "filter (\<lambda>r. rh_Nome r = nm) hdr")
    case Nil
    then show ?thesis
      unfolding \<open>hdr = first # rest\<close> rcpl_cons[OF nm_def[unfolded \<open>hdr = first # rest\<close>]]
      by (simp only: list.case)
  next
    case (Cons row others)
    show ?thesis
      using rcpl_selected[OF Cons \<open>hdr = first # rest\<close> nm_def[symmetric]]
        spec_recipe_cost_perm[OF assms] by simp
  qed
qed


lemma rcpl_total: "\<exists>c. recipe_cost_per_liter hdr det prem name = Inr c"
proof (cases hdr)
  case Nil
  then show ?thesis by (simp add: rcpl_empty)
next
  case (Cons first rest)
  show ?thesis
  proof (cases "name = None \<or> name = Some [] \<or> (\<exists>n. name = Some n \<and> n \<notin> set (map rh_Nome (first # rest)))")
    case True
    then show ?thesis unfolding Cons using rcpl_fallback by blast
  next
    case False
    then obtain n where n: "name = Some n" "n \<noteq> []" "n \<in> set (map rh_Nome hdr)"
      unfolding Cons by (cases name) auto
    then have "\<exists>r \<in> set hdr. rh_Nome r = n" by auto
    from split_list_first_prop[OF this]
    obtain pre row post where s: "hdr = pre @ row # post" "rh_Nome row = n" "\<forall>y \<in> set pre. rh_Nome y \<noteq> n"
      by blast
    then have "n \<notin> set (map rh_Nome pre)" by auto
    from rcpl_named[OF n(2) s(2) this] show ?thesis
      unfolding n(1) s(1) by blast
  qed
qed

lemma spec_recipe_cost_example:
  assumes "rh_Volume_Batelada_L row = 500"
    and "filter (\<lambda>r. rd_Receita_ID r = rh_ID row) (det_rows det) \<noteq> []"
    and "sum_list (map (line_total det) (filter (\<lambda>r. rd_Receita_ID r = rh_ID row) (det_rows det))) = 2000"
    and "prem ''GIP Quimicos (R$/L)'' = Some 0.25" "prem ''GIP Energia (R$/L)'' = Some 0.35"
    and "prem ''GIP Agua (R$/L)'' = Some 0.15" "prem ''GIP CO2 (R$/L)'' = Some 0.15"
  shows "spec_recipe_cost row det prem = 2000 / 500 + 0.90" "spec_recipe_cost row det prem = 4.90"
  using assms by (simp_all add: spec_recipe_cost_def calc_gip_total_def dict_get_def Let_def)

text \<open>
  Claim C2. The result is always a number (the \<open>IndexError\<close> branch is never taken).
  With no recipe header it is the indirect cost per liter, the sum of the four premise
  components. If the requested name is \<open>None\<close>, empty or absent from the headers,
  the first header in storage order is costed; otherwise the first header of that name
  is. The cost of a header is the sum of its line totals divided by its batch volume
  plus the indirect cost, or just the indirect cost if the volume is not positive or
  the recipe has no lines. With volume 500, line totals summing to 2000 and components
  0.25, 0.35, 0.15 and 0.15 the cost is \<open>2000 / 500 + 0.90 = 4.90\<close>. The result does
  not change when the recipe-line rows are permuted.
\<close>

theorem recipe_cost_per_liter_selects_and_costs:
  "recipe_cost_per_liter [] det prem name = Inr (calc_gip_total prem) \<and>
   calc_gip_total prem =
     dict_get prem ''GIP Quimicos (R$/L)'' 0 + dict_get prem ''GIP Energia (R$/L)'' 0
     + dict_get prem ''GIP Agua (R$/L)'' 0 + dict_get prem ''GIP CO2 (R$/L)'' 0 \<and>
   (\<forall>hdr. \<exists>c. recipe_cost_per_liter hdr det prem name = Inr c) \<and>
   (\<forall>first rest.
      name = None \<or> name = Some [] \<or> (\<exists>n. name = Some n \<and> n \<notin> set (map rh_Nome (first # rest)))
      \<longrightarrow> recipe_cost_per_liter (first # rest) det prem name = Inr (spec_recipe_cost first det prem)) \<and>
   (\<forall>pre row post n.
      n \<noteq> [] \<and> rh_Nome row = n \<and> n \<notin> set (map rh_Nome pre)
      \<longrightarrow> recipe_cost_per_liter (pre @ row # post) det prem (Some n) = Inr (spec_recipe_cost row det prem)) \<and>
   (\<forall>row.
      filter (\<lambda>r. rd_Receita_ID r = rh_ID row) (det_rows det) = [] \<or> rh_Volume_Batelada_L row \<le> 0
      \<longrightarrow> spec_recipe_cost row det prem = calc_gip_total prem) \<and>
   (\<forall>row.
      filter (\<lambda>r. rd_Receita_ID r = rh_ID row) (det_rows det) \<noteq> [] \<and> 0 < rh_Volume_Batelada_L row
      \<longrightarrow> spec_recipe_cost row det prem =
            sum_list (map (line_total det) (filter (\<lambda>r. rd_Receita_ID r = rh_ID row) (det_rows det)))
              / rh_Volume_Batelada_L row + calc_gip_total prem) \<and>
   (\<forall>row.
      rh_Volume_Batelada_L row = 500 \<and>
      filter (\<lambda>r. rd_Receita_ID r = rh_ID row) (det_rows det) \<noteq> [] \<and>
      sum_list (map (line_total det) (filter (\<lambda>r. rd_Receita_ID r = rh_ID row) (det_rows det))) = 2000 \<and>
      prem ''GIP Quimicos (R$/L)'' = Some 0.25 \<and> prem ''GIP Energia (R$/L)'' = Some 0.35 \<and>
      prem ''GIP Agua (R$/L)'' = Some 0.15 \<and> prem ''GIP CO2 (R$/L)'' = Some 0.15
      \<longrightarrow> spec_recipe_cost row det prem = 2000 / 500 + 0.90 \<and> spec_recipe_cost row det prem = 4.90) \<and>
   (\<forall>hdr det'.
      mset (det_rows det') = mset (det_rows det) \<and> has_Custo_Total det' = has_Custo_Total det
      \<longrightarrow> recipe_cost_per_liter hdr det' prem name = recipe_cost_per_liter hdr det prem name)"
proof (intro conjI allI impI)
  show "recipe_cost_per_liter [] det prem name = Inr (calc_gip_total prem)"
    by (rule rcpl_empty)
  show "calc_gip_total prem =
     dict_get prem ''GIP Quimicos (R$/L)'' 0 + dict_get prem ''GIP Energia (R$/L)'' 0
     + dict_get prem ''GIP Agua (R$/L)'' 0 + dict_get prem ''GIP CO2 (R$/L)'' 0"
    by (rule calc_gip_total_components)
  show "\<exists>c. recipe_cost_per_liter hdr det prem name = Inr c" for hdr
    by (rule rcpl_total)
  show "recipe_cost_per_liter (first # rest) det prem name = Inr (spec_recipe_cost first det prem)"
    if "name = None \<or> name = Some [] \<or> (\<exists>n. name = Some n \<and> n \<notin> set (map rh_Nome (first # rest)))"
    for first rest
    using that by (rule rcpl_fallback)
  show "recipe_cost_per_liter (pre @ row # post) det prem (Some n) = Inr (spec_recipe_cost row det prem)"
    if "n \<noteq> [] \<and> rh_Nome row = n \<and> n \<notin> set (map rh_Nome pre)" for pre row post n
    using that by (intro rcpl_named) simp_all
  show "spec_recipe_cost row det prem = calc_gip_total prem"
    if "filter (\<lambda>r. rd_Receita_ID r = rh_ID row) (det_rows det) = [] \<or> rh_Volume_Batelada_L row \<le> 0"
    for row
    using that by (auto simp: spec_recipe_cost_def Let_def)
  show "spec_recipe_cost row det prem =
            sum_list (map (line_total det) (filter (\<lambda>r. rd_Receita_ID r = rh_ID row) (det_rows det)))
              / rh_Volume_Batelada_L row + calc_gip_total prem"
    if "filter (\<lambda>r. rd_Receita_ID r = rh_ID row) (det_rows det) \<noteq> [] \<and> 0 < rh_Volume_Batelada_L row"
    for row
    using that by (simp add: spec_recipe_cost_def Let_def)
  show "recipe_cost_per_liter hdr det' prem name = recipe_cost_per_liter hdr det prem name"
    if "mset (det_rows det') = mset (det_rows det) \<and> has_Custo_Total det' = has_Custo_Total det"
    for hdr det'
    using that by (intro rcpl_perm) simp_all
  show "spec_recipe_cost row det prem = 2000 / 500 + 0.90"
    if "rh_Volume_Batelada_L row = 500 \<and>
      filter (\<lambda>r. rd_Receita_ID r = rh_ID row) (det_rows det) \<noteq> [] \<and>
      sum_list (map (line_total det) (filter (\<lambda>r. rd_Receita_ID r = rh_ID row) (det_rows det))) = 2000 \<and>
      prem ''GIP Quimicos (R$/L)'' = Some 0.25 \<and> prem ''GIP Energia (R$/L)'' = Some 0.35 \<and>
      prem ''GIP Agua (R$/L)'' = Some 0.15 \<and> prem ''GIP CO2 (R$/L)'' = Some 0.15"
    for row :: receita_header
    using that by (intro spec_recipe_cost_example(1)) simp_all
  show "spec_recipe_cost row det prem = 4.90"
    if "rh_Volume_Batelada_L row = 500 \<and>
      filter (\<lambda>r. rd_Receita_ID r = rh_ID row) (det_rows det) \<noteq> [] \<and>
      sum_list (map (line_total det) (filter (\<lambda>r. rd_Receita_ID r = rh_ID row) (det_rows det))) = 2000 \<and>
      prem ''GIP Quimicos (R$/L)'' = Some 0.25 \<and> prem ''GIP Energia (R$/L)'' = Some 0.35 \<and>
      prem ''GIP Agua (R$/L)'' = Some 0.15 \<and> prem ''GIP CO2 (R$/L)'' = Some 0.15"
    for row :: receita_header
    using that by (intro spec_recipe_cost_example(2)) simp_all
qed

theorem recipe_cost_per_liter_selects_and_costs_witness:
  "recipe_cost_per_liter [example_ipa, example_pilsen] example_det example_prem (Some ''Pilsen Padrao'')
     = Inr 4.90 \<and>
   recipe_cost_per_liter [example_ipa, example_pilsen]
     (example_det\<lparr>det_rows := rev (det_rows example_det)\<rparr>) example_prem (Some ''Pilsen Padrao'')
     = Inr 4.90"
proof -
  note t = recipe_cost_per_liter_selects_and_costs[of example_det example_prem "Some ''Pilsen Padrao''"]
  note named = t[THEN conjunct2, THEN conjunct2, THEN conjunct2, THEN conjunct2, THEN conjunct1]
  note example = t[THEN conjunct2, THEN conjunct2, THEN conjunct2, THEN conjunct2, THEN conjunct2,
      THEN conjunct2, THEN conjunct2, THEN conjunct1]
  note perm = t[THEN conjunct2, THEN conjunct2, THEN conjunct2, THEN conjunct2, THEN conjunct2,
      THEN conjunct2, THEN conjunct2, THEN conjunct2]
  have sel: "recipe_cost_per_liter ([example_ipa] @ example_pilsen # []) example_det example_prem
      (Some ''Pilsen Padrao'') = Inr (spec_recipe_cost example_pilsen example_det example_prem)"
    by (rule named[THEN spec[where x = "[example_ipa]"], THEN spec[where x = example_pilsen],
          THEN spec[where x = "[]"], THEN spec[where x = "''Pilsen Padrao''"], THEN mp])
       (simp add: example_ipa_def example_pilsen_def)
  have cost: "spec_recipe_cost example_pilsen example_det example_prem = 4.90"
    by (rule example[THEN spec[where x = example_pilsen], THEN mp, THEN conjunct2])
       (simp add: example_pilsen_def example_det_def example_prem_def line_total_def)
  have r: "recipe_cost_per_liter [example_ipa, example_pilsen] example_det example_prem
      (Some ''Pilsen Padrao'') = Inr 4.90"
    using sel cost by simp
  have "recipe_cost_per_liter [example_ipa, example_pilsen]
      (example_det\<lparr>det_rows := rev (det_rows example_det)\<rparr>) example_prem (Some ''Pilsen Padrao'')
      = recipe_cost_per_liter [example_ipa, example_pilsen] example_det example_prem (Some ''Pilsen Padrao'')"
    by (rule perm[THEN spec[where x = "[example_ipa, example_pilsen]"],
          THEN spec[where x = "example_det\<lparr>det_rows := rev (det_rows example_det)\<rparr>"], THEN mp])
       simp
  with r show ?thesis by simp
qed

subsection \<open>Monthly result\<close>

lemma emb_item_eq:
  "emb_item emb_df precos_df vol_vemb item (r0, c0) =
     Inr (case spec_unidades emb_df vol_vemb item of
            None \<Rightarrow> (r0, c0)
          | Some u \<Rightarrow> (r0 + u * get_price precos_df (fst item) ''Varejo'',
                       c0 + u * snd (get_pack_cost emb_df (fst item))))"
proof -
  obtain n pct where i: "item = (n, pct)" by (cases item)
  obtain v_l c_u where g: "get_pack_cost emb_df n = (v_l, c_u)" by (cases "get_pack_cost emb_df n")
  show ?thesis
  proof (cases "v_l \<le> 0")
    case True
    then show ?thesis
      unfolding i by (simp add: emb_item_def spec_unidades_def g Let_def)
  next
    case False
    then have "py_div (vol_vemb * (pct / 100)) v_l = Inr (vol_vemb * (pct / 100) / v_l)"
      by (simp add: py_div_def)
    then show ?thesis
      unfolding i using False by (simp add: emb_item_def spec_unidades_def g Let_def)
  qed
qed

lemma emb_loop_closed:
  "emb_loop emb_df precos_df vol_vemb ds (r0, c0) =
     Inr (r0 + sum_list (map (\<lambda>item. case spec_unidades emb_df vol_vemb item of
                                 None \<Rightarrow> 0
                               | Some u \<Rightarrow> u * get_price precos_df (fst item) ''Varejo'') ds),
          c0 + sum_list (map (\<lambda>item. case spec_unidades emb_df vol_vemb item of
                                 None \<Rightarrow> 0
                               | Some u \<Rightarrow> u * snd (get_pack_cost emb_df (fst item))) ds))"
proof (induction ds arbitrary: r0 c0)
  case Nil
  then show ?case by simp
next
  case (Cons item ds)
  show ?case
  proof (cases "spec_unidades emb_df vol_vemb item")
    case None
    then show ?thesis
      using Cons.IH[of r0 c0] by (simp add: emb_item_eq)
  next
    case (Some u)
    then show ?thesis
      using Cons.IH[of "r0 + u * get_price precos_df (fst item) ''Varejo''"
                       "c0 + u * snd (get_pack_cost emb_df (fst item))"]
      by (simp add: emb_item_eq add.assoc)
  qed
qed

lemma spec_unidades_zero_volume:
  "(case spec_unidades emb_df 0 item of None \<Rightarrow> 0 | Some u \<Rightarrow> u * x) = (0::real)"
  by (cases item) (simp add: spec_unidades_def Let_def)

lemma emb_loop_zero_volume: "emb_loop emb_df precos_df 0 ds (0, 0) = Inr (0, 0)"
proof -
  have "sum_list (map (\<lambda>item. case spec_unidades emb_df 0 item of None \<Rightarrow> 0 | Some u \<Rightarrow> u * f item) ds) = (0::real)"
    for f :: "string \<times> real \<Rightarrow> real"
    by (induction ds) (simp_all add: spec_unidades_zero_volume)
  then show ?thesis
    unfolding emb_loop_closed by simp
qed

lemma spec_unidades_py_div:
  "(case spec_unidades emb_df vol_vemb item of
      None \<Rightarrow> fst (get_pack_cost emb_df (fst item)) \<le> 0
    | Some u \<Rightarrow> 0 < fst (get_pack_cost emb_df (fst item)) \<and>
                py_div (vol_vemb * (snd item / 100)) (fst (get_pack_cost emb_df (fst item))) = Inr u)"
  by (cases item) (simp add: spec_unidades_def Let_def py_div_def)

lemma taproom_cups_eq:
  "taproom_cups emb_df vol_tap =
     Inr (let v0 = fst (get_pack_cost emb_df ''Copo Taproom'')
          in (if v0 = 0 then vol_tap / 0.473 else if 0 < v0 then vol_tap / v0 else 0),
          snd (get_pack_cost emb_df ''Copo Taproom''))"
  by (cases "get_pack_cost emb_df ''Copo Taproom''") (auto simp: taproom_cups_def Let_def py_div_def)

lemma copo_vol_ml_inicial_default:
  "fst (get_pack_cost emb_df ''Copo Taproom'') \<le> 0 \<Longrightarrow> copo_vol_ml_inicial emb_df = 473"
  by (cases "get_pack_cost emb_df ''Copo Taproom''") (simp add: copo_vol_ml_inicial_def)

lemma get_pack_cost_absent:
  "embalagem \<notin> set (map emb_Embalagem emb_df) \<Longrightarrow> get_pack_cost emb_df embalagem = (0, 0)"
proof -
  assume "embalagem \<notin> set (map emb_Embalagem emb_df)"
  then have "filter (\<lambda>r. emb_Embalagem r = embalagem) emb_df = []"
    by (auto simp: filter_empty_conv)
  then show ?thesis by (simp add: get_pack_cost_def)
qed

lemma get_pack_cost_first:
  "embalagem \<notin> set (map emb_Embalagem pre) \<Longrightarrow> emb_Embalagem row = embalagem \<Longrightarrow>
   get_pack_cost (pre @ row # post) embalagem = (emb_Volume_L row, emb_Custo_Unit row)"
proof -
  assume a: "embalagem \<notin> set (map emb_Embalagem pre)" and r: "emb_Embalagem row = embalagem"
  from a have "filter (\<lambda>r. emb_Embalagem r = embalagem) pre = []"
    by (auto simp: filter_empty_conv)
  then show ?thesis using r by (simp add: get_pack_cost_def)
qed

lemma compute_monthly_dre_eq:
  assumes "recipe_cost_per_liter hdr det prem name = Inr c"
  shows "compute_monthly_dre vol mt mc me ds name hdr det emb_df precos_df prem =
     (let v = max 0 vol;
          copo_vol = fst (get_pack_cost emb_df ''Copo Taproom'');
          cups = (if copo_vol = 0 then v * (mt / 100) / 0.473
                  else if 0 < copo_vol then v * (mt / 100) / copo_vol else 0);
          copo_custo = snd (get_pack_cost emb_df ''Copo Taproom'');
          receita_emb = sum_list (map (\<lambda>item. case spec_unidades emb_df (v * (me / 100)) item of
                                 None \<Rightarrow> 0
                               | Some u \<Rightarrow> u * get_price precos_df (fst item) ''Varejo'') (normalize_dist ds));
          custo_emb = sum_list (map (\<lambda>item. case spec_unidades emb_df (v * (me / 100)) item of
                                 None \<Rightarrow> 0
                               | Some u \<Rightarrow> u * snd (get_pack_cost emb_df (fst item))) (normalize_dist ds));
          receita = cups * get_price precos_df ''Copo Taproom'' ''Taproom''
                    + v * (mc / 100) * get_price precos_df ''Chope (R$/L)'' ''Varejo'' + receita_emb;
          impostos = receita * (dict_get prem ''Impostos s/ venda (%)'' 0 / 100);
          cmv = v * c + custo_emb + cups * copo_custo
      in Inr \<lparr> Receita_bruta = receita, Impostos = impostos, CMV_liquido = v * c,
                Custo_embalagens = custo_emb, Custo_copos = cups * copo_custo, CMV_total = cmv,
                Margem_de_contribuicao = receita - impostos - cmv,
                Taproom_copos_mes = cups, Varejo_chope_L_mes = v * (mc / 100),
                Varejo_embalado_L_mes = v * (me / 100) \<rparr>)"
  unfolding compute_monthly_dre_def assms Let_def taproom_cups_eq emb_loop_closed
  by simp

lemma sum_list_spec_unidades_zero:
  "sum_list (map (\<lambda>item. case spec_unidades emb_df 0 item of None \<Rightarrow> 0 | Some u \<Rightarrow> u * f item) ds) = (0::real)"
  by (induction ds) (simp_all add: spec_unidades_zero_volume)

lemma compute_monthly_dre_negative:
  assumes "vol \<le> 0"
  shows "compute_monthly_dre vol mt mc me ds name hdr det emb_df precos_df prem =
     Inr \<lparr> Receita_bruta = 0, Impostos = 0, CMV_liquido = 0,
                Custo_embalagens = 0, Custo_copos = 0, CMV_total = 0,
                Margem_de_contribuicao = 0,
                Taproom_copos_mes = 0, Varejo_chope_L_mes = 0,
                Varejo_embalado_L_mes = 0 \<rparr>"
proof -
  obtain c where c: "recipe_cost_per_liter hdr det prem name = Inr c"
    using rcpl_total by blast
  have v: "max 0 vol = 0" using assms by simp
  show ?thesis
    unfolding compute_monthly_dre_eq[OF c] Let_def v
    by (simp add: sum_list_spec_unidades_zero)
qed

lemma example_cost:
  "recipe_cost_per_liter [example_ipa, example_pilsen] example_det example_prem (Some ''Pilsen Padrao'') = Inr 4.90"
  by (simp add: recipe_cost_per_liter_def example_ipa_def example_pilsen_def example_det_def
      example_prem_def calc_gip_total_def dict_get_def line_total_def)

text \<open>
  Claim C3, as amended. The computation always returns a result. Its liquid cost of
  goods is the monthly volume, clamped below at zero, times the recipe cost per liter
  (so the volume itself times the cost whenever the volume is not negative), whatever
  the channel percentages and the packaged distribution are. Taxes are the gross
  revenue times the tax percent over 100, the total cost of goods is the liquid cost
  plus the packaging cost plus the cup cost, and the contribution margin is the gross
  revenue less taxes less the total cost of goods.
\<close>

theorem compute_monthly_dre_cogs_and_margin:
  "\<exists>r c. compute_monthly_dre vol mt mc me ds name hdr det emb_df precos_df prem = Inr r \<and>
     recipe_cost_per_liter hdr det prem name = Inr c \<and>
     CMV_liquido r = max 0 vol * c \<and>
     (0 \<le> vol \<longrightarrow> CMV_liquido r = vol * c) \<and>
     (\<forall>mt' mc' me' ds'. \<exists>r'.
        compute_monthly_dre vol mt' mc' me' ds' name hdr det emb_df precos_df prem = Inr r' \<and>
        CMV_liquido r' = CMV_liquido r) \<and>
     Impostos r = Receita_bruta r * (dict_get prem ''Impostos s/ venda (%)'' 0 / 100) \<and>
     CMV_total r = CMV_liquido r + Custo_embalagens r + Custo_copos r \<and>
     Margem_de_contribuicao r = Receita_bruta r - Impostos r - CMV_total r"
proof -
  obtain c where c: "recipe_cost_per_liter hdr det prem name = Inr c"
    using rcpl_total by blast
  note eq = compute_monthly_dre_eq[OF c]
  obtain r where r: "compute_monthly_dre vol mt mc me ds name hdr det emb_df precos_df prem = Inr r"
    unfolding eq Let_def by blast
  have liq: "CMV_liquido r' = max 0 vol * c"
    if "compute_monthly_dre vol mt' mc' me' ds' name hdr det emb_df precos_df prem = Inr r'"
    for mt' mc' me' ds' r'
    using that unfolding eq Let_def by auto
  have others: "\<exists>r'. compute_monthly_dre vol mt' mc' me' ds' name hdr det emb_df precos_df prem = Inr r' \<and>
        CMV_liquido r' = CMV_liquido r" for mt' mc' me' ds'
  proof -
    obtain r' where r': "compute_monthly_dre vol mt' mc' me' ds' name hdr det emb_df precos_df prem = Inr r'"
      unfolding eq Let_def by blast
    with liq[OF r'] liq[OF r] show ?thesis by simp
  qed
  have tax: "Impostos r = Receita_bruta r * (dict_get prem ''Impostos s/ venda (%)'' 0 / 100)"
    using r unfolding eq Let_def by auto
  have cmv: "CMV_total r = CMV_liquido r + Custo_embalagens r + Custo_copos r"
    using r unfolding eq Let_def by auto
  have mar: "Margem_de_contribuicao r = Receita_bruta r - Impostos r - CMV_total r"
    using r unfolding eq Let_def by auto
  have pos: "0 \<le> vol \<longrightarrow> CMV_liquido r = vol * c"
    using liq[OF r] by simp
  from r c liq[OF r] pos others tax cmv mar show ?thesis by blast
qed

theorem compute_monthly_dre_cogs_and_margin_witness:
  "(0::real) \<le> 2000 \<and>
   (\<exists>r. compute_monthly_dre 2000 30 25 45 example_dist (Some ''Pilsen Padrao'')
          [example_ipa, example_pilsen] example_det example_emb example_precos example_prem = Inr r \<and>
        CMV_liquido r = 2000 * 4.90 \<and>
        Margem_de_contribuicao r = Receita_bruta r - Receita_bruta r * (10 / 100) - CMV_total r)"
proof -
  from compute_monthly_dre_cogs_and_margin[of 2000 30 25 45 example_dist "Some ''Pilsen Padrao''"
      "[example_ipa, example_pilsen]" example_det example_emb example_precos example_prem]
  obtain r c where
    r: "compute_monthly_dre 2000 30 25 45 example_dist (Some ''Pilsen Padrao'')
          [example_ipa, example_pilsen] example_det example_emb example_precos example_prem = Inr r" and
    c: "recipe_cost_per_liter [example_ipa, example_pilsen] example_det example_prem (Some ''Pilsen Padrao'') = Inr c" and
    l: "(0::real) \<le> 2000 \<longrightarrow> CMV_liquido r = 2000 * c" and
    t: "Impostos r = Receita_bruta r * (dict_get example_prem ''Impostos s/ venda (%)'' 0 / 100)" and
    m: "Margem_de_contribuicao r = Receita_bruta r - Impostos r - CMV_total r"
    by blast
  from c have "c = 4.90" unfolding example_cost by simp
  moreover have "dict_get example_prem ''Impostos s/ venda (%)'' 0 = 10"
    by (simp add: dict_get_def example_prem_def)
  ultimately show ?thesis using r l t m by simp
qed

text \<open>
  The claim as it was written takes the volume as given: for a volume of \<open>- 100\<close> and
  a cost of 4.90 per liter it asks for a liquid cost of \<open>- 490\<close>, and the function
  returns \<open>0\<close>.
\<close>

theorem compute_monthly_dre_negative_volume_counterexample:
  "map_sum id CMV_liquido
     (compute_monthly_dre (- 100) 30 25 45 example_dist (Some ''Pilsen Padrao'')
        [example_ipa, example_pilsen] example_det example_emb example_precos example_prem) = Inr 0 \<and>
   recipe_cost_per_liter [example_ipa, example_pilsen] example_det example_prem (Some ''Pilsen Padrao'') = Inr 4.90 \<and>
   (- 100) * 4.90 \<noteq> (0::real)"
  by (simp add: compute_monthly_dre_negative example_cost)

text \<open>
  Claim C10. A negative monthly volume is clamped to zero before anything is
  allocated: the whole result is the result for a volume of zero, in which every
  revenue, tax, cost, margin, volume and cup count is zero.
\<close>

theorem compute_monthly_dre_clamps_volume:
  assumes "vol < 0"
  shows "compute_monthly_dre vol mt mc me ds name hdr det emb_df precos_df prem =
         compute_monthly_dre 0 mt mc me ds name hdr det emb_df precos_df prem \<and>
         compute_monthly_dre vol mt mc me ds name hdr det emb_df precos_df prem =
           Inr \<lparr> Receita_bruta = 0, Impostos = 0, CMV_liquido = 0,
                Custo_embalagens = 0, Custo_copos = 0, CMV_total = 0,
                Margem_de_contribuicao = 0,
                Taproom_copos_mes = 0, Varejo_chope_L_mes = 0,
                Varejo_embalado_L_mes = 0 \<rparr>"
  using assms by (simp add: compute_monthly_dre_negative)

theorem compute_monthly_dre_clamps_volume_witness:
  "(- 100 :: real) < 0 \<and>
   compute_monthly_dre (- 100) 30 25 45 example_dist (Some ''Pilsen Padrao'')
        [example_ipa, example_pilsen] example_det example_emb example_precos example_prem =
   compute_monthly_dre 0 30 25 45 example_dist (Some ''Pilsen Padrao'')
        [example_ipa, example_pilsen] example_det example_emb example_precos example_prem"
proof -
  have h: "(- 100 :: real) < 0" by simp
  from compute_monthly_dre_clamps_volume[OF h] show ?thesis by simp
qed

text \<open>
  The packaging page offers 473 ml as the initial cup volume for every stored volume
  that is not positive. The monthly computation reads the same row on its own terms:
  its first statement replaces a volume of zero by 0.473, and its second one, whose
  condition only a negative volume can fail, sets the cup count to zero.
\<close>

lemma copo_vol_ml_inicial_and_cups:
  "fst (get_pack_cost emb_df ''Copo Taproom'') < 0 \<Longrightarrow>
   copo_vol_ml_inicial emb_df = 473 \<and>
   taproom_cups emb_df vol_tap = Inr (0, snd (get_pack_cost emb_df ''Copo Taproom''))"
  by (simp add: copo_vol_ml_inicial_default taproom_cups_eq Let_def)

text \<open>
  Claim C7, as amended. Division by a value of the packaging table raises
  \<^verbatim>\<open>ZeroDivisionError\<close> for a zero divisor; the monthly computation, its loop over
  the normalised distribution and its cup count nevertheless return a result for every
  input. For each entry of the distribution, a packaging whose volume per unit is not
  positive is skipped, and otherwise the unit count is the quotient, which exists, of
  the entry's allotted liters by that volume per unit. The packaging cost and the
  packaged revenue are the sums of unit count times unit cost and of unit count times
  retail price over the entries that are not skipped. The cup count is the Taproom
  volume divided by the volume per unit of the packaging \<open>Copo Taproom\<close> (the first
  row of that name); the default 0.473 replaces that volume when the row is absent or
  its volume is exactly zero, and when its volume is negative the cup count is zero.
\<close>

theorem channel_mix_allocation_units:
  "\<exists>r. compute_monthly_dre vol mt mc me ds name hdr det emb_df precos_df prem = Inr r \<and>
     (let vol_tap = max 0 vol * (mt / 100);
          vol_vemb = max 0 vol * (me / 100);
          dist_emb = normalize_dist ds;
          copo_vol = fst (get_pack_cost emb_df ''Copo Taproom'')
      in (\<exists>acc. emb_loop emb_df precos_df vol_vemb dist_emb (0, 0) = Inr acc) \<and>
         (\<exists>t. taproom_cups emb_df vol_tap = Inr t) \<and>
         list_all (\<lambda>item.
             case spec_unidades emb_df vol_vemb item of
               None \<Rightarrow> fst (get_pack_cost emb_df (fst item)) \<le> 0
             | Some u \<Rightarrow> 0 < fst (get_pack_cost emb_df (fst item)) \<and>
                         py_div (vol_vemb * (snd item / 100)) (fst (get_pack_cost emb_df (fst item)))
                           = Inr u) dist_emb \<and>
         Custo_embalagens r =
           sum_list (map (\<lambda>item. case spec_unidades emb_df vol_vemb item of
                                    None \<Rightarrow> 0
                                  | Some u \<Rightarrow> u * snd (get_pack_cost emb_df (fst item))) dist_emb) \<and>
         Receita_bruta r =
           Taproom_copos_mes r * get_price precos_df ''Copo Taproom'' ''Taproom''
           + Varejo_chope_L_mes r * get_price precos_df ''Chope (R$/L)'' ''Varejo''
           + sum_list (map (\<lambda>item. case spec_unidades emb_df vol_vemb item of
                                      None \<Rightarrow> 0
                                    | Some u \<Rightarrow> u * get_price precos_df (fst item) ''Varejo'') dist_emb) \<and>
         Taproom_copos_mes r =
           (if copo_vol = 0 then vol_tap / 0.473 else if 0 < copo_vol then vol_tap / copo_vol else 0) \<and>
         (0 < copo_vol \<longrightarrow> py_div vol_tap copo_vol = Inr (Taproom_copos_mes r)) \<and>
         Custo_copos r = Taproom_copos_mes r * snd (get_pack_cost emb_df ''Copo Taproom'') \<and>
         (''Copo Taproom'' \<notin> set (map emb_Embalagem emb_df) \<longrightarrow>
            copo_vol = 0 \<and> Taproom_copos_mes r = vol_tap / 0.473) \<and>
         (\<forall>pre row post.
            emb_df = pre @ row # post \<and> ''Copo Taproom'' \<notin> set (map emb_Embalagem pre) \<and>
            emb_Embalagem row = ''Copo Taproom''
            \<longrightarrow> copo_vol = emb_Volume_L row))"
proof -
  obtain c where c: "recipe_cost_per_liter hdr det prem name = Inr c"
    using rcpl_total by blast
  note eq = compute_monthly_dre_eq[OF c]
  obtain r where r: "compute_monthly_dre vol mt mc me ds name hdr det emb_df precos_df prem = Inr r"
    unfolding eq Let_def by blast
  let ?vol_tap = "max 0 vol * (mt / 100)"
  let ?vol_vemb = "max 0 vol * (me / 100)"
  let ?dist_emb = "normalize_dist ds"
  let ?copo_vol = "fst (get_pack_cost emb_df ''Copo Taproom'')"
  have b1: "\<exists>acc. emb_loop emb_df precos_df ?vol_vemb ?dist_emb (0, 0) = Inr acc"
    unfolding emb_loop_closed by blast
  have b2: "\<exists>t. taproom_cups emb_df ?vol_tap = Inr t"
    unfolding taproom_cups_eq by blast
  have b3: "list_all (\<lambda>item.
             case spec_unidades emb_df ?vol_vemb item of
               None \<Rightarrow> fst (get_pack_cost emb_df (fst item)) \<le> 0
             | Some u \<Rightarrow> 0 < fst (get_pack_cost emb_df (fst item)) \<and>
                         py_div (?vol_vemb * (snd item / 100)) (fst (get_pack_cost emb_df (fst item)))
                           = Inr u) ?dist_emb"
    unfolding list_all_iff using spec_unidades_py_div by blast
  have a2: "Custo_embalagens r =
           sum_list (map (\<lambda>item. case spec_unidades emb_df ?vol_vemb item of
                                    None \<Rightarrow> 0
                                  | Some u \<Rightarrow> u * snd (get_pack_cost emb_df (fst item))) ?dist_emb)"
    using r unfolding eq Let_def by auto
  have a3: "Receita_bruta r =
           Taproom_copos_mes r * get_price precos_df ''Copo Taproom'' ''Taproom''
           + Varejo_chope_L_mes r * get_price precos_df ''Chope (R$/L)'' ''Varejo''
           + sum_list (map (\<lambda>item. case spec_unidades emb_df ?vol_vemb item of
                                      None \<Rightarrow> 0
                                    | Some u \<Rightarrow> u * get_price precos_df (fst item) ''Varejo'') ?dist_emb)"
    using r unfolding eq Let_def by auto
  have a4: "Taproom_copos_mes r =
           (if ?copo_vol = 0 then ?vol_tap / 0.473 else if 0 < ?copo_vol then ?vol_tap / ?copo_vol else 0)"
    using r unfolding eq Let_def by auto
  have a4': "0 < ?copo_vol \<longrightarrow> py_div ?vol_tap ?copo_vol = Inr (Taproom_copos_mes r)"
    unfolding a4 by (simp add: py_div_def)
  have a5: "Custo_copos r = Taproom_copos_mes r * snd (get_pack_cost emb_df ''Copo Taproom'')"
    using r unfolding eq Let_def by auto
  have a6: "''Copo Taproom'' \<notin> set (map emb_Embalagem emb_df) \<longrightarrow>
            ?copo_vol = 0 \<and> Taproom_copos_mes r = ?vol_tap / 0.473"
    using a4 by (auto simp: get_pack_cost_absent simp del: set_map)
  have a7: "\<forall>pre row post.
            emb_df = pre @ row # post \<and> ''Copo Taproom'' \<notin> set (map emb_Embalagem pre) \<and>
            emb_Embalagem row = ''Copo Taproom''
            \<longrightarrow> ?copo_vol = emb_Volume_L row"
    by (auto simp: get_pack_cost_first simp del: set_map)
  show ?thesis
    apply (rule exI[of _ r])
    unfolding Let_def
    apply (intro conjI)
              apply (rule r)
             apply (rule b1)
            apply (rule b2)
           apply (rule b3)
          apply (rule a2)
         apply (rule a3)
        apply (rule a4)
       apply (rule a4')
      apply (rule a5)
     apply (rule a6)
    apply (rule a7)
    done
qed

theorem channel_mix_allocation_units_witness:
  "''Copo Taproom'' \<notin> set (map emb_Embalagem example_emb_zero) \<and>
   (\<exists>r. compute_monthly_dre 946 50 0 50 example_dist_zero None [] example_det example_emb_zero
          example_precos example_prem = Inr r \<and>
        Taproom_copos_mes r = 1000 \<and>
        Custo_embalagens r = 750 * 1.60 \<and>
        Receita_bruta r = 1000 * 20 + 750 * 22) \<and>
   example_emb = [example_emb ! 0, example_emb ! 1] @ example_emb ! 2 # [] \<and>
   emb_Embalagem (example_emb ! 2) = ''Copo Taproom'' \<and>
   fst (get_pack_cost example_emb ''Copo Taproom'') = 0.473 \<and>
   (\<exists>r. compute_monthly_dre 946 50 0 50 example_dist None [] example_det example_emb
          example_precos example_prem = Inr r \<and>
        py_div 473 0.473 = Inr (Taproom_copos_mes r))"
proof -
  have h: "''Copo Taproom'' \<notin> set (map emb_Embalagem example_emb_zero)"
    by (simp add: example_emb_zero_def)
  have nd: "normalize_dist example_dist_zero = [(''Lata 473ml'', 75), (''Long Neck'', 25)]"
    by (simp add: normalize_dist_def example_dist_zero_def clean_value_def)
  have u1: "spec_unidades example_emb_zero 473 (''Lata 473ml'', 75) = Some 750"
    by (simp add: spec_unidades_def get_pack_cost_def example_emb_zero_def)
  have u2: "spec_unidades example_emb_zero 473 (''Long Neck'', 25) = None"
    by (simp add: spec_unidades_def get_pack_cost_def example_emb_zero_def)
  have c1: "snd (get_pack_cost example_emb_zero ''Lata 473ml'') = 1.60"
    by (simp add: get_pack_cost_def example_emb_zero_def)
  have p1: "get_price example_precos ''Lata 473ml'' ''Varejo'' = 22"
    "get_price example_precos ''Copo Taproom'' ''Taproom'' = 20"
    by (simp_all add: get_price_def example_precos_def)
  from channel_mix_allocation_units[of 946 50 0 50 example_dist_zero None "[]" example_det
      example_emb_zero example_precos example_prem]
  obtain r where
    r: "compute_monthly_dre 946 50 0 50 example_dist_zero None [] example_det example_emb_zero
          example_precos example_prem = Inr r" and
    ce: "Custo_embalagens r =
           sum_list (map (\<lambda>item. case spec_unidades example_emb_zero (max 0 946 * (50 / 100)) item of
                                    None \<Rightarrow> 0
                                  | Some u \<Rightarrow> u * snd (get_pack_cost example_emb_zero (fst item)))
                      (normalize_dist example_dist_zero))" and
    rb: "Receita_bruta r =
           Taproom_copos_mes r * get_price example_precos ''Copo Taproom'' ''Taproom''
           + Varejo_chope_L_mes r * get_price example_precos ''Chope (R$/L)'' ''Varejo''
           + sum_list (map (\<lambda>item. case spec_unidades example_emb_zero (max 0 946 * (50 / 100)) item of
                                      None \<Rightarrow> 0
                                    | Some u \<Rightarrow> u * get_price example_precos (fst item) ''Varejo'')
                        (normalize_dist example_dist_zero))" and
    vc: "Varejo_chope_L_mes r = Varejo_chope_L_mes r" and
    a: "''Copo Taproom'' \<notin> set (map emb_Embalagem example_emb_zero) \<longrightarrow>
          fst (get_pack_cost example_emb_zero ''Copo Taproom'') = 0 \<and>
          Taproom_copos_mes r = max 0 946 * (50 / 100) / 0.473"
    unfolding Let_def by blast
  have vch: "Varejo_chope_L_mes r = 0"
    using r by (simp add: compute_monthly_dre_eq[OF rcpl_empty] Let_def) auto
  from a h have cups: "Taproom_copos_mes r = 1000" by simp
  have ce': "Custo_embalagens r = 750 * 1.60"
    unfolding ce nd by (simp add: u1 u2 c1)
  have rb': "Receita_bruta r = 1000 * 20 + 750 * 22"
    unfolding rb nd cups vch by (simp add: u1 u2 p1)
  have s: "example_emb = [example_emb ! 0, example_emb ! 1] @ example_emb ! 2 # []"
    by (simp add: example_emb_def)
  have n: "emb_Embalagem (example_emb ! 2) = ''Copo Taproom''"
    and pre: "''Copo Taproom'' \<notin> set (map emb_Embalagem [example_emb ! 0, example_emb ! 1])"
    by (simp_all add: example_emb_def)
  have v: "emb_Volume_L (example_emb ! 2) = 0.473"
    by (simp add: example_emb_def)
  from channel_mix_allocation_units[of 946 50 0 50 example_dist None "[]" example_det
      example_emb example_precos example_prem]
  obtain r2 where
    r2: "compute_monthly_dre 946 50 0 50 example_dist None [] example_det example_emb
          example_precos example_prem = Inr r2" and
    d: "0 < fst (get_pack_cost example_emb ''Copo Taproom'') \<longrightarrow>
          py_div (max 0 946 * (50 / 100)) (fst (get_pack_cost example_emb ''Copo Taproom''))
            = Inr (Taproom_copos_mes r2)" and
    f: "\<forall>pre row post.
            example_emb = pre @ row # post \<and> ''Copo Taproom'' \<notin> set (map emb_Embalagem pre) \<and>
            emb_Embalagem row = ''Copo Taproom''
            \<longrightarrow> fst (get_pack_cost example_emb ''Copo Taproom'') = emb_Volume_L row"
    unfolding Let_def by blast
  from f s n pre have "fst (get_pack_cost example_emb ''Copo Taproom'') = emb_Volume_L (example_emb ! 2)"
    by blast
  then have g: "fst (get_pack_cost example_emb ''Copo Taproom'') = 0.473"
    using v by simp
  from d g have "py_div 473 0.473 = Inr (Taproom_copos_mes r2)" by simp
  with r r2 h cups ce' rb' s n g show ?thesis by blast
qed

text \<open>
  The claim as it was written uses the default for every volume that is not positive.
  With a Taproom packaging of volume \<open>- 1\<close> and a Taproom volume of 473 liters it asks
  for \<open>473 / 0.473 = 1000\<close> cups; the function returns no cups at all.
\<close>

theorem taproom_negative_volume_counterexample:
  "map_sum id Taproom_copos_mes
     (compute_monthly_dre 473 100 0 0 example_dist None [] example_det
        [\<lparr>emb_Embalagem = ''Copo Taproom'', emb_Volume_L = - 1, emb_Custo_Unit = 0.25\<rparr>]
        example_precos example_prem) = Inr 0 \<and>
   (473::real) * (100 / 100) / 0.473 = 1000"
  by (simp add: compute_monthly_dre_eq[OF rcpl_empty] Let_def get_pack_cost_def)

subsection \<open>Financed payback\<close>

lemma divida_loop_fst:
  "fst (divida_loop l j p car ms acc saldo mp) =
     saldo @ map (\<lambda>i. acc + sum_list (map (\<lambda>m. l - (if m \<le> car then j else p)) (take (Suc i) ms))) [0..<length ms]"
proof (induction ms arbitrary: acc saldo mp)
  case Nil
  then show ?case by simp
next
  case (Cons m ms)
  have "map (\<lambda>i. acc + sum_list (map (\<lambda>m. l - (if m \<le> car then j else p)) (take (Suc i) (m # ms)))) [0..<length (m # ms)]
      = (acc + (l - (if m \<le> car then j else p))) #
        map (\<lambda>i. (acc + (l - (if m \<le> car then j else p))) + sum_list (map (\<lambda>m. l - (if m \<le> car then j else p)) (take (Suc i) ms))) [0..<length ms]"
    by (simp add: upt_conv_Cons map_Suc_upt[symmetric] add.assoc del: upt_Suc)
  then show ?case
    by (simp add: Let_def Cons.IH del: upt_Suc)
qed

lemma divida_loop_balances:
  fixes l j p acc :: real and car :: int and ms :: "int list"
  defines "f \<equiv> \<lambda>m. l - (if m \<le> car then j else p)"
  defines "bal \<equiv> \<lambda>k. acc + sum_list (map f (take k ms))"
  shows "fst (divida_loop l j p car ms acc [acc] mp) = map bal [0..<Suc (length ms)]"
proof -
  have "map bal [0..<Suc (length ms)] = bal 0 # map (\<lambda>i. bal (Suc i)) [0..<length ms]"
    by (simp add: upt_conv_Cons map_Suc_upt[symmetric] del: upt_Suc)
  then show ?thesis
    unfolding divida_loop_fst bal_def f_def by simp
qed

lemma divida_loop_deducted:
  assumes "1 \<le> m" "m \<le> length ms"
  shows "deducted l (fst (divida_loop l j p car ms acc [acc] mp)) m =
           (if ms ! (m - 1) \<le> car then j else p)"
proof -
  define f where "f = (\<lambda>m. l - (if m \<le> car then j else p))"
  define bal where "bal = (\<lambda>k. acc + sum_list (map f (take k ms)))"
  have s: "fst (divida_loop l j p car ms acc [acc] mp) = map bal [0..<Suc (length ms)]"
    unfolding bal_def f_def by (rule divida_loop_balances)
  obtain i where i: "m = Suc i" using assms(1) by (cases m) auto
  have il: "i < length ms" using assms(2) i by simp
  have "take (Suc i) ms = take i ms @ [ms ! i]"
    using il by (simp add: take_Suc_conv_app_nth)
  then have step: "bal (Suc i) = bal i + f (ms ! i)"
    by (simp add: bal_def)
  have n1: "map bal [0..<Suc (length ms)] ! Suc i = bal (Suc i)"
    using il by (simp del: upt_Suc)
  have n0: "map bal [0..<Suc (length ms)] ! i = bal i"
    using il by (simp del: upt_Suc)
  show ?thesis
    unfolding deducted_def s i using n1 n0 step by (simp add: f_def)
qed

lemma payback_com_divida_deducted:
  assumes "1 \<le> m" "m \<le> 84"
  shows "deducted lucro (fst (payback_com_divida invest lucro valor_fin i_m prazo carencia)) m =
           (if int m \<le> carencia then valor_fin * i_m
            else pmt_price valor_fin i_m (max 1 (prazo - carencia)))"
proof -
  have len: "length [1..84::int] = 84" by simp
  have nth: "[1..84::int] ! (m - 1) = int m"
    using assms by (simp add: nth_upto)
  show ?thesis
    unfolding payback_com_divida_def
    using divida_loop_deducted[of m "[1..84]" lucro "juros_only valor_fin i_m"
        "parcela valor_fin i_m prazo carencia" carencia "- invest" None] assms
    unfolding len nth by (simp add: juros_only_def parcela_def)
qed


lemma payback_com_divida_length:
  "length (fst (payback_com_divida invest lucro valor_fin i_m prazo carencia)) = 85"
  unfolding payback_com_divida_def divida_loop_balances by simp

text \<open>
  Claim C5, as amended. The financed series has the balances of months 0 to 84. In
  every month \<open>m\<close> from 1 to 84 with \<open>m \<le> carencia\<close> the amount deducted from the
  operating cash is the interest-only payment \<open>valor_fin * i_m\<close>; in every later
  month it is the Price installment over \<open>max 1 (prazo - carencia)\<close> periods: over
  exactly \<open>prazo - carencia\<close> periods when the term exceeds the grace period, and
  over one period otherwise. With principal 6000, monthly rate 0.015, term 12 and
  grace 2, months 1 and 2 deduct 90 and months 3 onward deduct the installment over 10
  periods.
\<close>

theorem financed_payback_deductions:
  "length (fst (payback_com_divida invest lucro valor_fin i_m prazo carencia)) = 85 \<and>
   (\<forall>m. 1 \<le> m \<and> m \<le> 84 \<and> int m \<le> carencia \<longrightarrow>
      deducted lucro (fst (payback_com_divida invest lucro valor_fin i_m prazo carencia)) m
        = valor_fin * i_m) \<and>
   (\<forall>m. 1 \<le> m \<and> m \<le> 84 \<and> carencia < int m \<longrightarrow>
      deducted lucro (fst (payback_com_divida invest lucro valor_fin i_m prazo carencia)) m
        = pmt_price valor_fin i_m (max 1 (prazo - carencia))) \<and>
   (1 \<le> prazo - carencia \<longrightarrow>
      (\<forall>m. 1 \<le> m \<and> m \<le> 84 \<and> carencia < int m \<longrightarrow>
         deducted lucro (fst (payback_com_divida invest lucro valor_fin i_m prazo carencia)) m
           = pmt_price valor_fin i_m (prazo - carencia))) \<and>
   (prazo - carencia < 1 \<longrightarrow>
      (\<forall>m. 1 \<le> m \<and> m \<le> 84 \<and> carencia < int m \<longrightarrow>
         deducted lucro (fst (payback_com_divida invest lucro valor_fin i_m prazo carencia)) m
           = pmt_price valor_fin i_m 1)) \<and>
   (valor_fin = 6000 \<and> i_m = 0.015 \<and> prazo = 12 \<and> carencia = 2 \<longrightarrow>
      deducted lucro (fst (payback_com_divida invest lucro valor_fin i_m prazo carencia)) 1 = 90 \<and>
      deducted lucro (fst (payback_com_divida invest lucro valor_fin i_m prazo carencia)) 2 = 90 \<and>
      (\<forall>m. 3 \<le> m \<and> m \<le> 84 \<longrightarrow>
         deducted lucro (fst (payback_com_divida invest lucro valor_fin i_m prazo carencia)) m
           = pmt_price 6000 0.015 10))"
proof -
  let ?d = "deducted lucro (fst (payback_com_divida invest lucro valor_fin i_m prazo carencia))"
  note d = payback_com_divida_deducted[of _ lucro invest valor_fin i_m prazo carencia]
  have g: "\<forall>m. 1 \<le> m \<and> m \<le> 84 \<and> int m \<le> carencia \<longrightarrow> ?d m = valor_fin * i_m"
    by (simp add: d)
  have a: "\<forall>m. 1 \<le> m \<and> m \<le> 84 \<and> carencia < int m \<longrightarrow>
      ?d m = pmt_price valor_fin i_m (max 1 (prazo - carencia))"
    by (simp add: d)
  have a1: "1 \<le> prazo - carencia \<longrightarrow>
      (\<forall>m. 1 \<le> m \<and> m \<le> 84 \<and> carencia < int m \<longrightarrow> ?d m = pmt_price valor_fin i_m (prazo - carencia))"
    by (simp add: d max_def)
  have a2: "prazo - carencia < 1 \<longrightarrow>
      (\<forall>m. 1 \<le> m \<and> m \<le> 84 \<and> carencia < int m \<longrightarrow> ?d m = pmt_price valor_fin i_m 1)"
    by (simp add: d max_def)
  have e: "valor_fin = 6000 \<and> i_m = 0.015 \<and> prazo = 12 \<and> carencia = 2 \<longrightarrow>
      ?d 1 = 90 \<and> ?d 2 = 90 \<and> (\<forall>m. 3 \<le> m \<and> m \<le> 84 \<longrightarrow> ?d m = pmt_price 6000 0.015 10)"
  proof (intro impI, elim conjE)
    assume h: "valor_fin = 6000" "i_m = 0.015" "prazo = 12" "carencia = 2"
    have d1: "?d 1 = 90" by (subst d) (simp_all add: h)
    have d2: "?d 2 = 90" by (subst d) (simp_all add: h)
    have d3: "?d m = pmt_price 6000 0.015 10" if "3 \<le> m \<and> m \<le> 84" for m
      using that by (subst d) (simp_all add: h)
    from d1 d2 d3 show "?d 1 = 90 \<and> ?d 2 = 90 \<and> (\<forall>m. 3 \<le> m \<and> m \<le> 84 \<longrightarrow> ?d m = pmt_price 6000 0.015 10)"
      by blast
  qed
  show ?thesis
    apply (intro conjI)
         apply (rule payback_com_divida_length)
        apply (rule g)
       apply (rule a)
      apply (rule a1)
     apply (rule a2)
    apply (rule e)
    done
qed

theorem financed_payback_deductions_witness:
  "deducted 1000 (fst (payback_com_divida 10000 1000 6000 0.015 12 2)) 1 = 90 \<and>
   deducted 1000 (fst (payback_com_divida 10000 1000 6000 0.015 12 2)) 2 = 90 \<and>
   deducted 1000 (fst (payback_com_divida 10000 1000 6000 0.015 12 2)) 3 = pmt_price 6000 0.015 10 \<and>
   deducted 1000 (fst (payback_com_divida 10000 1000 6000 0.015 12 2)) 84 = pmt_price 6000 0.015 10"
proof -
  note t = financed_payback_deductions[of 10000 1000 6000 "0.015" 12 2]
  note e = t[THEN conjunct2, THEN conjunct2, THEN conjunct2, THEN conjunct2, THEN conjunct2, THEN mp]
  have "(6000::real) = 6000 \<and> (0.015::real) = 0.015 \<and> (12::int) = 12 \<and> (2::int) = 2" by simp
  from e[OF this] show ?thesis by simp
qed

text \<open>
  The claim as it was written computes the installment over \<open>prazo - carencia\<close>
  periods for every term and grace period. With a term of 1 month and a grace period
  of 2 months that number is \<open>- 1\<close>, for which the installment is 0; the page deducts
  the installment over one period, 6090, in month 3.
\<close>

theorem financed_payback_short_term_counterexample:
  "deducted 1000 (fst (payback_com_divida 10000 1000 6000 0.015 1 2)) 3 = 6090 \<and>
   pmt_price 6000 0.015 (1 - 2) = 0"
  by (simp add: payback_com_divida_deducted pmt_price_def)

subsection \<open>Loading the store\<close>

lemma spec_store_ok_empty_db: "spec_store_ok (JObj empty_db)"
  by (simp add: spec_store_ok_def empty_db_def)

lemma dget_update: "dget (AList.update k v al) k' = (if k' = k then v else dget al k')"
  by (simp add: dget_def update_conv')

lemma resolve_selected_ok:
  assumes "dget raw ''scenarios'' = JObj scs" "scs \<noteq> []"
    and "\<forall>x. dget raw ''selected'' \<noteq> JArr x" "\<forall>x. dget raw ''selected'' \<noteq> JObj x"
  shows "\<exists>st. resolve_selected raw = Inr st \<and> spec_store_ok st"
proof -
  obtain k v rest where scs: "scs = (k, v) # rest"
    using assms(2) by (cases scs) auto
  have sc: "map_of raw ''scenarios'' = Some (JObj scs)"
    using assms(1) by (auto simp: dget_def split: option.splits)
  have upd: "spec_store_ok (JObj (AList.update ''selected'' (JStr k) raw))"
    using sc by (simp add: spec_store_ok_def update_conv' scs)
  show ?thesis
  proof (cases "dget raw ''selected''")
    case (JStr sel)
    show ?thesis
    proof (cases "sel \<in> set (map fst scs)")
      case True
      have "map_of raw ''selected'' = Some (JStr sel)"
        using JStr by (auto simp: dget_def split: option.splits)
      then have "spec_store_ok (JObj raw)"
        using sc True assms(2) by (simp add: spec_store_ok_def del: set_map)
      then show ?thesis
        using True JStr assms(1) by (simp add: resolve_selected_def del: set_map)
    next
      case False
      then show ?thesis
        using JStr assms(1) upd unfolding scs by (simp add: resolve_selected_def del: set_map)
    qed
  qed (use assms upd in \<open>simp_all add: resolve_selected_def scs\<close>)
qed

lemma resolve_selected_empty_db:
  "\<exists>st. resolve_selected empty_db = Inr st \<and> spec_store_ok st"
  by (rule resolve_selected_ok[where scs = "[(DEFAULT_SCENARIO_NAME, JObj default_scenario)]"])
     (simp_all add: empty_db_def dget_def)

lemma load_scenarios_ok:
  assumes "\<forall>x. dget raw0 ''selected'' \<noteq> JArr x" "\<forall>x. dget raw0 ''selected'' \<noteq> JObj x"
  shows "\<exists>st. load_scenarios str_of raw0 = Inr st \<and> spec_store_ok st"
proof -
  define raw1 where "raw1 = (case dget raw0 ''scenarios'' of
                    JArr items \<Rightarrow>
                      AList.update ''scenarios'' (JObj (migracao_2_loop str_of 0 items [])) raw0
                  | _ \<Rightarrow> raw0)"
  define raw2 where "raw2 = (case dget raw1 ''scenarios'' of
                    JObj scs \<Rightarrow> if length scs = 0 then empty_db else raw1
                  | _ \<Rightarrow> empty_db)"
  have l: "load_scenarios str_of raw0 = resolve_selected raw2"
    unfolding load_scenarios_def Let_def raw2_def raw1_def ..
  have sel1: "dget raw1 ''selected'' = dget raw0 ''selected''"
    by (simp add: raw1_def dget_update split: json.split)
  show ?thesis
  proof (cases "\<exists>scs. dget raw1 ''scenarios'' = JObj scs \<and> scs \<noteq> []")
    case True
    then obtain scs where scs: "dget raw1 ''scenarios'' = JObj scs" "scs \<noteq> []" by blast
    then have "raw2 = raw1" by (simp add: raw2_def)
    then show ?thesis
      unfolding l using resolve_selected_ok[OF scs] assms sel1 by simp
  next
    case False
    then have "raw2 = empty_db"
      by (auto simp: raw2_def split: json.split)
    then show ?thesis
      unfolding l using resolve_selected_empty_db by simp
  qed
qed


lemma collect_fields_obj:
  "\<exists>sc'. collect_fields (JObj kv) ks sc = Inr sc' \<and>
     (\<forall>k. map_of sc' k = (if k \<in> set ks \<and> has_field kv k then Some (dget kv k) else map_of sc k)) \<and>
     (distinct (map fst sc) \<longrightarrow> distinct (map fst sc'))"
proof (induction ks arbitrary: sc)
  case Nil
  then show ?case by simp
next
  case (Cons k ks)
  show ?case
  proof (cases "has_field kv k")
    case False
    then have "collect_fields (JObj kv) (k # ks) sc = collect_fields (JObj kv) ks sc"
      by (simp add: py_in_def has_field_def del: set_map)
    with Cons.IH[of sc] False show ?thesis by auto
  next
    case True
    then have e: "collect_fields (JObj kv) (k # ks) sc =
        collect_fields (JObj kv) ks (AList.update k (dget kv k) sc)"
      by (simp add: py_in_def py_get_def has_field_def del: set_map)
    from Cons.IH[of "AList.update k (dget kv k) sc"]
    obtain sc' where sc': "collect_fields (JObj kv) ks (AList.update k (dget kv k) sc) = Inr sc'"
      "\<forall>k'. map_of sc' k' = (if k' \<in> set ks \<and> has_field kv k' then Some (dget kv k')
                              else map_of (AList.update k (dget kv k) sc) k')"
      "distinct (map fst (AList.update k (dget kv k) sc)) \<longrightarrow> distinct (map fst sc')"
      by blast
    have "\<forall>k'. map_of sc' k' = (if k' \<in> set (k # ks) \<and> has_field kv k' then Some (dget kv k') else map_of sc k')"
      using sc'(2) True by (auto simp: update_conv')
    moreover have "distinct (map fst sc) \<longrightarrow> distinct (map fst sc')"
      using sc'(3) by (simp add: distinct_update)
    ultimately show ?thesis unfolding e using sc'(1) by blast
  qed
qed

lemma map_of_mem: "k \<in> set (map fst al) \<longleftrightarrow> map_of al k \<noteq> None"
  by (simp add: map_of_eq_None_iff)

lemma dget_map_of: "map_of al k = Some v \<Longrightarrow> dget al k = v"
  by (simp add: dget_def)

lemma rename_field_map_of:
  "map_of (rename_field old new sc) k =
     (if map_of sc old \<noteq> None \<and> map_of sc new = None
      then (if k = new then map_of sc old else if k = old then None else map_of sc k)
      else map_of sc k)"
  by (auto simp: rename_field_def map_of_mem update_conv' delete_conv' dget_def simp del: set_map
      split: option.splits)

lemma rename_field_distinct:
  "distinct (map fst sc) \<Longrightarrow> distinct (map fst (rename_field old new sc))"
  by (simp add: rename_field_def distinct_update distinct_delete del: set_map)

lemma map_of_filter_values:
  "distinct (map fst al) \<Longrightarrow>
   map_of (filter (\<lambda>(k, v). P v) al) k =
     (case map_of al k of None \<Rightarrow> None | Some v \<Rightarrow> if P v then Some v else None)"
proof (induction al)
  case Nil
  then show ?case by simp
next
  case (Cons a al)
  obtain k' v' where a: "a = (k', v')" by (cases a)
  have "map_of al k' = None"
    using Cons.prems unfolding a by (simp add: map_of_eq_None_iff)
  then show ?case
    using Cons unfolding a by (auto split: option.splits)
qed

lemma filter_values_distinct:
  "distinct (map fst al) \<Longrightarrow> distinct (map fst (filter P al))"
  by (simp add: distinct_map_filter)

lemma dict_update_map_of:
  "distinct (map fst other) \<Longrightarrow>
   map_of (dict_update base other) k = (case map_of other k of None \<Rightarrow> map_of base k | Some v \<Rightarrow> Some v)"
proof (induction other arbitrary: base)
  case Nil
  then show ?case by (simp add: dict_update_def)
next
  case (Cons a other)
  obtain k' v' where a: "a = (k', v')" by (cases a)
  have n: "map_of other k' = None"
    using Cons.prems unfolding a by (simp add: map_of_eq_None_iff)
  have d: "distinct (map fst other)" using Cons.prems by simp
  have "dict_update base (a # other) = dict_update (AList.update k' v' base) other"
    unfolding a by (simp add: dict_update_def)
  then show ?case
    using Cons.IH[OF d, of "AList.update k' v' base"] n unfolding a
    by (auto simp: update_conv' split: option.splits)
qed

lemma dict_update_distinct:
  "distinct (map fst base) \<Longrightarrow> distinct (map fst (dict_update base other))"
proof (induction other arbitrary: base)
  case Nil
  then show ?case by (simp add: dict_update_def)
next
  case (Cons a other)
  obtain k' v' where a: "a = (k', v')" by (cases a)
  have "dict_update base (a # other) = dict_update (AList.update k' v' base) other"
    unfolding a by (simp add: dict_update_def)
  then show ?case
    using Cons.IH[of "AList.update k' v' base"] Cons.prems by (simp add: distinct_update)
qed


lemma migracao_1_obj:
  "\<exists>base. migracao_1 (JObj kv) =
       Inr (JObj [(''scenarios'', JObj [(DEFAULT_SCENARIO_NAME, JObj base)]),
                  (''selected'', JStr DEFAULT_SCENARIO_NAME)]) \<and>
     distinct (map fst base) \<and>
     (\<forall>k. map_of base k =
        (if k = ''opex_outros_db'' then
           (if has_field kv k then (if field_supplied kv k then Some (dget kv k) else map_of default_scenario k)
            else if field_supplied kv ''opex_db'' then Some (dget kv ''opex_db'')
            else map_of default_scenario k)
         else if k = ''precos_sku'' then
           (if has_field kv k then (if field_supplied kv k then Some (dget kv k) else map_of default_scenario k)
            else if field_supplied kv ''precos_venda'' then Some (dget kv ''precos_venda'')
            else map_of default_scenario k)
         else if k = ''opex_db'' then
           (if has_field kv ''opex_outros_db'' \<and> field_supplied kv ''opex_db''
            then Some (dget kv ''opex_db'') else None)
         else if k = ''precos_venda'' then
           (if has_field kv ''precos_sku'' \<and> field_supplied kv ''precos_venda''
            then Some (dget kv ''precos_venda'') else None)
         else if k \<in> set legacy_keys \<and> field_supplied kv k then Some (dget kv k)
         else map_of default_scenario k))"
proof -
  from collect_fields_obj[of kv legacy_keys "[]"]
  obtain sc0 where sc0: "collect_fields (JObj kv) legacy_keys [] = Inr sc0"
    and m0: "\<And>k. map_of sc0 k = (if k \<in> set legacy_keys \<and> has_field kv k then Some (dget kv k) else None)"
    and d0: "distinct (map fst sc0)"
    by auto
  define sc1 where "sc1 = rename_field ''opex_db'' ''opex_outros_db'' sc0"
  define sc2 where "sc2 = rename_field ''precos_venda'' ''precos_sku'' sc1"
  define sc3 where "sc3 = filter (\<lambda>(k, v). v \<noteq> JNull) sc2"
  define base where "base = dict_update default_scenario sc3"
  have d1: "distinct (map fst sc1)" unfolding sc1_def using d0 by (rule rename_field_distinct)
  have d2: "distinct (map fst sc2)" unfolding sc2_def using d1 by (rule rename_field_distinct)
  have d3: "distinct (map fst sc3)" unfolding sc3_def using d2 by (rule filter_values_distinct)
  have dd: "distinct (map fst default_scenario)" by (simp add: default_scenario_def)
  have db: "distinct (map fst base)" unfolding base_def using dd by (rule dict_update_distinct)
  have r: "migracao_1 (JObj kv) =
       Inr (JObj [(''scenarios'', JObj [(DEFAULT_SCENARIO_NAME, JObj base)]),
                  (''selected'', JStr DEFAULT_SCENARIO_NAME)])"
    by (simp add: migracao_1_def sc0 Let_def base_def sc3_def sc2_def sc1_def)
  have m1: "map_of sc1 k =
     (if map_of sc0 ''opex_db'' \<noteq> None \<and> map_of sc0 ''opex_outros_db'' = None
      then (if k = ''opex_outros_db'' then map_of sc0 ''opex_db'' else if k = ''opex_db'' then None else map_of sc0 k)
      else map_of sc0 k)" for k
    unfolding sc1_def by (rule rename_field_map_of)
  have m2: "map_of sc2 k =
     (if map_of sc1 ''precos_venda'' \<noteq> None \<and> map_of sc1 ''precos_sku'' = None
      then (if k = ''precos_sku'' then map_of sc1 ''precos_venda'' else if k = ''precos_venda'' then None else map_of sc1 k)
      else map_of sc1 k)" for k
    unfolding sc2_def by (rule rename_field_map_of)
  have m3: "map_of sc3 k = (case map_of sc2 k of None \<Rightarrow> None | Some v \<Rightarrow> if v \<noteq> JNull then Some v else None)" for k
    unfolding sc3_def by (rule map_of_filter_values[OF d2])
  have mb: "map_of base k = (case map_of sc3 k of None \<Rightarrow> map_of default_scenario k | Some v \<Rightarrow> Some v)" for k
    unfolding base_def by (rule dict_update_map_of[OF d3])
  have dflt_legacy: "map_of default_scenario ''opex_db'' = None" "map_of default_scenario ''precos_venda'' = None"
    by (simp_all add: default_scenario_def)
  have lk: "''opex_db'' \<in> set legacy_keys" "''opex_outros_db'' \<in> set legacy_keys"
      "''precos_venda'' \<in> set legacy_keys" "''precos_sku'' \<in> set legacy_keys"
    by (simp_all add: legacy_keys_def)
  have a0: "map_of sc0 ''opex_db'' = (if has_field kv ''opex_db'' then Some (dget kv ''opex_db'') else None)"
    "map_of sc0 ''opex_outros_db'' = (if has_field kv ''opex_outros_db'' then Some (dget kv ''opex_outros_db'') else None)"
    "map_of sc0 ''precos_venda'' = (if has_field kv ''precos_venda'' then Some (dget kv ''precos_venda'') else None)"
    "map_of sc0 ''precos_sku'' = (if has_field kv ''precos_sku'' then Some (dget kv ''precos_sku'') else None)"
    using lk by (simp_all add: m0)
  have a1: "map_of sc1 ''precos_venda'' = map_of sc0 ''precos_venda''"
     "map_of sc1 ''precos_sku'' = map_of sc0 ''precos_sku''"
    by (simp_all add: m1)
  have look: "map_of base k =
        (if k = ''opex_outros_db'' then
           (if has_field kv k then (if field_supplied kv k then Some (dget kv k) else map_of default_scenario k)
            else if field_supplied kv ''opex_db'' then Some (dget kv ''opex_db'')
            else map_of default_scenario k)
         else if k = ''precos_sku'' then
           (if has_field kv k then (if field_supplied kv k then Some (dget kv k) else map_of default_scenario k)
            else if field_supplied kv ''precos_venda'' then Some (dget kv ''precos_venda'')
            else map_of default_scenario k)
         else if k = ''opex_db'' then
           (if has_field kv ''opex_outros_db'' \<and> field_supplied kv ''opex_db''
            then Some (dget kv ''opex_db'') else None)
         else if k = ''precos_venda'' then
           (if has_field kv ''precos_sku'' \<and> field_supplied kv ''precos_venda''
            then Some (dget kv ''precos_venda'') else None)
         else if k \<in> set legacy_keys \<and> field_supplied kv k then Some (dget kv k)
         else map_of default_scenario k)" for k
  proof -
    consider "k = ''opex_outros_db''" | "k = ''precos_sku''" | "k = ''opex_db''" | "k = ''precos_venda''"
      | "k \<noteq> ''opex_outros_db''" "k \<noteq> ''precos_sku''" "k \<noteq> ''opex_db''" "k \<noteq> ''precos_venda''"
      by blast
    then show ?thesis
    proof cases
      case 1
      then show ?thesis
        unfolding mb m3 m2 a1 by (simp add: m1 a0 field_supplied_def)
    next
      case 2
      then show ?thesis
        unfolding mb m3 m2 a1 by (simp add: m1 a0 field_supplied_def)
    next
      case 3
      then show ?thesis
        unfolding mb m3 m2 a1 by (simp add: m1 a0 field_supplied_def dflt_legacy)
    next
      case 4
      then show ?thesis
        unfolding mb m3 m2 a1 by (simp add: m1 a0 field_supplied_def dflt_legacy)
    next
      case 5
      then show ?thesis
        unfolding mb m3 m2 a1 by (simp add: m1 a0 m0[of k] field_supplied_def)
    qed
  qed
  from r db look show ?thesis by blast
qed


lemma load_db_legacy: "\<not> has_field kv ''scenarios'' \<Longrightarrow> load_db str_of (Parsed (JObj kv)) = migracao_1 (JObj kv)"
  by (simp add: load_db_def py_in_def has_field_def del: set_map)

text \<open>
  What holds of the store invariant: with no file, with an unreadable file, and for
  every parsed object whose \<^verbatim>\<open>selected\<close> is neither a list nor an object, \<open>load_db\<close>
  returns a store with a non-empty mapping of scenarios and a selected name among its
  keys.
\<close>

lemma load_db_store_ok:
  assumes "file = Missing \<or> file = Unreadable \<or>
     (\<exists>kv. file = Parsed (JObj kv) \<and> (\<forall>x. dget kv ''selected'' \<noteq> JArr x) \<and> (\<forall>x. dget kv ''selected'' \<noteq> JObj x))"
  shows "\<exists>st. load_db str_of file = Inr st \<and> spec_store_ok st"
proof -
  consider "file = Missing" | "file = Unreadable"
    | kv where "file = Parsed (JObj kv)" "\<forall>x. dget kv ''selected'' \<noteq> JArr x" "\<forall>x. dget kv ''selected'' \<noteq> JObj x"
    using assms by blast
  then show ?thesis
  proof cases
    case 1
    then show ?thesis by (simp add: load_db_def spec_store_ok_empty_db)
  next
    case 2
    then show ?thesis by (simp add: load_db_def spec_store_ok_empty_db)
  next
    case 3
    show ?thesis
    proof (cases "has_field kv ''scenarios''")
      case True
      then have "load_db str_of file = load_scenarios str_of kv"
        unfolding 3(1) by (simp add: load_db_def py_in_def has_field_def del: set_map)
      then show ?thesis using load_scenarios_ok[OF 3(2,3)] by simp
    next
      case False
      from migracao_1_obj[of kv] obtain base where
        "migracao_1 (JObj kv) =
           Inr (JObj [(''scenarios'', JObj [(DEFAULT_SCENARIO_NAME, JObj base)]),
                  (''selected'', JStr DEFAULT_SCENARIO_NAME)])" by blast
      then show ?thesis
        unfolding 3(1) load_db_legacy[OF False] by (simp add: spec_store_ok_def)
    qed
  qed
qed

text \<open>
  Claim C8, as amended. For every parsed object without the key \<^verbatim>\<open>scenarios\<close>,
  \<open>load_db\<close> returns the store with the single scenario \<open>Base\<close>, selected. A field
  counts as supplied when the document has it with a value other than \<^verbatim>\<open>null\<close>.
  Every current field other than \<open>opex_outros_db\<close> and \<open>precos_sku\<close> holds the
  document's value when supplied and the default otherwise. \<open>opex_outros_db\<close> holds
  the document's own value when supplied, else the value of the legacy \<open>opex_db\<close> when
  that is supplied and the document has no \<open>opex_outros_db\<close> at all, else the
  default; likewise \<open>precos_sku\<close> and the legacy \<open>precos_venda\<close>. A legacy field is
  kept under its own name exactly when it is supplied and the document also has the
  current field. The scenario has the eleven current fields and no other field but
  such a kept legacy one.
\<close>

theorem load_db_wraps_legacy_document:
  assumes "\<not> has_field kv ''scenarios''"
  shows "\<exists>base.
     load_db str_of (Parsed (JObj kv)) =
       Inr (JObj [(''scenarios'', JObj [(''Base'', JObj base)]), (''selected'', JStr ''Base'')]) \<and>
     distinct (map fst base) \<and>
     (\<forall>k \<in> set (map fst default_scenario) - {''opex_outros_db'', ''precos_sku''}.
        map_of base k = (if field_supplied kv k then Some (dget kv k) else map_of default_scenario k)) \<and>
     map_of base ''opex_outros_db'' =
       (if field_supplied kv ''opex_outros_db'' then Some (dget kv ''opex_outros_db'')
        else if \<not> has_field kv ''opex_outros_db'' \<and> field_supplied kv ''opex_db''
          then Some (dget kv ''opex_db'')
        else map_of default_scenario ''opex_outros_db'') \<and>
     map_of base ''precos_sku'' =
       (if field_supplied kv ''precos_sku'' then Some (dget kv ''precos_sku'')
        else if \<not> has_field kv ''precos_sku'' \<and> field_supplied kv ''precos_venda''
          then Some (dget kv ''precos_venda'')
        else map_of default_scenario ''precos_sku'') \<and>
     map_of base ''opex_db'' =
       (if has_field kv ''opex_outros_db'' \<and> field_supplied kv ''opex_db''
        then Some (dget kv ''opex_db'') else None) \<and>
     map_of base ''precos_venda'' =
       (if has_field kv ''precos_sku'' \<and> field_supplied kv ''precos_venda''
        then Some (dget kv ''precos_venda'') else None) \<and>
     set (map fst default_scenario) \<subseteq> set (map fst base) \<and>
     set (map fst base) \<subseteq> set (map fst default_scenario) \<union> {''opex_db'', ''precos_venda''}"
proof -
  from migracao_1_obj[of kv] obtain base where
    r: "migracao_1 (JObj kv) =
           Inr (JObj [(''scenarios'', JObj [(DEFAULT_SCENARIO_NAME, JObj base)]),
                  (''selected'', JStr DEFAULT_SCENARIO_NAME)])"
    and d: "distinct (map fst base)"
    and look: "\<And>k. map_of base k =
        (if k = ''opex_outros_db'' then
           (if has_field kv k then (if field_supplied kv k then Some (dget kv k) else map_of default_scenario k)
            else if field_supplied kv ''opex_db'' then Some (dget kv ''opex_db'')
            else map_of default_scenario k)
         else if k = ''precos_sku'' then
           (if has_field kv k then (if field_supplied kv k then Some (dget kv k) else map_of default_scenario k)
            else if field_supplied kv ''precos_venda'' then Some (dget kv ''precos_venda'')
            else map_of default_scenario k)
         else if k = ''opex_db'' then
           (if has_field kv ''opex_outros_db'' \<and> field_supplied kv ''opex_db''
            then Some (dget kv ''opex_db'') else None)
         else if k = ''precos_venda'' then
           (if has_field kv ''precos_sku'' \<and> field_supplied kv ''precos_venda''
            then Some (dget kv ''precos_venda'') else None)
         else if k \<in> set legacy_keys \<and> field_supplied kv k then Some (dget kv k)
         else map_of default_scenario k)"
    by blast
  have c1: "load_db str_of (Parsed (JObj kv)) =
       Inr (JObj [(''scenarios'', JObj [(''Base'', JObj base)]), (''selected'', JStr ''Base'')])"
    unfolding load_db_legacy[OF assms] r by (simp add: DEFAULT_SCENARIO_NAME_def)
  have keys: "map fst default_scenario =
      [''capex_db'', ''opex_outros_db'', ''funcionarios_db'', ''insumos_db'', ''receitas_header'',
       ''receitas_detalhe'', ''embalagens_db'', ''precos_sku'', ''mix'', ''premissas'', ''financiamento'']"
    by (simp add: default_scenario_def)
  have c3: "\<forall>k \<in> set (map fst default_scenario) - {''opex_outros_db'', ''precos_sku''}.
        map_of base k = (if field_supplied kv k then Some (dget kv k) else map_of default_scenario k)"
  proof -
    have p: "map_of base k = (if field_supplied kv k then Some (dget kv k) else map_of default_scenario k)"
      if "k = ''capex_db'' \<or> k = ''funcionarios_db'' \<or> k = ''insumos_db'' \<or> k = ''receitas_header'' \<or>
          k = ''receitas_detalhe'' \<or> k = ''embalagens_db'' \<or> k = ''mix'' \<or> k = ''premissas'' \<or>
          k = ''financiamento''" for k
      using that by (elim disjE) (simp_all add: look legacy_keys_def)
    have "k = ''capex_db'' \<or> k = ''funcionarios_db'' \<or> k = ''insumos_db'' \<or> k = ''receitas_header'' \<or>
          k = ''receitas_detalhe'' \<or> k = ''embalagens_db'' \<or> k = ''mix'' \<or> k = ''premissas'' \<or>
          k = ''financiamento''"
      if "k \<in> set (map fst default_scenario) - {''opex_outros_db'', ''precos_sku''}" for k
      using that unfolding keys by auto
    with p show ?thesis by blast
  qed
  have c4: "map_of base ''opex_outros_db'' =
       (if field_supplied kv ''opex_outros_db'' then Some (dget kv ''opex_outros_db'')
        else if \<not> has_field kv ''opex_outros_db'' \<and> field_supplied kv ''opex_db''
          then Some (dget kv ''opex_db'')
        else map_of default_scenario ''opex_outros_db'')"
    by (simp add: look field_supplied_def)
  have c5: "map_of base ''precos_sku'' =
       (if field_supplied kv ''precos_sku'' then Some (dget kv ''precos_sku'')
        else if \<not> has_field kv ''precos_sku'' \<and> field_supplied kv ''precos_venda''
          then Some (dget kv ''precos_venda'')
        else map_of default_scenario ''precos_sku'')"
    by (simp add: look field_supplied_def)
  have c6: "map_of base ''opex_db'' =
       (if has_field kv ''opex_outros_db'' \<and> field_supplied kv ''opex_db''
        then Some (dget kv ''opex_db'') else None)"
    by (simp add: look)
  have c7: "map_of base ''precos_venda'' =
       (if has_field kv ''precos_sku'' \<and> field_supplied kv ''precos_venda''
        then Some (dget kv ''precos_venda'') else None)"
    by (simp add: look)
  have dsome: "map_of default_scenario k \<noteq> None" if "k \<in> set (map fst default_scenario)" for k
    using that by (simp add: map_of_eq_None_iff)
  have c8: "set (map fst default_scenario) \<subseteq> set (map fst base)"
  proof
    fix k assume k: "k \<in> set (map fst default_scenario)"
    have "map_of base k \<noteq> None"
    proof (cases "k = ''opex_outros_db'' \<or> k = ''precos_sku''")
      case True
      then show ?thesis using c4 c5 dsome[OF k] by auto
    next
      case False
      then have "k \<in> set (map fst default_scenario) - {''opex_outros_db'', ''precos_sku''}"
        using k by simp
      with c3 have "map_of base k = (if field_supplied kv k then Some (dget kv k) else map_of default_scenario k)"
        by blast
      then show ?thesis using dsome[OF k] by simp
    qed
    then show "k \<in> set (map fst base)" by (simp add: map_of_eq_None_iff)
  qed
  have c9: "set (map fst base) \<subseteq> set (map fst default_scenario) \<union> {''opex_db'', ''precos_venda''}"
  proof
    fix k assume "k \<in> set (map fst base)"
    then have n: "map_of base k \<noteq> None" by (simp add: map_of_eq_None_iff)
    show "k \<in> set (map fst default_scenario) \<union> {''opex_db'', ''precos_venda''}"
    proof (rule ccontr)
      assume a: "k \<notin> set (map fst default_scenario) \<union> {''opex_db'', ''precos_venda''}"
      then have "map_of default_scenario k = None" by (simp add: map_of_eq_None_iff)
      moreover from a have "k \<notin> set legacy_keys"
        unfolding keys by (auto simp: legacy_keys_def)
      moreover from a have "k \<noteq> ''opex_outros_db''" "k \<noteq> ''precos_sku''"
          "k \<noteq> ''opex_db''" "k \<noteq> ''precos_venda''"
        unfolding keys by auto
      ultimately have "map_of base k = None"
        by (simp add: look)
      with n show False by simp
    qed
  qed
  show ?thesis
    apply (rule exI[of _ base])
    apply (intro conjI)
            apply (rule c1)
           apply (rule d)
          apply (rule c3)
         apply (rule c4)
        apply (rule c5)
       apply (rule c6)
      apply (rule c7)
     apply (rule c8)
    apply (rule c9)
    done
qed


theorem load_db_wraps_legacy_document_witness:
  "\<not> has_field example_legacy_doc ''scenarios'' \<and>
   (\<exists>base.
      load_db (\<lambda>v. []) (Parsed (JObj example_legacy_doc)) =
        Inr (JObj [(''scenarios'', JObj [(''Base'', JObj base)]), (''selected'', JStr ''Base'')]) \<and>
      map_of base ''capex_db'' = Some (JArr []) \<and>
      map_of base ''opex_outros_db'' =
        Some (JArr [JObj [(''Descricao'', JStr ''Aluguel''), (''Valor'', JNum 1000)]]) \<and>
      map_of base ''opex_db'' = None \<and>
      map_of base ''mix'' = Some default_mix)"
proof -
  have h: "\<not> has_field example_legacy_doc ''scenarios''"
    by (simp add: has_field_def example_legacy_doc_def)
  from load_db_wraps_legacy_document[OF h, of "\<lambda>v. []"]
  obtain base where
    r: "load_db (\<lambda>v. []) (Parsed (JObj example_legacy_doc)) =
        Inr (JObj [(''scenarios'', JObj [(''Base'', JObj base)]), (''selected'', JStr ''Base'')])" and
    p: "\<forall>k \<in> set (map fst default_scenario) - {''opex_outros_db'', ''precos_sku''}.
        map_of base k = (if field_supplied example_legacy_doc k then Some (dget example_legacy_doc k)
                         else map_of default_scenario k)" and
    o: "map_of base ''opex_outros_db'' =
       (if field_supplied example_legacy_doc ''opex_outros_db'' then Some (dget example_legacy_doc ''opex_outros_db'')
        else if \<not> has_field example_legacy_doc ''opex_outros_db'' \<and> field_supplied example_legacy_doc ''opex_db''
          then Some (dget example_legacy_doc ''opex_db'')
        else map_of default_scenario ''opex_outros_db'')" and
    l: "map_of base ''opex_db'' =
       (if has_field example_legacy_doc ''opex_outros_db'' \<and> field_supplied example_legacy_doc ''opex_db''
        then Some (dget example_legacy_doc ''opex_db'') else None)"
    by blast
  have k1: "''capex_db'' \<in> set (map fst default_scenario) - {''opex_outros_db'', ''precos_sku''}"
    and k2: "''mix'' \<in> set (map fst default_scenario) - {''opex_outros_db'', ''precos_sku''}"
    by (simp_all add: default_scenario_def)
  have c: "map_of base ''capex_db'' = Some (JArr [])"
    using bspec[OF p k1] by (simp add: field_supplied_def has_field_def dget_def example_legacy_doc_def)
  have m: "map_of base ''mix'' = Some default_mix"
    using bspec[OF p k2]
    by (simp add: field_supplied_def has_field_def dget_def example_legacy_doc_def default_scenario_def)
  have o': "map_of base ''opex_outros_db'' =
        Some (JArr [JObj [(''Descricao'', JStr ''Aluguel''), (''Valor'', JNum 1000)]])"
    using o by (simp add: field_supplied_def has_field_def dget_def example_legacy_doc_def)
  have l': "map_of base ''opex_db'' = None"
    using l by (simp add: field_supplied_def has_field_def dget_def example_legacy_doc_def)
  from h r c o' l' m show ?thesis by blast
qed

text \<open>
  The claim as it was written renames \<open>opex_db\<close> whenever it is present. For a
  document with both \<open>opex_db\<close> and \<open>opex_outros_db\<close> the function renames nothing:
  the scenario keeps the document's \<open>opex_outros_db\<close> and carries \<open>opex_db\<close> as a
  twelfth field.
\<close>

theorem load_db_keeps_legacy_field_counterexample:
  "load_db (\<lambda>v. []) (Parsed (JObj example_both_doc)) =
     Inr (JObj
       [(''scenarios'', JObj [(''Base'', JObj
          [(''capex_db'', default_capex_db),
           (''opex_outros_db'', JArr [JObj [(''Descricao'', JStr ''Energia''), (''Valor'', JNum 1500)]]),
           (''funcionarios_db'', default_funcionarios_db),
           (''insumos_db'', default_insumos_db),
           (''receitas_header'', default_receitas_header),
           (''receitas_detalhe'', default_receitas_detalhe),
           (''embalagens_db'', default_embalagens_db),
           (''precos_sku'', default_precos_sku),
           (''mix'', default_mix),
           (''premissas'', default_premissas),
           (''financiamento'', default_financiamento),
           (''opex_db'', JArr [JObj [(''Descricao'', JStr ''Aluguel''), (''Valor'', JNum 1000)]])])]),
        (''selected'', JStr ''Base'')])"
  by (simp add: load_db_def py_in_def py_get_def migracao_1_def legacy_keys_def example_both_doc_def
      dget_def rename_field_def dict_update_def default_scenario_def DEFAULT_SCENARIO_NAME_def)

text \<open>
  Claim C9 asks for a store for every content of the file. For a file that parses to
  \<^verbatim>\<open>null\<close> or to a number, the test \<^verbatim>\<open>"scenarios" not in raw\<close> raises
  \<^verbatim>\<open>TypeError\<close>; for a JSON string containing \<^verbatim>\<open>scenarios\<close> the call
  \<^verbatim>\<open>raw.get\<close> raises \<^verbatim>\<open>AttributeError\<close>; and for a well-formed store whose
  \<^verbatim>\<open>selected\<close> is a list, the test \<^verbatim>\<open>sel not in raw["scenarios"]\<close> raises
  \<^verbatim>\<open>TypeError\<close>. None of these is inside the \<^verbatim>\<open>try\<close>, so no store is
  returned.
\<close>

theorem load_db_raises_on_non_object_document:
  "load_db str_of (Parsed JNull) = Inl TypeError \<and>
   load_db str_of (Parsed (JNum 5)) = Inl TypeError \<and>
   load_db str_of (Parsed (JStr ''scenarios'')) = Inl AttributeError \<and>
   load_db str_of (Parsed (JObj [(''scenarios'', JObj [(''A'', JObj [])]), (''selected'', JArr [])]))
     = Inl TypeError"
  by (simp add: load_db_def py_in_def load_scenarios_def resolve_selected_def dget_def)

subsection \<open>Spreadsheet round trip\<close>

lemma update_append_new:
  "k \<notin> set (map fst al) \<Longrightarrow> AList.update k v al = al @ [(k, v)]"
  by (induction al) auto

lemma update_append_last:
  "k \<notin> set (map fst al) \<Longrightarrow> AList.update k v (al @ [(k, w)]) = al @ [(k, v)]"
  by (induction al) auto

lemma dget_append_last:
  "k \<notin> set (map fst al) \<Longrightarrow> dget (al @ [(k, w)]) k = w"
  by (induction al) (auto simp: dget_def)

lemma is_substring_sep_prefix: "is_substring ''::'' (k @ ''::'' @ kk)"
  by (induction k) auto

lemma split_sep_composite:
  "\<not> is_substring ''::'' (k @ '':'') \<Longrightarrow> split_sep (k @ ''::'' @ kk) = (k, kk)"
proof (induction k)
  case Nil
  then show ?case by simp
next
  case (Cons c k)
  have n: "\<not> is_substring ''::'' (k @ '':'')"
    using Cons.prems by simp
  have t: "take 2 (c # k @ ''::'' @ kk) \<noteq> ''::''"
  proof (cases k)
    case Nil
    then show ?thesis using Cons.prems by auto
  next
    case (Cons c' k')
    then show ?thesis using Cons.prems by auto
  qed
  show ?case
    using Cons.IH[OF n] t by simp
qed

lemma take_prefix_append:
  assumes "take (length p) xs = p"
  shows "take (length p) (xs @ t) = p"
proof -
  have "length (take (length p) xs) = length p" using assms by simp
  then have "length p \<le> length xs" by simp
  then show ?thesis using assms by simp
qed

lemma is_substring_append: "is_substring p s \<Longrightarrow> is_substring p (s @ t)"
proof (induction s)
  case Nil
  then have "p = []" by simp
  then show ?case by (cases t) simp_all
next
  case (Cons c s)
  from Cons.prems have "take (length p) (c # s) = p \<or> is_substring p s" by simp
  then show ?case
  proof
    assume "take (length p) (c # s) = p"
    then have "take (length p) ((c # s) @ t) = p" by (rule take_prefix_append)
    then show ?thesis by simp
  next
    assume "is_substring p s"
    then have "is_substring p (s @ t)" by (rule Cons.IH)
    then show ?thesis by simp
  qed
qed

lemma outer_key_flat: "outer_key k \<Longrightarrow> flat_key k"
  unfolding outer_key_def flat_key_def using is_substring_append by blast

lemma kv_row_scalar:
  assumes "flat_key k" "k \<notin> set (map fst out)"
  shows "kv_row (k, v) out = Inr (out @ [(k, v)])"
  using assms by (simp add: kv_row_def flat_key_def update_append_new del: set_map)

lemma kv_row_composite:
  assumes "is_substring ''::'' key" "split_sep key = (k, kk)"
  shows "kv_row (key, vv) out =
     (let out1 = (if k \<in> set (map fst out) then out else AList.update k (JObj []) out)
      in case dget out1 k of
           JObj d \<Rightarrow> Inr (AList.update k (JObj (AList.update kk vv d)) out1)
         | _ \<Rightarrow> Inl TypeError)"
  unfolding kv_row_def prod.case assms(2) using assms(1) by (simp only: if_True)

lemma kv_row_nested_first:
  assumes "outer_key k" "k \<notin> set (map fst out)"
  shows "kv_row (k @ ''::'' @ kk, vv) out = Inr (out @ [(k, JObj [(kk, vv)])])"
proof -
  have s: "split_sep (k @ ''::'' @ kk) = (k, kk)"
    using assms(1) unfolding outer_key_def by (rule split_sep_composite)
  have u: "AList.update k (JObj []) out = out @ [(k, JObj [])]"
    using assms(2) by (rule update_append_new)
  have g: "dget (out @ [(k, JObj [])]) k = JObj []"
    using assms(2) by (rule dget_append_last)
  have w: "AList.update k (JObj [(kk, vv)]) (out @ [(k, JObj [])]) = out @ [(k, JObj [(kk, vv)])]"
    using assms(2) by (rule update_append_last)
  show ?thesis
    unfolding kv_row_composite[OF is_substring_sep_prefix s] Let_def
    using assms(2) by (simp only: if_False u g json.case AList.update.simps w)
qed

lemma kv_row_nested_next:
  assumes "outer_key k" "k \<notin> set (map fst out)" "kk \<notin> set (map fst d1)"
  shows "kv_row (k @ ''::'' @ kk, vv) (out @ [(k, JObj d1)]) = Inr (out @ [(k, JObj (d1 @ [(kk, vv)]))])"
proof -
  have s: "split_sep (k @ ''::'' @ kk) = (k, kk)"
    using assms(1) unfolding outer_key_def by (rule split_sep_composite)
  have m: "k \<in> set (map fst (out @ [(k, JObj d1)]))" by simp
  have g: "dget (out @ [(k, JObj d1)]) k = JObj d1"
    using assms(2) by (rule dget_append_last)
  have u: "AList.update kk vv d1 = d1 @ [(kk, vv)]"
    using assms(3) by (rule update_append_new)
  have w: "AList.update k (JObj (d1 @ [(kk, vv)])) (out @ [(k, JObj d1)]) = out @ [(k, JObj (d1 @ [(kk, vv)]))]"
    using assms(2) by (rule update_append_last)
  show ?thesis
    unfolding kv_row_composite[OF is_substring_sep_prefix s] Let_def
    using m by (simp only: if_True g json.case u w)
qed

lemma kv_loop_append:
  "kv_loop (xs @ ys) out = (case kv_loop xs out of Inl e \<Rightarrow> Inl e | Inr out' \<Rightarrow> kv_loop ys out')"
  by (induction xs arbitrary: out) (auto split: sum.splits)

lemma kv_loop_nested_rest:
  assumes "outer_key k" "k \<notin> set (map fst out)" "distinct (map fst (d1 @ d2))"
  shows "kv_loop (map (\<lambda>(kk, vv). (k @ ''::'' @ kk, vv)) d2) (out @ [(k, JObj d1)]) =
           Inr (out @ [(k, JObj (d1 @ d2))])"
  using assms(3)
proof (induction d2 arbitrary: d1)
  case Nil
  then show ?case by simp
next
  case (Cons e d2)
  obtain kk vv where e: "e = (kk, vv)" by (cases e)
  have n: "kk \<notin> set (map fst d1)" using Cons.prems unfolding e by auto
  have d: "distinct (map fst ((d1 @ [(kk, vv)]) @ d2))" using Cons.prems unfolding e by simp
  show ?case
    unfolding e using kv_row_nested_next[OF assms(1,2) n, of vv] Cons.IH[OF d]
    by simp
qed

lemma kv_loop_nested:
  assumes "outer_key k" "k \<notin> set (map fst out)" "distinct (map fst d)" "d \<noteq> []"
  shows "kv_loop (map (\<lambda>(kk, vv). (k @ ''::'' @ kk, vv)) d) out = Inr (out @ [(k, JObj d)])"
proof -
  obtain kk vv d2 where d: "d = (kk, vv) # d2"
    using assms(4) by (cases d) auto
  have dd: "distinct (map fst ([(kk, vv)] @ d2))" using assms(3) unfolding d by simp
  show ?thesis
    unfolding d
    using kv_row_nested_first[OF assms(1,2), of kk vv] kv_loop_nested_rest[OF assms(1,2) dd]
    by simp
qed

lemma kv_loop_mix_rows:
  assumes "distinct (map fst m)" "list_all mix_entry_ok m" "set (map fst m) \<inter> set (map fst out) = {}"
  shows "kv_loop (mix_rows m) out = Inr (out @ m)"
  using assms
proof (induction m arbitrary: out)
  case Nil
  then show ?case by simp
next
  case (Cons e m)
  obtain k v where e: "e = (k, v)" by (cases e)
  have kn: "k \<notin> set (map fst out)" using Cons.prems(3) unfolding e by auto
  have km: "k \<notin> set (map fst m)" using Cons.prems(1) unfolding e by auto
  have dm: "distinct (map fst m)" using Cons.prems(1) by simp
  have om: "list_all mix_entry_ok m" using Cons.prems(2) by simp
  have ok: "mix_entry_ok (k, v)" using Cons.prems(2) unfolding e by simp
  have disj: "set (map fst m) \<inter> set (map fst (out @ [(k, v)])) = {}"
    using Cons.prems(3) km unfolding e by auto
  have first: "kv_loop (case v of JObj d \<Rightarrow> map (\<lambda>(kk, vv). (k @ ''::'' @ kk, vv)) d | _ \<Rightarrow> [(k, v)]) out
      = Inr (out @ [(k, v)])"
  proof (cases v)
    case (JObj d)
    then have "outer_key k" "d \<noteq> []" "distinct (map fst d)"
      using ok by (simp_all add: mix_entry_ok_def)
    then show ?thesis
      unfolding JObj using kv_loop_nested[OF _ kn] by simp
  qed (use ok kn in \<open>simp_all add: mix_entry_ok_def kv_row_scalar del: set_map\<close>)
  show ?case
    unfolding e mix_rows.simps kv_loop_append first
    using Cons.IH[OF dm om disj] by simp
qed

lemma kv_sheet_to_dict_loop: "kv_sheet_to_dict df = kv_loop df []"
  by (simp add: kv_sheet_to_dict_def)

lemma kv_sheet_to_dict_mix_rows:
  assumes "mix_ok m"
  shows "kv_sheet_to_dict (mix_rows m) = Inr m"
  unfolding kv_sheet_to_dict_loop
  using kv_loop_mix_rows[of m "[]"] assms by (simp add: mix_ok_def)

lemma kv_ok_mix_rows:
  assumes "list_all (\<lambda>(k, v). flat_key k \<and> is_cell v) d"
  shows "mix_rows d = d \<and> list_all mix_entry_ok d"
  using assms
proof (induction d)
  case Nil
  then show ?case by simp
next
  case (Cons e d)
  obtain k v where e: "e = (k, v)" by (cases e)
  from Cons.prems have c: "flat_key k" "is_cell v" and r: "list_all (\<lambda>(k, v). flat_key k \<and> is_cell v) d"
    unfolding e by simp_all
  from c have "mix_entry_ok (k, v)" "(case v of JObj d \<Rightarrow> map (\<lambda>(kk, vv). (k @ ''::'' @ kk, vv)) d | _ \<Rightarrow> [(k, v)]) = [(k, v)]"
    by (cases v; simp add: mix_entry_ok_def is_cell_def)+
  then show ?case using Cons.IH[OF r] unfolding e by simp
qed

lemma kv_sheet_to_dict_flat:
  assumes "kv_ok d"
  shows "kv_sheet_to_dict d = Inr d"
proof -
  from assms have l: "list_all (\<lambda>(k, v). flat_key k \<and> is_cell v) d" and dd: "distinct (map fst d)" and ne: "d \<noteq> []"
    by (simp_all add: kv_ok_def)
  from kv_ok_mix_rows[OF l] have "mix_rows d = d" "mix_ok d"
    using dd ne by (simp_all add: mix_ok_def)
  with kv_sheet_to_dict_mix_rows[of d] show ?thesis by simp
qed

lemma float_values_num:
  "list_all (\<lambda>(kk, vv). is_num vv) d \<Longrightarrow> float_values parse_float d = Inr d"
proof (induction d)
  case Nil
  then show ?case by simp
next
  case (Cons e d)
  obtain k v where e: "e = (k, v)" by (cases e)
  from Cons.prems obtain x where v: "v = JNum x"
    unfolding e by (cases v) (simp_all add: is_num_def)
  from Cons.prems have "list_all (\<lambda>(kk, vv). is_num vv) d" by simp
  from Cons.IH[OF this] show ?case unfolding e v by (simp add: py_float_def)
qed

lemma mix_rows_cells:
  "list_all mix_entry_ok m \<Longrightarrow> list_all (\<lambda>(k, v). is_cell v) (mix_rows m)"
proof (induction m)
  case Nil
  then show ?case by simp
next
  case (Cons e m)
  obtain k v where e: "e = (k, v)" by (cases e)
  from Cons.prems have ok: "mix_entry_ok (k, v)" and r: "list_all mix_entry_ok m"
    unfolding e by simp_all
  have "list_all (\<lambda>(k, v). is_cell v)
          (case v of JObj d \<Rightarrow> map (\<lambda>(kk, vv). (k @ ''::'' @ kk, vv)) d | _ \<Rightarrow> [(k, v)])"
    using ok by (cases v) (simp_all add: mix_entry_ok_def list_all_iff case_prod_unfold)
  then show ?case using Cons.IH[OF r] unfolding e by simp
qed

lemma kv_ok_cells: "kv_ok d \<Longrightarrow> list_all (\<lambda>(k, v). is_cell v) d"
  by (simp add: kv_ok_def list_all_iff case_prod_unfold)

lemma distribution_floats:
  assumes "mix_ok m"
  shows "(case map_of m ''Distribuicao Embalado (%)'' of
            Some (JObj d) \<Rightarrow>
              (case float_values parse_float d of
                 Inl e \<Rightarrow> Inl e
               | Inr d' \<Rightarrow> Inr (AList.update ''Distribuicao Embalado (%)'' (JObj d') m))
          | _ \<Rightarrow> Inr m) = Inr m"
proof (cases "map_of m ''Distribuicao Embalado (%)''")
  case None
  then show ?thesis by simp
next
  case (Some v)
  show ?thesis
  proof (cases v)
    case (JObj d)
    have "(''Distribuicao Embalado (%)'', JObj d) \<in> set m"
      using Some JObj by (simp add: map_of_SomeD)
    moreover have "\<forall>e \<in> set m. mix_entry_ok e"
      using assms by (simp add: mix_ok_def list_all_iff)
    ultimately have "mix_entry_ok (''Distribuicao Embalado (%)'', JObj d)" by blast
    then have "list_all (\<lambda>(kk, vv). is_num vv) d"
      by (simp add: mix_entry_ok_def)
    then have f: "float_values parse_float d = Inr d" by (rule float_values_num)
    have u: "AList.update ''Distribuicao Embalado (%)'' (JObj d) m = m"
      using Some JObj by (simp add: update_triv)
    show ?thesis unfolding Some JObj by (simp add: f u)
  qed (simp_all add: Some)
qed

lemma recompute_total_idem: "recompute_total (recompute_total r) = recompute_total r"
  by (simp add: recompute_total_def)

lemma round_trip_eq:
  assumes "mix_ok (mix s)" "kv_ok (premissas s)" "kv_ok (financiamento s)" "empty_tables_agree s sc"
  shows "round_trip parse_float sc s =
     Inr (s\<lparr> funcionarios_db :=
                map (\<lambda>r. r\<lparr>fn_Modalidade := clean_modalidade (fn_Modalidade r)\<rparr>) (funcionarios_db s),
              receitas_detalhe := map recompute_total (receitas_detalhe s) \<rparr>)"
proof -
  have ne: "mix s \<noteq> []" "premissas s \<noteq> []" "financiamento s \<noteq> []"
    using assms(1-3) by (simp_all add: mix_ok_def kv_ok_def)
  have cells: "list_all (\<lambda>(k, v). is_cell v) (mix_rows (mix s) @ premissas s @ financiamento s)"
    using mix_rows_cells[of "mix s"] kv_ok_cells[OF assms(2)] kv_ok_cells[OF assms(3)] assms(1)
    by (simp add: mix_ok_def)
  have k1: "kv_sheet_to_dict (mix_rows (mix s)) = Inr (mix s)"
    by (rule kv_sheet_to_dict_mix_rows[OF assms(1)])
  have k2: "kv_sheet_to_dict (premissas s) = Inr (premissas s)"
    by (rule kv_sheet_to_dict_flat[OF assms(2)])
  have k3: "kv_sheet_to_dict (financiamento s) = Inr (financiamento s)"
    by (rule kv_sheet_to_dict_flat[OF assms(3)])
  note fl = distribution_floats[OF assms(1), of parse_float]
  have ag: "capex_db s = [] \<longrightarrow> capex_db sc = []" "opex_outros_db s = [] \<longrightarrow> opex_outros_db sc = []"
    "funcionarios_db s = [] \<longrightarrow> funcionarios_db sc = []" "insumos_db s = [] \<longrightarrow> insumos_db sc = []"
    "receitas_header s = [] \<longrightarrow> receitas_header sc = []" "receitas_detalhe s = [] \<longrightarrow> receitas_detalhe sc = []"
    "embalagens_db s = [] \<longrightarrow> embalagens_db sc = []" "precos_sku s = [] \<longrightarrow> precos_sku sc = []"
    using assms(4) by (simp_all add: empty_tables_agree_def)
  have ex: "scenario_to_excel_bytes s =
      Inr \<lparr> sh_CAPEX = capex_db s,
            sh_OPEX_Outros = opex_outros_db s,
            sh_Funcionarios = map (\<lambda>r. r\<lparr>fn_Modalidade := clean_modalidade (fn_Modalidade r)\<rparr>) (funcionarios_db s),
            sh_Insumos = insumos_db s,
            sh_Receitas_Header = receitas_header s,
            sh_Receitas_Detalhe = map recompute_total (receitas_detalhe s),
            sh_Embalagens = embalagens_db s,
            sh_Precos_SKU = precos_sku s,
            sh_Mix_Demanda = mix_rows (mix s),
            sh_Premissas = premissas s,
            sh_Financiamento = financiamento s \<rparr>"
    using cells ne by (simp add: scenario_to_excel_bytes_def scenario_dfs_def Let_def dict_or_def)
  have t1: "(if capex_db s \<noteq> [] then capex_db s else capex_db sc) = capex_db s"
    and t2: "(if opex_outros_db s \<noteq> [] then opex_outros_db s else opex_outros_db sc) = opex_outros_db s"
    and t4: "(if insumos_db s \<noteq> [] then insumos_db s else insumos_db sc) = insumos_db s"
    and t5: "(if receitas_header s \<noteq> [] then receitas_header s else receitas_header sc) = receitas_header s"
    and t7: "(if embalagens_db s \<noteq> [] then embalagens_db s else embalagens_db sc) = embalagens_db s"
    and t8: "(if precos_sku s \<noteq> [] then precos_sku s else precos_sku sc) = precos_sku s"
    using ag by auto
  have t3: "(if map (\<lambda>r. r\<lparr>fn_Modalidade := clean_modalidade (fn_Modalidade r)\<rparr>) (funcionarios_db s) \<noteq> []
             then map (\<lambda>r. r\<lparr>fn_Modalidade := clean_modalidade (fn_Modalidade r)\<rparr>) (funcionarios_db s)
             else funcionarios_db sc)
            = map (\<lambda>r. r\<lparr>fn_Modalidade := clean_modalidade (fn_Modalidade r)\<rparr>) (funcionarios_db s)"
    using ag(3) by auto
  have t6: "map recompute_total
              (if map recompute_total (receitas_detalhe s) \<noteq> [] then map recompute_total (receitas_detalhe s)
               else receitas_detalhe sc)
            = map recompute_total (receitas_detalhe s)"
    using ag(6) by (auto simp: recompute_total_idem)
  have d1: "dict_or (mix s) x = mix s" and d2: "dict_or (premissas s) y = premissas s"
    and d3: "dict_or (financiamento s) z = financiamento s" for x y z
    using ne by (simp_all add: dict_or_def)
  have im: "import_excel_apply parse_float sc
      (Some \<lparr> sh_CAPEX = capex_db s,
            sh_OPEX_Outros = opex_outros_db s,
            sh_Funcionarios = map (\<lambda>r. r\<lparr>fn_Modalidade := clean_modalidade (fn_Modalidade r)\<rparr>) (funcionarios_db s),
            sh_Insumos = insumos_db s,
            sh_Receitas_Header = receitas_header s,
            sh_Receitas_Detalhe = map recompute_total (receitas_detalhe s),
            sh_Embalagens = embalagens_db s,
            sh_Precos_SKU = precos_sku s,
            sh_Mix_Demanda = mix_rows (mix s),
            sh_Premissas = premissas s,
            sh_Financiamento = financiamento s \<rparr>) =
     Inr \<lparr> capex_db = capex_db s,
           opex_outros_db = opex_outros_db s,
           funcionarios_db = map (\<lambda>r. r\<lparr>fn_Modalidade := clean_modalidade (fn_Modalidade r)\<rparr>) (funcionarios_db s),
           insumos_db = insumos_db s,
           receitas_header = receitas_header s,
           receitas_detalhe = map recompute_total (receitas_detalhe s),
           embalagens_db = embalagens_db s,
           precos_sku = precos_sku s,
           mix = mix s,
           premissas = premissas s,
           financiamento = financiamento s \<rparr>"
    unfolding import_excel_apply_def option.case workbook.select_convs k1 k2 k3 sum.case Let_def d1 d2 d3 fl
      t1 t2 t3 t4 t5 t6 t7 t8 ..
  show ?thesis
    unfolding round_trip_def ex sum.case im
    by (cases s) simp
qed

text \<open>
  Claim C6, as amended. Let \<open>s\<close> be a scenario whose \<open>mix\<close>, \<open>premissas\<close> and
  \<open>financiamento\<close> are non-empty dicts with cell values under keys free of the
  separator, a nested dict of \<open>mix\<close> being non-empty, under a key that neither contains
  the separator nor ends in a colon, and the packaged distribution holding numbers; and
  let the target \<open>sc\<close> of the import have an empty table wherever \<open>s\<close> has one (as \<open>s\<close>
  itself does). Then the export succeeds, the nested dict is written under composite
  keys and read back as it was, and the import of the exported workbook gives \<open>s\<close> with
  every recipe-line total recomputed as quantity times unit cost and every
  \<^verbatim>\<open>Modalidade\<close> respelled; that is \<open>s\<close> with the totals recomputed when no
  employee has one of the three legacy spellings.
\<close>

theorem export_import_round_trip:
  assumes "mix_ok (mix s)" "kv_ok (premissas s)" "kv_ok (financiamento s)" "empty_tables_agree s sc"
  shows "(\<exists>xls. scenario_to_excel_bytes s = Inr xls \<and>
            sh_Mix_Demanda xls = mix_rows (mix s) \<and>
            sh_Premissas xls = premissas s \<and>
            sh_Financiamento xls = financiamento s \<and>
            kv_sheet_to_dict (sh_Mix_Demanda xls) = Inr (mix s)) \<and>
         round_trip parse_float sc s =
           Inr (s\<lparr> funcionarios_db :=
                      map (\<lambda>r. r\<lparr>fn_Modalidade := clean_modalidade (fn_Modalidade r)\<rparr>) (funcionarios_db s),
                    receitas_detalhe := map recompute_total (receitas_detalhe s) \<rparr>) \<and>
         (list_all (\<lambda>r. fn_Modalidade r \<noteq> ''Clt'' \<and> fn_Modalidade r \<noteq> ''pj'' \<and> fn_Modalidade r \<noteq> ''Pj'')
              (funcionarios_db s) \<longrightarrow>
            round_trip parse_float sc s =
              Inr (s\<lparr> receitas_detalhe := map recompute_total (receitas_detalhe s) \<rparr>)) \<and>
         list_all (\<lambda>r. rd_Custo_Total r = rd_Qtd r * rd_Custo_Unit r)
            (map recompute_total (receitas_detalhe s))"
proof -
  note rt = round_trip_eq[OF assms, of parse_float]
  have cells: "list_all (\<lambda>(k, v). is_cell v) (mix_rows (mix s) @ premissas s @ financiamento s)"
    using mix_rows_cells[of "mix s"] kv_ok_cells[OF assms(2)] kv_ok_cells[OF assms(3)] assms(1)
    by (simp add: mix_ok_def)
  have ne: "mix s \<noteq> []" "premissas s \<noteq> []" "financiamento s \<noteq> []"
    using assms(1-3) by (simp_all add: mix_ok_def kv_ok_def)
  have a: "\<exists>xls. scenario_to_excel_bytes s = Inr xls \<and>
            sh_Mix_Demanda xls = mix_rows (mix s) \<and>
            sh_Premissas xls = premissas s \<and>
            sh_Financiamento xls = financiamento s \<and>
            kv_sheet_to_dict (sh_Mix_Demanda xls) = Inr (mix s)"
    using cells ne kv_sheet_to_dict_mix_rows[OF assms(1)]
    by (simp add: scenario_to_excel_bytes_def scenario_dfs_def Let_def dict_or_def)
  have c: "list_all (\<lambda>r. fn_Modalidade r \<noteq> ''Clt'' \<and> fn_Modalidade r \<noteq> ''pj'' \<and> fn_Modalidade r \<noteq> ''Pj'')
              (funcionarios_db s) \<longrightarrow>
            round_trip parse_float sc s =
              Inr (s\<lparr> receitas_detalhe := map recompute_total (receitas_detalhe s) \<rparr>)"
  proof
    assume h: "list_all (\<lambda>r. fn_Modalidade r \<noteq> ''Clt'' \<and> fn_Modalidade r \<noteq> ''pj'' \<and> fn_Modalidade r \<noteq> ''Pj'')
              (funcionarios_db s)"
    have "map (\<lambda>r. r\<lparr>fn_Modalidade := clean_modalidade (fn_Modalidade r)\<rparr>) (funcionarios_db s)
          = funcionarios_db s"
      using h by (induction "funcionarios_db s" arbitrary: s)
        (auto simp: list_all_iff clean_modalidade_def intro!: map_idI)
    then show "round_trip parse_float sc s =
              Inr (s\<lparr> receitas_detalhe := map recompute_total (receitas_detalhe s) \<rparr>)"
      unfolding rt by simp
  qed
  have d: "list_all (\<lambda>r. rd_Custo_Total r = rd_Qtd r * rd_Custo_Unit r)
            (map recompute_total (receitas_detalhe s))"
    by (simp add: list_all_iff recompute_total_def)
  from a rt c d show ?thesis by blast
qed

lemma example_scenario_ok:
  "mix_ok (mix example_scenario)" "kv_ok (premissas example_scenario)"
  "kv_ok (financiamento example_scenario)"
  by (simp_all add: example_scenario_def mix_ok_def kv_ok_def mix_entry_ok_def default_mix_dict_def
      default_premissas_dict_def default_financiamento_dict_def flat_key_def outer_key_def
      is_cell_def is_num_def)

theorem export_import_round_trip_witness:
  "mix_ok (mix example_scenario) \<and> kv_ok (premissas example_scenario) \<and>
   kv_ok (financiamento example_scenario) \<and> empty_tables_agree example_scenario example_scenario \<and>
   round_trip (\<lambda>t. None) example_scenario example_scenario =
     Inr (example_scenario
            \<lparr> receitas_detalhe :=
                [\<lparr>rd_Receita_ID = 3, rd_Insumo = ''W-34/70 (Lager)'', rd_Qtd = 40, rd_Custo_Unit = 35,
                   rd_Custo_Total = 1400\<rparr>] \<rparr>)"
proof -
  have e: "empty_tables_agree example_scenario example_scenario"
    by (simp add: empty_tables_agree_def)
  have m: "list_all (\<lambda>r. fn_Modalidade r \<noteq> ''Clt'' \<and> fn_Modalidade r \<noteq> ''pj'' \<and> fn_Modalidade r \<noteq> ''Pj'')
              (funcionarios_db example_scenario)"
    by (simp add: example_scenario_def)
  have r: "map recompute_total (receitas_detalhe example_scenario) =
      [\<lparr>rd_Receita_ID = 3, rd_Insumo = ''W-34/70 (Lager)'', rd_Qtd = 40, rd_Custo_Unit = 35,
         rd_Custo_Total = 1400\<rparr>]"
    by (simp add: example_scenario_def recompute_total_def)
  note t = export_import_round_trip[OF example_scenario_ok e, of "\<lambda>t. None"]
  from t[THEN conjunct2, THEN conjunct2, THEN conjunct1, THEN mp, OF m]
  show ?thesis
    unfolding r using example_scenario_ok e by simp
qed

text \<open>
  The claim as it was written holds the round trip for every valid scenario. A
  scenario with an empty packaged distribution (no packaging type eligible for it)
  writes no row for the distribution, so the imported \<open>mix\<close> has lost that key.
\<close>

theorem export_import_empty_distribution_counterexample:
  "round_trip (\<lambda>t. None) example_no_dist example_no_dist =
     Inr (example_no_dist
            \<lparr> receitas_detalhe :=
                [\<lparr>rd_Receita_ID = 3, rd_Insumo = ''W-34/70 (Lager)'', rd_Qtd = 40, rd_Custo_Unit = 35,
                   rd_Custo_Total = 1400\<rparr>],
              mix := [(''Volume Vendido (L/mes)'', JNum 2000),
                      (''Mix Taproom (%)'', JNum 30),
                      (''Mix Varejo Chope (%)'', JNum 25),
                      (''Mix Varejo Embalado (%)'', JNum 45),
                      (''Receita Base (para custo)'', JStr ''Pilsen Padrao'')] \<rparr>) \<and>
   map_of (mix example_no_dist) ''Distribuicao Embalado (%)'' = Some (JObj [])"
  by (simp add: round_trip_def scenario_to_excel_bytes_def scenario_dfs_def import_excel_apply_def
      example_no_dist_def example_scenario_def dict_or_def is_cell_def kv_sheet_to_dict_def kv_row_def
      default_premissas_dict_def default_financiamento_dict_def recompute_total_def
      clean_modalidade_def Let_def)

end
